theory Spec2Isabelle
  imports Complex_Main
begin

section \<open>Numbers: IEEE binary64 values as rationals\<close>

text \<open>
  Every number of the program is a NumPy \<open>float64\<close>. A finite binary64 value is a rational
  number, so the model computes with \<^typ>\<open>rat\<close> and writes out the two places where the
  program rounds data that the properties below depend on: a decimal literal of the
  source denotes the nearest binary64 value (ties to even), and the arithmetic of the
  entry points on arrays (the subtraction of the origin, a scalar times a matrix) returns
  the nearest binary64 value of the exact result. Integer literals up to \<open>2^53\<close> are
  binary64 values themselves and are written as they stand. Overflow to infinity and NaN
  are outside the model.
\<close>

definition round_half_even :: "rat \<Rightarrow> int" where
  "round_half_even q = (let f = \<lfloor>q\<rfloor>; r = q - of_int f in
     if r < 1/2 then f else if 1/2 < r then f + 1 else if even f then f else f + 1)"

text \<open>\<open>exponent_of n q\<close> is the binary exponent \<open>e\<close> of a positive \<open>q\<close>
  (\<open>2^e \<le> q < 2^(e+1)\<close>), found by halving or doubling at most \<open>n\<close> times.\<close>

fun exponent_of :: "nat \<Rightarrow> rat \<Rightarrow> int" where
  "exponent_of 0 q = 0"
| "exponent_of (Suc n) q = (if q < 1 then exponent_of n (2 * q) - 1
     else if 2 \<le> q then exponent_of n (q / 2) + 1 else 0)"

definition pow2 :: "int \<Rightarrow> rat" where
  "pow2 e = (if 0 \<le> e then 2 ^ nat e else 1 / 2 ^ nat (- e))"

text \<open>Round to nearest, ties to even, on the binary64 grid: 53 significant bits, the
  exponent not below \<open>-1022\<close> (below it the grid is the subnormal one, of step \<open>2^-1074\<close>).\<close>

definition binary64 :: "rat \<Rightarrow> rat" where
  "binary64 q = (if q = 0 then 0 else
     let e = max (exponent_of 1100 \<bar>q\<bar>) (- 1022); ulp = pow2 (e - 52)
     in of_int (round_half_even (q / ulp)) * ulp)"

definition fsub :: "rat \<Rightarrow> rat \<Rightarrow> rat" where
  "fsub a b = binary64 (a - b)"

section \<open>Vectors, matrices, polytopes and boxes\<close>

text \<open>A column vector (an \<open>n\<times>1\<close> array of the source) is a list; a matrix is the list of
  its rows.\<close>

type_synonym vec = "rat list"
type_synonym mat = "rat list list"

definition dot :: "vec \<Rightarrow> vec \<Rightarrow> rat" where
  "dot u v = sum_list (map2 (*) u v)"

definition mat_vec :: "mat \<Rightarrow> vec \<Rightarrow> vec" where
  "mat_vec M x = map (\<lambda>row. dot row x) M"

definition vec_add :: "vec \<Rightarrow> vec \<Rightarrow> vec" where
  "vec_add u v = map2 (+) u v"

text \<open>The in-place \<open>s -= origin\<close> of two arrays of one shape.\<close>

definition vec_fsub :: "vec \<Rightarrow> vec \<Rightarrow> vec" where
  "vec_fsub u v = map2 fsub u v"

text \<open>The half-space region \<open>{x : H x \<le> c}\<close>: every row of \<open>H\<close> has the dimension of
  \<open>x\<close>, there is one bias per row, and row by row \<open>H\<^sub>i \<cdot> x \<le> c\<^sub>i\<close>.\<close>

definition in_halfspace :: "mat \<Rightarrow> vec \<Rightarrow> vec \<Rightarrow> bool" where
  "in_halfspace H c x \<longleftrightarrow>
     list_all (\<lambda>row. length row = length x) H \<and> list_all2 (\<lambda>row ci. dot row x \<le> ci) H c"

text \<open>The axis-aligned box \<open>[lower, upper]\<close>.\<close>

definition in_box :: "vec \<Rightarrow> vec \<Rightarrow> vec \<Rightarrow> bool" where
  "in_box lower upper x \<longleftrightarrow> list_all2 (\<le>) lower x \<and> list_all2 (\<le>) x upper"

definition zeros :: "nat \<Rightarrow> nat \<Rightarrow> mat" where
  "zeros r c = replicate r (replicate c 0)"

definition identity :: "nat \<Rightarrow> mat" where
  "identity n = map (\<lambda>i. map (\<lambda>j. if i = j then 1 else 0) [0..<n]) [0..<n]"

definition scale :: "rat \<Rightarrow> mat \<Rightarrow> mat" where
  "scale a M = map (map (\<lambda>v. binary64 (a * v))) M"

text \<open>The item assignment \<open>M[i, j] = v\<close>; the benchmarks only assign inside the shape.\<close>

definition setitem :: "mat \<Rightarrow> nat \<Rightarrow> nat \<Rightarrow> rat \<Rightarrow> mat" where
  "setitem M i j v = M[i := (M ! i)[j := v]]"

section \<open>The benchmark entry points\<close>

text \<open>The arguments of the \<open>Environment\<close> constructor, in its order
  \<open>(A, B, u_min, u_max, s_min, s_max, x_min, x_max, Q, R)\<close>.\<close>

record environment =
  env_A :: mat
  env_B :: mat
  env_u_min :: vec
  env_u_max :: vec
  env_s_min :: vec
  env_s_max :: vec
  env_x_min :: vec
  env_x_max :: vec
  env_Q :: mat
  env_R :: mat

text \<open>The keyword arguments of \<open>Shield(env, K_list=Ks, inv_list=invs, cover_list=covers,
  bound=episode_len)\<close>: the gains, the invariants \<open>(H, c)\<close> and the covers
  \<open>(H, c, lower, upper)\<close>.\<close>

record shield_args =
  K_list :: "mat list"
  inv_list :: "(mat \<times> vec) list"
  cover_list :: "(mat \<times> vec \<times> vec \<times> vec) list"
  bound :: int

subsection \<open>benchmarks/cruise.py\<close>

definition cruise :: "int \<Rightarrow> environment \<times> shield_args" where
  "cruise episode_len =
    (let A = [[binary64 0.99501]];
         B = [[binary64 0.0078125]];
         s_min = [- 1];
         s_max = [1];
         Q = [[1]];
         R = [[binary64 0.0005]];
         x_min = [- binary64 1.5];
         x_max = [binary64 1.5];
         u_min = [- 10];
         u_max = [10];
         env = \<lparr>env_A = A, env_B = B, env_u_min = u_min, env_u_max = u_max,
                env_s_min = s_min, env_s_max = s_max, env_x_min = x_min, env_x_max = x_max,
                env_Q = Q, env_R = R\<rparr>;
         Ks = [[[- binary64 127.36128]]];
         invs = [([[1], [- 1]], [1, 1])];
         covers = [(fst (invs ! 0), snd (invs ! 0), [- 1], [1])]
     in (env, \<lparr>K_list = Ks, inv_list = invs, cover_list = covers, bound = episode_len\<rparr>))"

subsection \<open>benchmarks/quadcopter.py\<close>

definition quadcopter :: "int \<Rightarrow> environment \<times> shield_args" where
  "quadcopter episode_len =
    (let A = [[1, 1], [0, 1]];
         B = [[0], [1]];
         s_min = [- binary64 0.5, - binary64 0.5];
         s_max = [binary64 0.5, binary64 0.5];
         Q = [[1, 0], [0, 0]];
         R = [[1]];
         x_min = [- 1, - 1];
         x_max = [1, 1];
         u_min = [- 15];
         u_max = [15];
         env = \<lparr>env_A = A, env_B = B, env_u_min = u_min, env_u_max = u_max,
                env_s_min = s_min, env_s_max = s_max, env_x_min = x_min, env_x_max = x_max,
                env_Q = Q, env_R = R\<rparr>;
         Ks = [[[- 2, - 1]]];
         invs = [([[1, 0], [- 1, 0], [0, 1], [0, - 1]],
                  [binary64 0.5, binary64 0.5, binary64 0.5, binary64 0.5])];
         covers = [(fst (invs ! 0), snd (invs ! 0),
                    [- binary64 0.5, - binary64 0.5],
                    [binary64 0.5, binary64 0.5])]
     in (env, \<lparr>K_list = Ks, inv_list = invs, cover_list = covers, bound = episode_len\<rparr>))"

subsection \<open>benchmarks/magnetic-pointer.py and benchmarks/4-car-platoon.py\<close>

text \<open>Both entry points fill the invariant and its cover with the same loop:
  \<^verbatim>\<open>
    for i in range(n):
        mat[2*i, i] = 1
        mat[2*i+1, i] = -1
        bias[2*i, 0] = s_max[i, 0]
        bias[2*i+1, 0] = s_max[i, 0]
        lower[i, 0] = s_min[i, 0]
        upper[i, 0] = s_max[i, 0]
  \<close>
  The state of the loop is \<open>(mat, bias, lower, upper)\<close>.\<close>

definition fill_step :: "vec \<Rightarrow> vec \<Rightarrow> nat \<Rightarrow> mat \<times> vec \<times> vec \<times> vec \<Rightarrow> mat \<times> vec \<times> vec \<times> vec" where
  "fill_step s_min s_max i st =
    (case st of (mat, bias, lower, upper) \<Rightarrow>
      (setitem (setitem mat (2 * i) i 1) (2 * i + 1) i (- 1),
       bias[2 * i := s_max ! i, 2 * i + 1 := s_max ! i],
       lower[i := s_min ! i],
       upper[i := s_max ! i]))"

definition fill_cover :: "nat \<Rightarrow> vec \<Rightarrow> vec \<Rightarrow> mat \<times> vec \<times> vec \<times> vec" where
  "fill_cover n s_min s_max =
     fold (fill_step s_min s_max) [0..<n]
       (zeros (2 * n) n, replicate (2 * n) 0, replicate n 0, replicate n 0)"

definition magneticpointer :: "int \<Rightarrow> environment \<times> shield_args" where
  "magneticpointer episode_len =
    (let A = [[binary64 2.6629, - binary64 1.1644, binary64 0.66598],
              [2, 0, 0],
              [0, binary64 0.5, 0]];
         B = [[binary64 0.25], [0], [0]];
         s_min = [- 1, - 1, - 1];
         s_max = [1, 1, 1];
         Q = [[1, 0, 0], [0, 1, 0], [0, 0, 1]];
         R = [[1]];
         x_min = [- binary64 3.5, - binary64 3.5, - binary64 3.5];
         x_max = [binary64 3.5, binary64 3.5, binary64 3.5];
         u_min = [- 15];
         u_max = [15];
         env = \<lparr>env_A = A, env_B = B, env_u_min = u_min, env_u_max = u_max,
                env_s_min = s_min, env_s_max = s_max, env_x_min = x_min, env_x_max = x_max,
                env_Q = Q, env_R = R\<rparr>;
         Ks = [[[- 10, 0, 0]]]
     in case fill_cover 3 s_min s_max of (mat, bias, lower, upper) \<Rightarrow>
        (env, \<lparr>K_list = Ks, inv_list = [(mat, bias)],
               cover_list = [(mat, bias, lower, upper)], bound = episode_len\<rparr>))"

definition carplatoon_4 :: "int \<Rightarrow> environment \<times> shield_args" where
  "carplatoon_4 episode_len =
    (let A = [[1, 0, 0, 0, 0, 0, 0],
              [0, 1, binary64 0.1, 0, 0, 0, 0],
              [0, 0, 1, 0, 0, 0, 0],
              [0, 0, 0, 1, binary64 0.1, 0, 0],
              [0, 0, 0, 0, 1, 0, 0],
              [0, 0, 0, 0, 0, 1, binary64 0.1],
              [0, 0, 0, 0, 0, 0, 1]];
         B = [[binary64 0.1, 0, 0, 0],
              [0, 0, 0, 0],
              [binary64 0.1, - binary64 0.1, 0, 0],
              [0, 0, 0, 0],
              [0, binary64 0.1, - binary64 0.1, 0],
              [0, 0, 0, 0],
              [0, 0, binary64 0.1, - binary64 0.1]];
         s_min = [binary64 19.9, binary64 0.9, - binary64 0.1, binary64 0.9, - binary64 0.1,
                  binary64 0.9, - binary64 0.1];
         s_max = [binary64 20.1, binary64 1.1, binary64 0.1, binary64 1.1, binary64 0.1,
                  binary64 1.1, binary64 0.1];
         Q = identity 7;
         R = scale (binary64 0.0005) (identity 4);
         x_min = [18, binary64 0.5, - binary64 0.35, binary64 0.5, - 1, binary64 0.5, - 1];
         x_max = [22, binary64 1.5, binary64 0.35, binary64 1.5, 1, binary64 1.5, 1];
         u_min = [- 10, - 10, - 10, - 10];
         u_max = [10, 10, 10, 10];
         origin = [20, 1, 0, 1, 0, 1, 0];
         s_min = vec_fsub s_min origin;
         s_max = vec_fsub s_max origin;
         x_min = vec_fsub x_min origin;
         x_max = vec_fsub x_max origin;
         env = \<lparr>env_A = A, env_B = B, env_u_min = u_min, env_u_max = u_max,
                env_s_min = s_min, env_s_max = s_max, env_x_min = x_min, env_x_max = x_max,
                env_Q = Q, env_R = R\<rparr>;
         Ks = [[[- 10, 0, 0, 0, 0, 0, 0],
                [- 10, 0, 10, 0, 0, 0, 0],
                [- 10, 0, 10, 0, 10, 0, 0],
                [- 10, 0, 10, 0, 10, 0, 10]]]
     in case fill_cover 7 s_min s_max of (mat, bias, lower, upper) \<Rightarrow>
        (env, \<lparr>K_list = Ks, inv_list = [(mat, bias)],
               cover_list = [(mat, bias, lower, upper)], bound = episode_len\<rparr>))"

text \<open>After the shift and the construction of the environment the 4-car entry point
  computes \<open>x_mid = (x_min + x_max) / 2.0\<close> from the shifted arrays (the reward measures the
  distance to it), fills the cover as above, and hands the environment to \<open>Shield\<close> and to
  \<open>DDPG\<close>. It reads \<open>origin\<close> nowhere else.\<close>

definition vec_mid :: "vec \<Rightarrow> vec \<Rightarrow> vec" where
  "vec_mid u v = map2 (\<lambda>a b. binary64 (binary64 (a + b) / 2)) u v"

definition carplatoon_4_x_mid :: "int \<Rightarrow> vec" where
  "carplatoon_4_x_mid episode_len =
     (let env = fst (carplatoon_4 episode_len) in vec_mid (env_x_min env) (env_x_max env))"

definition carplatoon_4_calls :: "int \<Rightarrow> (string \<times> environment) list" where
  "carplatoon_4_calls episode_len =
     (let env = fst (carplatoon_4 episode_len) in [(''Shield'', env), (''DDPG'', env)])"

subsection \<open>back/8-car-platoon_ddpg_shield.py\<close>

text \<open>This entry point hard-codes no shield: it builds the environment and trains one.
  \<open>np.fill_diagonal\<close> on a zero matrix gives the scaled identity.\<close>

definition fill_diagonal :: "mat \<Rightarrow> rat \<Rightarrow> mat" where
  "fill_diagonal M v = map (\<lambda>i. (M ! i)[i := v]) [0..<length M]"

definition carplatoon_8 :: environment where
  "carplatoon_8 =
    (let A = [[1, 0, 0, 0, 0, 0, 0, 0, 0, 0, 0, 0, 0, 0, 0],
              [0, 1, binary64 0.1, 0, 0, 0, 0, 0, 0, 0, 0, 0, 0, 0, 0],
              [0, 0, 1, 0, 0, 0, 0, 0, 0, 0, 0, 0, 0, 0, 0],
              [0, 0, 0, 1, binary64 0.1, 0, 0, 0, 0, 0, 0, 0, 0, 0, 0],
              [0, 0, 0, 0, 1, 0, 0, 0, 0, 0, 0, 0, 0, 0, 0],
              [0, 0, 0, 0, 0, 1, binary64 0.1, 0, 0, 0, 0, 0, 0, 0, 0],
              [0, 0, 0, 0, 0, 0, 1, 0, 0, 0, 0, 0, 0, 0, 0],
              [0, 0, 0, 0, 0, 0, 0, 1, binary64 0.1, 0, 0, 0, 0, 0, 0],
              [0, 0, 0, 0, 0, 0, 0, 0, 1, 0, 0, 0, 0, 0, 0],
              [0, 0, 0, 0, 0, 0, 0, 0, 0, 1, binary64 0.1, 0, 0, 0, 0],
              [0, 0, 0, 0, 0, 0, 0, 0, 0, 0, 1, 0, 0, 0, 0],
              [0, 0, 0, 0, 0, 0, 0, 0, 0, 0, 0, 1, binary64 0.1, 0, 0],
              [0, 0, 0, 0, 0, 0, 0, 0, 0, 0, 0, 0, 1, 0, 0],
              [0, 0, 0, 0, 0, 0, 0, 0, 0, 0, 0, 0, 0, 1, binary64 0.1],
              [0, 0, 0, 0, 0, 0, 0, 0, 0, 0, 0, 0, 0, 0, 1]];
         B = [[binary64 0.1, 0, 0, 0, 0, 0, 0, 0],
              [0, 0, 0, 0, 0, 0, 0, 0],
              [binary64 0.1, - binary64 0.1, 0, 0, 0, 0, 0, 0],
              [0, 0, 0, 0, 0, 0, 0, 0],
              [0, binary64 0.1, - binary64 0.1, 0, 0, 0, 0, 0],
              [0, 0, 0, 0, 0, 0, 0, 0],
              [0, 0, binary64 0.1, - binary64 0.1, 0, 0, 0, 0],
              [0, 0, 0, 0, 0, 0, 0, 0],
              [0, 0, 0, binary64 0.1, - binary64 0.1, 0, 0, 0],
              [0, 0, 0, 0, 0, 0, 0, 0],
              [0, 0, 0, 0, binary64 0.1, - binary64 0.1, 0, 0],
              [0, 0, 0, 0, 0, 0, 0, 0],
              [0, 0, 0, 0, 0, binary64 0.1, - binary64 0.1, 0],
              [0, 0, 0, 0, 0, 0, 0, 0],
              [0, 0, 0, 0, 0, 0, binary64 0.1, - binary64 0.1]];
         s_min = [binary64 19.9, binary64 0.9, - binary64 0.1, binary64 0.9, - binary64 0.1,
                  binary64 0.9, - binary64 0.1, binary64 0.9, - binary64 0.1, binary64 0.9,
                  - binary64 0.1, binary64 0.9, - binary64 0.1, binary64 0.9, - binary64 0.1];
         s_max = [binary64 20.1, binary64 1.1, binary64 0.1, binary64 1.1, binary64 0.1,
                  binary64 1.1, binary64 0.1, binary64 1.1, binary64 0.1, binary64 1.1,
                  binary64 0.1, binary64 1.1, binary64 0.1, binary64 1.1, binary64 0.1];
         Q = fill_diagonal (zeros 15 15) 1;
         R = fill_diagonal (zeros 8 8) (binary64 0.0005);
         x_min = [18, binary64 0.5, - 1, binary64 0.5, - 1, binary64 0.5, - 1, binary64 0.5,
                  - 1, binary64 0.5, - 1, binary64 0.5, - 1, binary64 0.5, - 1];
         x_max = [22, binary64 1.5, 1, binary64 1.5, 1, binary64 1.5, 1, binary64 1.5, 1,
                  binary64 1.5, 1, binary64 1.5, 1, binary64 1.5, 1];
         u_min = [- 10, - 10, - 10, - 10, - 10, - 10, - 10, - 10];
         u_max = [10, 10, 10, 10, 10, 10, 10, 10];
         origin = [20, 1, 0, 1, 0, 1, 0, 1, 0, 1, 0, 1, 0, 1, 0];
         s_min = vec_fsub s_min origin;
         s_max = vec_fsub s_max origin;
         x_min = vec_fsub x_min origin;
         x_max = vec_fsub x_max origin
     in \<lparr>env_A = A, env_B = B, env_u_min = u_min, env_u_max = u_max,
         env_s_min = s_min, env_s_max = s_max, env_x_min = x_min, env_x_max = x_max,
         env_Q = Q, env_R = R\<rparr>)"

text \<open>The rest of the 8-car entry point reads neither the bound arrays nor \<open>origin\<close>: it
  hands the environment to these calls, in this order.\<close>

definition carplatoon_8_calls :: "(string \<times> environment) list" where
  "carplatoon_8_calls =
     (let env = carplatoon_8
      in [(''DDPG'', env), (''Shield'', env), (''actor_boundary'', env),
          (''metrics.distance_between_linear_function_and_neural_network'', env),
          (''metrics.neural_network_performance'', env),
          (''metrics.linear_function_performance'', env)])"

subsection \<open>benchmarks/tape.py\<close>

definition tape :: environment where
  "tape =
    (let A = [[binary64 (5.5197 / 10 ^ 17), - binary64 (3.5503 / 10 ^ 17), binary64 (6.2468 / 10 ^ 32)],
              [binary64 (2.7756 / 10 ^ 17), 0, 0],
              [0, binary64 (2.7756 / 10 ^ 17), 0]];
         B = [[binary64 0.25], [0], [0]];
         s_min = [- 1, - 1, - 1];
         s_max = [1, 1, 1];
         Q = [[1, 0, 0], [0, 1, 0], [0, 0, 1]];
         R = [[binary64 0.0005]];
         x_min = [- 3, - 3, - 3];
         x_max = [3, 3, 3];
         u_min = [- 10];
         u_max = [10]
     in \<lparr>env_A = A, env_B = B, env_u_min = u_min, env_u_max = u_max,
         env_s_min = s_min, env_s_max = s_max, env_x_min = x_min, env_x_max = x_max,
         env_Q = Q, env_R = R\<rparr>)"

section \<open>The shield at run time\<close>

text \<open>Modelled from the spec: the \<open>Environment\<close> class is not among the sources, only its
  constructor calls are. The spec gives its one-step linear model as
  \<open>x' = A x + B u\<close> (section 4.4, step 2), computed here over the rationals.\<close>

definition next_state :: "environment \<Rightarrow> vec \<Rightarrow> vec \<Rightarrow> vec" where
  "next_state env x u = vec_add (mat_vec (env_A env) x) (mat_vec (env_B env) u)"

text \<open>Modelled from the spec: the verified linear action \<open>u = K x\<close> and the successor it
  leads to, \<open>x' = A x + B (K x)\<close>; the \<open>Shield\<close> class that applies it is not among the
  sources.\<close>

definition closed_loop :: "environment \<Rightarrow> mat \<Rightarrow> vec \<Rightarrow> vec" where
  "closed_loop env K x = next_state env x (mat_vec K x)"

text \<open>Modelled from the spec: the state after \<open>n\<close> steps under \<open>u = K x\<close>.\<close>

fun trajectory :: "environment \<Rightarrow> mat \<Rightarrow> nat \<Rightarrow> vec \<Rightarrow> vec" where
  "trajectory env K 0 x = x"
| "trajectory env K (Suc n) x = closed_loop env K (trajectory env K n x)"

text \<open>Modelled from the spec: a ShieldEntry is the tuple (K, invariant, cover) of section 3;
  the stack holds the entries in the order of the three lists given to \<open>Shield\<close>.\<close>

record shield_entry =
  entry_K :: mat
  entry_inv :: "mat \<times> vec"
  entry_cover :: "mat \<times> vec \<times> vec \<times> vec"

definition shield_stack :: "shield_args \<Rightarrow> shield_entry list" where
  "shield_stack sh =
     map (\<lambda>(K, inv, cover). \<lparr>entry_K = K, entry_inv = inv, entry_cover = cover\<rparr>)
       (zip (K_list sh) (zip (inv_list sh) (cover_list sh)))"

text \<open>Modelled from the spec: \<open>stack.resolve(x)\<close> of section 4.3 returns the first entry, in
  order, whose cover box contains \<open>x\<close>, or nothing when \<open>x\<close> is outside every cover.\<close>

definition resolve :: "shield_entry list \<Rightarrow> vec \<Rightarrow> shield_entry option" where
  "resolve stack x =
     find (\<lambda>e. case entry_cover e of (H, c, lower, upper) \<Rightarrow> in_box lower upper x) stack"

text \<open>Modelled from the spec: the two states of the per-step state machine (section 4.4)
  and the failure of the resolve step (section 7).\<close>

datatype runtime_state = POLICY_ACTIVE | SHIELD_ACTIVE

datatype shield_error = ShieldResolutionFailure

text \<open>Modelled from the spec: the transition rule of section 4.4 for the state \<open>x\<close> and the
  proposed action \<open>u_nn\<close>. Step 1 resolves the entry and fails when there is none; step 2
  predicts \<open>x' = A x + B u_nn\<close>; step 3 accepts \<open>u_nn\<close> when \<open>x'\<close> satisfies the entry's
  invariant and the safety bounds; step 4 substitutes \<open>u = K x\<close> otherwise.\<close>

definition shield_step ::
  "environment \<Rightarrow> shield_entry list \<Rightarrow> vec \<Rightarrow> vec \<Rightarrow> shield_error + runtime_state \<times> vec" where
  "shield_step env stack x u_nn =
     (case resolve stack x of
        None \<Rightarrow> Inl ShieldResolutionFailure
      | Some e \<Rightarrow>
          let x' = next_state env x u_nn in
          if in_halfspace (fst (entry_inv e)) (snd (entry_inv e)) x'
             \<and> in_box (env_x_min env) (env_x_max env) x'
          then Inr (POLICY_ACTIVE, u_nn)
          else Inr (SHIELD_ACTIVE, mat_vec (entry_K e) x))"

section \<open>The file of the synthesized gain\<close>

text \<open>\<open>os.path.split\<close> of the POSIX path module:
  \<^verbatim>\<open>
    i = p.rfind('/') + 1
    head, tail = p[:i], p[i:]
    if head and head != '/' * len(head):
        head = head.rstrip('/')
    return head, tail
  \<close>\<close>

definition rfind_sep :: "string \<Rightarrow> nat" where
  "rfind_sep p = length p - length (takeWhile (\<lambda>c. c \<noteq> CHR ''/'') (rev p))"

definition rstrip_sep :: "string \<Rightarrow> string" where
  "rstrip_sep s = rev (dropWhile (\<lambda>c. c = CHR ''/'') (rev s))"

definition os_path_split :: "string \<Rightarrow> string \<times> string" where
  "os_path_split p =
    (let i = rfind_sep p;
         head = take i p;
         tail = drop i p;
         head = (if head \<noteq> [] \<and> head \<noteq> replicate (length head) CHR ''/''
                 then rstrip_sep head else head)
     in (head, tail))"

text \<open>The seven entry points: the six of \<open>benchmarks/\<close> and
  \<open>back/8-car-platoon_ddpg_shield.py\<close>.\<close>

datatype entry_point =
  Cruise | Quadcopter | CarPlatoon4 | MagneticPointer | Suspension | Tape | CarPlatoon8

text \<open>\<open>args['model_path']\<close>: the six benchmarks choose the checkpoint name by
  \<open>retrain_nn\<close>, the 8-car platoon has one name.\<close>

fun args_model_path :: "entry_point \<Rightarrow> string \<Rightarrow> bool \<Rightarrow> string" where
  "args_model_path CarPlatoon8 train_dir retrain_nn = train_dir @ ''model.chkp''"
| "args_model_path ep train_dir retrain_nn =
     (if retrain_nn then train_dir @ ''retrained_model.chkp'' else train_dir @ ''model.chkp'')"

text \<open>Every entry point then runs the same three lines:
  \<^verbatim>\<open>
    model_path = os.path.split(args['model_path'])[0]+'/'
    linear_func_model_name = 'K.model'
    model_path = model_path+linear_func_model_name+'.npy'
  \<close>\<close>

fun shield_model_path :: "entry_point \<Rightarrow> string \<Rightarrow> bool \<Rightarrow> string" where
  "shield_model_path ep train_dir retrain_nn =
    (let model_path = fst (os_path_split (args_model_path ep train_dir retrain_nn)) @ ''/'';
         linear_func_model_name = ''K.model'';
         model_path = model_path @ linear_func_model_name @ ''.npy''
     in model_path)"

text \<open>The checkpoint directories the six benchmarks pass in their \<open>__main__\<close> blocks; the
  8-car platoon reads its directory from the command line.\<close>

fun default_train_dir :: "entry_point \<Rightarrow> string option" where
  "default_train_dir Cruise = Some ''ddpg_chkp/cruise/240200280240200/''"
| "default_train_dir Quadcopter = Some ''ddpg_chkp/quadcopter/240200280240200/''"
| "default_train_dir CarPlatoon4 =
     Some ''ddpg_chkp/car-platoon/discrete/4/500400300600500400300/''"
| "default_train_dir MagneticPointer = Some ''ddpg_chkp/magnetic_pointer/240200280240200/''"
| "default_train_dir Suspension = Some ''ddpg_chkp/suspension/240200280240200/''"
| "default_train_dir Tape = Some ''ddpg_chkp/tape/240200280240200/''"
| "default_train_dir CarPlatoon8 = None"

section \<open>pympc/optimization/solvers/gurobi.py\<close>

subsection \<open>Arrays, errors and Python values\<close>

text \<open>A two-dimensional NumPy array: its shape and its items. The shape is kept apart
  from the items because an array may have no row and still have columns.\<close>

record ndarray =
  shape0 :: nat
  shape1 :: nat
  item :: "nat \<Rightarrow> nat \<Rightarrow> rat"

definition of_rows :: "mat \<Rightarrow> ndarray" where
  "of_rows M = \<lparr>shape0 = length M, shape1 = (case M of [] \<Rightarrow> 0 | r # _ \<Rightarrow> length r),
                item = (\<lambda>i j. M ! i ! j)\<rparr>"

datatype py_error = IndexError | KeyError | ValueError | TypeError | AttributeError

datatype py_value = PyNone | PyFloat rat | PyArray "rat list" | PyList "nat list"

text \<open>\<open>str(i)\<close> of a non-negative integer.\<close>

definition digit_char :: "nat \<Rightarrow> char" where
  "digit_char n = ''0123456789'' ! n"

function str_nat :: "nat \<Rightarrow> string" where
  "str_nat n = (if n < 10 then [digit_char n] else str_nat (n div 10) @ [digit_char (n mod 10)])"
  by pat_completeness auto
termination
  by (relation "measure id") auto

declare str_nat.simps [simp del]

subsection \<open>Gurobi expressions, constraints and models\<close>

text \<open>A \<open>LinExpr\<close> is a list of terms (coefficient, variable index) and a constant;
  \<open>add\<close> appends. A \<open>QuadExpr\<close> has quadratic terms (coefficient, two variable indices)
  and a linear part.\<close>

record lin_expr =
  lin_terms :: "(rat \<times> nat) list"
  lin_const :: rat

record quad_expr =
  quad_terms :: "(rat \<times> nat \<times> nat) list"
  quad_lin :: lin_expr

definition LinExpr :: lin_expr where
  "LinExpr = \<lparr>lin_terms = [], lin_const = 0\<rparr>"

definition QuadExpr :: quad_expr where
  "QuadExpr = \<lparr>quad_terms = [], quad_lin = LinExpr\<rparr>"

definition add_term :: "lin_expr \<Rightarrow> rat \<Rightarrow> nat \<Rightarrow> lin_expr" where
  "add_term expr a j = expr\<lparr>lin_terms := lin_terms expr @ [(a, j)]\<rparr>"

definition add_const :: "lin_expr \<Rightarrow> rat \<Rightarrow> lin_expr" where
  "add_const expr b = expr\<lparr>lin_const := binary64 (lin_const expr + b)\<rparr>"

definition add_quad_term :: "quad_expr \<Rightarrow> rat \<Rightarrow> nat \<Rightarrow> nat \<Rightarrow> quad_expr" where
  "add_quad_term expr h i j = expr\<lparr>quad_terms := quad_terms expr @ [(h, i, j)]\<rparr>"

datatype vtype = CONTINUOUS | BINARY

text \<open>A variable: its lower bound (\<open>None\<close> is \<open>-GRB.INFINITY\<close>) and its type.\<close>

record grb_var =
  v_lb :: "rat option"
  v_vtype :: vtype

datatype sense = LESS_EQUAL | EQUAL

text \<open>The constraint \<open>expr <= 0\<close> or \<open>expr == 0\<close> under a name.\<close>

record constr =
  c_name :: string
  c_expr :: lin_expr
  c_sense :: sense

record grb_model =
  m_vars :: "grb_var list"
  m_constrs :: "constr list"
  m_objective :: quad_expr
  m_params :: "(string \<times> rat) list"

definition setParam :: "grb_model \<Rightarrow> string \<Rightarrow> rat \<Rightarrow> grb_model" where
  "setParam model parameter v = model\<lparr>m_params := m_params model @ [(parameter, v)]\<rparr>"

definition getConstrByName :: "grb_model \<Rightarrow> string \<Rightarrow> constr option" where
  "getConstrByName model name = find (\<lambda>c. c_name c = name) (m_constrs model)"

text \<open>What \<open>model.optimize()\<close> leaves to read: the status, the objective value, the values
  of the variables and, by constraint name, the attributes \<open>Pi\<close> and \<open>CBasis\<close>. The
  optimizer itself is Gurobi; the functions below take it as the parameter \<open>optimize\<close>.\<close>

datatype grb_status =
  LOADED | OPTIMAL | INFEASIBLE | INF_OR_UNBD | UNBOUNDED | CUTOFF | ITERATION_LIMIT
  | NODE_LIMIT | TIME_LIMIT | SOLUTION_LIMIT | INTERRUPTED | NUMERIC | SUBOPTIMAL

record grb_result =
  status :: grb_status
  objVal :: rat
  var_x :: "rat list"
  attr_Pi :: "string \<Rightarrow> rat"
  attr_CBasis :: "string \<Rightarrow> int"

subsection \<open>linear_expression and quadratic_expression\<close>

text \<open>The default tolerances \<open>tol=1.e-10\<close> and \<open>tol=1.e-7\<close>.\<close>

definition linear_expression_tol :: rat where
  "linear_expression_tol = binary64 (1 / 10 ^ 10)"

definition quadratic_expression_tol :: rat where
  "quadratic_expression_tol = binary64 (1 / 10 ^ 7)"

text \<open>The variables \<open>x\<close> are the ones \<open>addVars(n_x)\<close> made: \<open>x[j]\<close> exists for \<open>j < n_x\<close> and
  raises \<open>KeyError\<close> otherwise. The inner loop of \<open>linear_expression\<close> over the columns
  \<open>js\<close> of row \<open>i\<close>: a term is added when \<open>np.abs(A[i,j]) > tol\<close>, and only then is
  \<open>x[j]\<close> looked up.\<close>

fun linear_row :: "ndarray \<Rightarrow> nat \<Rightarrow> rat \<Rightarrow> nat \<Rightarrow> nat list \<Rightarrow> lin_expr \<Rightarrow> py_error + lin_expr" where
  "linear_row A n_x tol i [] expr = Inr expr"
| "linear_row A n_x tol i (j # js) expr =
     (if \<bar>item A i j\<bar> > tol
      then (if j < n_x then linear_row A n_x tol i js (add_term expr (item A i j) j)
            else Inl KeyError)
      else linear_row A n_x tol i js expr)"

text \<open>The outer loop over the rows \<open>is\<close>: the row's terms, then the offset \<open>b[i]\<close> when
  \<open>np.abs(b[i]) > tol\<close>; \<open>b[i]\<close> raises \<open>IndexError\<close> past the end of \<open>b\<close>.\<close>

fun linear_rows :: "ndarray \<Rightarrow> vec \<Rightarrow> nat \<Rightarrow> rat \<Rightarrow> nat list \<Rightarrow> py_error + lin_expr list" where
  "linear_rows A b n_x tol [] = Inr []"
| "linear_rows A b n_x tol (i # is) =
     (case linear_row A n_x tol i [0..<shape1 A] LinExpr of
        Inl e \<Rightarrow> Inl e
      | Inr expr \<Rightarrow>
          if i < length b
          then (let expr = (if \<bar>b ! i\<bar> > tol then add_const expr (b ! i) else expr)
                in case linear_rows A b n_x tol is of
                     Inl e \<Rightarrow> Inl e
                   | Inr exprs \<Rightarrow> Inr (expr # exprs))
          else Inl IndexError)"

definition linear_expression :: "ndarray \<Rightarrow> vec \<Rightarrow> nat \<Rightarrow> rat \<Rightarrow> py_error + lin_expr list" where
  "linear_expression A b n_x tol = linear_rows A b n_x tol [0..<shape0 A]"

text \<open>\<open>quadratic_expression\<close>: the term \<open>x[i]*H[i,j]*x[j]\<close> is added when
  \<open>np.abs(H[i,j]) > tol\<close>; \<open>x[i]\<close> is looked up before \<open>x[j]\<close>.\<close>

fun quadratic_row :: "ndarray \<Rightarrow> nat \<Rightarrow> rat \<Rightarrow> nat \<Rightarrow> nat list \<Rightarrow> quad_expr \<Rightarrow> py_error + quad_expr" where
  "quadratic_row H n_x tol i [] expr = Inr expr"
| "quadratic_row H n_x tol i (j # js) expr =
     (if \<bar>item H i j\<bar> > tol
      then (if i < n_x \<and> j < n_x
            then quadratic_row H n_x tol i js (add_quad_term expr (item H i j) i j)
            else Inl KeyError)
      else quadratic_row H n_x tol i js expr)"

fun quadratic_rows :: "ndarray \<Rightarrow> nat \<Rightarrow> rat \<Rightarrow> nat list \<Rightarrow> quad_expr \<Rightarrow> py_error + quad_expr" where
  "quadratic_rows H n_x tol [] expr = Inr expr"
| "quadratic_rows H n_x tol (i # is) expr =
     (case quadratic_row H n_x tol i [0..<shape1 H] expr of
        Inl e \<Rightarrow> Inl e
      | Inr expr \<Rightarrow> quadratic_rows H n_x tol is expr)"

definition quadratic_expression :: "ndarray \<Rightarrow> nat \<Rightarrow> rat \<Rightarrow> py_error + quad_expr" where
  "quadratic_expression H n_x tol = quadratic_rows H n_x tol [0..<shape0 H] QuadExpr"

subsection \<open>_build_model\<close>

text \<open>The constraints \<open>expr <= 0\<close> named \<open>ineq_i\<close> and \<open>expr == 0\<close> named \<open>eq_i\<close>, in the
  order of \<open>enumerate\<close>.\<close>

definition named_constrs :: "string \<Rightarrow> sense \<Rightarrow> lin_expr list \<Rightarrow> constr list" where
  "named_constrs prefix s exprs =
     map (\<lambda>(i, expr). \<lparr>c_name = prefix @ str_nat i, c_expr = expr, c_sense = s\<rparr>)
       (zip [0..<length exprs] exprs)"

text \<open>\<open>f.reshape(1, max(f.shape))\<close>: the items in row-major order as one row; it raises
  \<open>ValueError\<close> unless \<open>f\<close> has exactly \<open>max(f.shape)\<close> items.\<close>

definition flat :: "ndarray \<Rightarrow> rat list" where
  "flat f = concat (map (\<lambda>i. map (item f i) [0..<shape1 f]) [0..<shape0 f])"

definition reshape_row :: "ndarray \<Rightarrow> nat \<Rightarrow> py_error + ndarray" where
  "reshape_row f n =
     (if shape0 f * shape1 f = n
      then Inr \<lparr>shape0 = 1, shape1 = n, item = (\<lambda>i j. flat f ! j)\<rparr>
      else Inl ValueError)"

text \<open>\<open>.5*expr\<close> halves every coefficient; \<open>cost.add(expr[0])\<close> appends the linear terms.\<close>

definition half :: "quad_expr \<Rightarrow> quad_expr" where
  "half expr = expr\<lparr>quad_terms := map (\<lambda>(h, i, j). (binary64 (h / 2), i, j)) (quad_terms expr)\<rparr>"

definition add_lin :: "quad_expr \<Rightarrow> lin_expr \<Rightarrow> quad_expr" where
  "add_lin cost expr =
     cost\<lparr>quad_lin := \<lparr>lin_terms = lin_terms (quad_lin cost) @ lin_terms expr,
                        lin_const = binary64 (lin_const (quad_lin cost) + lin_const expr)\<rparr>\<rparr>"

definition build_model ::
  "ndarray option \<Rightarrow> ndarray \<Rightarrow> ndarray \<Rightarrow> vec \<Rightarrow> ndarray option \<Rightarrow> vec option
     \<Rightarrow> py_error + grb_model" where
  "build_model H f A b C d =
    (let n_x = max (shape0 f) (shape1 f);
         x = replicate n_x \<lparr>v_lb = None, v_vtype = CONTINUOUS\<rparr>
     in case linear_expression A (map uminus b) n_x linear_expression_tol of
          Inl e \<Rightarrow> Inl e
        | Inr ineqs \<Rightarrow>
     (case (case (C, d) of
              (Some C', Some d') \<Rightarrow> linear_expression C' (map uminus d') n_x linear_expression_tol
            | _ \<Rightarrow> Inr []) of
          Inl e \<Rightarrow> Inl e
        | Inr eqs \<Rightarrow>
     (case (case H of
              Some H' \<Rightarrow> (case quadratic_expression H' n_x quadratic_expression_tol of
                            Inl e \<Rightarrow> Inl e
                          | Inr expr \<Rightarrow> Inr (half expr))
            | None \<Rightarrow> Inr QuadExpr) of
          Inl e \<Rightarrow> Inl e
        | Inr cost \<Rightarrow>
     (case reshape_row f n_x of
          Inl e \<Rightarrow> Inl e
        | Inr f' \<Rightarrow>
     (case linear_expression f' [0] n_x linear_expression_tol of
          Inl e \<Rightarrow> Inl e
        | Inr expr \<Rightarrow>
            Inr \<lparr>m_vars = x,
                 m_constrs = named_constrs ''ineq_'' LESS_EQUAL ineqs
                             @ named_constrs ''eq_'' EQUAL eqs,
                 m_objective = add_lin cost (expr ! 0),
                 m_params = []\<rparr>)))))"

subsection \<open>_reorganize_solution\<close>

text \<open>The loops \<open>for i in range(n): constr = model.getConstrByName(prefix+str(i));
  ... constr.getAttr(...)\<close>: the attribute of every named constraint, in order. A name the
  model does not have gives no constraint to read the attribute of.\<close>

fun constr_attrs :: "grb_model \<Rightarrow> (string \<Rightarrow> 'a) \<Rightarrow> string \<Rightarrow> nat list \<Rightarrow> py_error + 'a list" where
  "constr_attrs model attr prefix [] = Inr []"
| "constr_attrs model attr prefix (i # is) =
     (case getConstrByName model (prefix @ str_nat i) of
        None \<Rightarrow> Inl AttributeError
      | Some constr \<Rightarrow>
          (case constr_attrs model attr prefix is of
             Inl e \<Rightarrow> Inl e
           | Inr vs \<Rightarrow> Inr (attr (c_name constr) # vs)))"

text \<open>\<open>np.vstack\<close> of a list of numbers is the column of them; of the empty list it raises
  \<open>ValueError\<close>.\<close>

definition vstack :: "rat list \<Rightarrow> py_error + rat list" where
  "vstack vs = (if vs = [] then Inl ValueError else Inr vs)"

definition reorganize_solution ::
  "grb_model \<Rightarrow> grb_result \<Rightarrow> ndarray \<Rightarrow> ndarray option \<Rightarrow> bool
     \<Rightarrow> py_error + (string \<rightharpoonup> py_value)" where
  "reorganize_solution model res A C continuous_sol =
    (let sol = [''min'' \<mapsto> PyNone, ''argmin'' \<mapsto> PyNone];
         sol = (if continuous_sol
                then sol(''active_set'' \<mapsto> PyNone, ''multiplier_inequality'' \<mapsto> PyNone,
                         ''multiplier_equality'' \<mapsto> PyNone)
                else sol)
     in if status res = OPTIMAL
        then (let sol = sol(''min'' \<mapsto> PyFloat (objVal res), ''argmin'' \<mapsto> PyArray (var_x res))
              in if continuous_sol
                 then (case constr_attrs model (\<lambda>n. - attr_Pi res n) ''ineq_'' [0..<shape0 A] of
                         Inl e \<Rightarrow> Inl e
                       | Inr ineq_mult \<Rightarrow>
                      (case vstack ineq_mult of
                         Inl e \<Rightarrow> Inl e
                       | Inr m \<Rightarrow>
                           (let sol = sol(''multiplier_inequality'' \<mapsto> PyArray m)
                            in case C of
                                 None \<Rightarrow> Inr sol
                               | Some C' \<Rightarrow>
                                   if shape0 C' > 0
                                   then (case constr_attrs model (\<lambda>n. - attr_Pi res n) ''eq_''
                                                [0..<shape0 C'] of
                                           Inl e \<Rightarrow> Inl e
                                         | Inr eq_mult \<Rightarrow>
                                        (case vstack eq_mult of
                                           Inl e \<Rightarrow> Inl e
                                         | Inr m' \<Rightarrow>
                                             Inr (sol(''multiplier_equality'' \<mapsto> PyArray m'))))
                                   else Inr sol)))
                 else Inr sol)
        else Inr sol)"

subsection \<open>linear_program, quadratic_program, mixed_integer_quadratic_program\<close>

text \<open>The keyword arguments are solver parameters, set in order after the function's own.\<close>

definition set_kwargs :: "(string \<times> rat) list \<Rightarrow> grb_model \<Rightarrow> grb_model" where
  "set_kwargs kwargs model = fold (\<lambda>(parameter, v) m. setParam m parameter v) kwargs model"

text \<open>The active set of \<open>linear_program\<close>: the rows \<open>i\<close> of \<open>range(n)\<close> whose constraint
  has \<open>CBasis == -1\<close>, in order.\<close>

definition nonbasic_rows :: "int list \<Rightarrow> nat \<Rightarrow> nat list" where
  "nonbasic_rows cbasis n = filter (\<lambda>i. cbasis ! i = - 1) [0..<n]"

text \<open>The model \<open>linear_program\<close> hands to \<open>model.optimize()\<close>.\<close>

definition linear_program_model ::
  "ndarray \<Rightarrow> ndarray \<Rightarrow> vec \<Rightarrow> ndarray option \<Rightarrow> vec option \<Rightarrow> (string \<times> rat) list
     \<Rightarrow> py_error + grb_model" where
  "linear_program_model f A b C d kwargs =
    (case build_model None f A b C d of
       Inl e \<Rightarrow> Inl e
     | Inr model \<Rightarrow> Inr (set_kwargs kwargs (setParam model ''OutputFlag'' 0)))"

definition linear_program ::
  "(grb_model \<Rightarrow> grb_result) \<Rightarrow> ndarray \<Rightarrow> ndarray \<Rightarrow> vec \<Rightarrow> ndarray option \<Rightarrow> vec option
     \<Rightarrow> (string \<times> rat) list \<Rightarrow> py_error + (string \<rightharpoonup> py_value)" where
  "linear_program optimize f A b C d kwargs =
    (case linear_program_model f A b C d kwargs of
       Inl e \<Rightarrow> Inl e
     | Inr model \<Rightarrow>
         (let res = optimize model
          in case reorganize_solution model res A C True of
               Inl e \<Rightarrow> Inl e
             | Inr sol \<Rightarrow>
                 if status res = OPTIMAL
                 then (case constr_attrs model (attr_CBasis res) ''ineq_'' [0..<shape0 A] of
                         Inl e \<Rightarrow> Inl e
                       | Inr cbasis \<Rightarrow>
                           Inr (sol(''active_set'' \<mapsto>
                                  PyList (nonbasic_rows cbasis (shape0 A)))))
                 else Inr sol))"

text \<open>The model \<open>quadratic_program\<close> hands to \<open>model.optimize()\<close>.\<close>

definition quadratic_program_model ::
  "ndarray \<Rightarrow> ndarray \<Rightarrow> ndarray \<Rightarrow> vec \<Rightarrow> ndarray option \<Rightarrow> vec option
     \<Rightarrow> (string \<times> rat) list \<Rightarrow> py_error + grb_model" where
  "quadratic_program_model H f A b C d kwargs =
    (case build_model (Some H) f A b C d of
       Inl e \<Rightarrow> Inl e
     | Inr model \<Rightarrow>
         Inr (set_kwargs kwargs
                (setParam (setParam model ''OutputFlag'' 0) ''BarConvTol''
                   (binary64 (1 / 10 ^ 10)))))"

text \<open>\<open>np.where(sol['multiplier_inequality'] > tol)[0].tolist()\<close>: the row indices of the
  column whose item exceeds \<open>tol\<close>, ascending.\<close>

definition where_greater :: "rat list \<Rightarrow> rat \<Rightarrow> nat list" where
  "where_greater m tol = filter (\<lambda>i. m ! i > tol) [0..<length m]"

definition quadratic_program ::
  "(grb_model \<Rightarrow> grb_result) \<Rightarrow> ndarray \<Rightarrow> ndarray \<Rightarrow> ndarray \<Rightarrow> vec \<Rightarrow> ndarray option
     \<Rightarrow> vec option \<Rightarrow> rat \<Rightarrow> (string \<times> rat) list \<Rightarrow> py_error + (string \<rightharpoonup> py_value)" where
  "quadratic_program optimize H f A b C d tol kwargs =
    (case quadratic_program_model H f A b C d kwargs of
       Inl e \<Rightarrow> Inl e
     | Inr model \<Rightarrow>
         (let res = optimize model
          in case reorganize_solution model res A C True of
               Inl e \<Rightarrow> Inl e
             | Inr sol \<Rightarrow>
                 if status res = OPTIMAL
                 then (case sol ''multiplier_inequality'' of
                         Some (PyArray m) \<Rightarrow>
                           Inr (sol(''active_set'' \<mapsto> PyList (where_greater m tol)))
                       | _ \<Rightarrow> Inl TypeError)
                 else Inr sol))"

text \<open>Python's \<open>x[i]\<close> on a list: a negative index counts from the end, an index outside
  the list raises \<open>IndexError\<close>.\<close>

definition py_index :: "'a list \<Rightarrow> int \<Rightarrow> py_error + nat" where
  "py_index xs i =
     (let n = int (length xs); j = (if i < 0 then n + i else i)
      in if 0 \<le> j \<and> j < n then Inr (nat j) else Inl IndexError)"

text \<open>\<open>for i in range(nc, A.shape[1]): x[i].setAttr('vtype', grb.GRB.BINARY)\<close> over the
  indices \<open>is\<close> of the range.\<close>

fun set_binary :: "int list \<Rightarrow> grb_var list \<Rightarrow> py_error + grb_var list" where
  "set_binary [] x = Inr x"
| "set_binary (i # is) x =
     (case py_index x i of
        Inl e \<Rightarrow> Inl e
      | Inr k \<Rightarrow> set_binary is (x[k := (x ! k)\<lparr>v_vtype := BINARY\<rparr>]))"

text \<open>The model \<open>mixed_integer_quadratic_program\<close> hands to \<open>model.optimize()\<close>.\<close>

definition mixed_integer_quadratic_program_model ::
  "int \<Rightarrow> ndarray \<Rightarrow> ndarray \<Rightarrow> ndarray \<Rightarrow> vec \<Rightarrow> ndarray option \<Rightarrow> vec option
     \<Rightarrow> (string \<times> rat) list \<Rightarrow> py_error + grb_model" where
  "mixed_integer_quadratic_program_model nc H f A b C d kwargs =
    (case build_model (Some H) f A b C d of
       Inl e \<Rightarrow> Inl e
     | Inr model \<Rightarrow>
         (case set_binary [nc..int (shape1 A) - 1] (m_vars model) of
            Inl e \<Rightarrow> Inl e
          | Inr x \<Rightarrow>
              Inr (set_kwargs kwargs (setParam (model\<lparr>m_vars := x\<rparr>) ''OutputFlag'' 0))))"

definition mixed_integer_quadratic_program ::
  "(grb_model \<Rightarrow> grb_result) \<Rightarrow> int \<Rightarrow> ndarray \<Rightarrow> ndarray \<Rightarrow> ndarray \<Rightarrow> vec
     \<Rightarrow> ndarray option \<Rightarrow> vec option \<Rightarrow> (string \<times> rat) list
     \<Rightarrow> py_error + (string \<rightharpoonup> py_value)" where
  "mixed_integer_quadratic_program optimize nc H f A b C d kwargs =
    (case mixed_integer_quadratic_program_model nc H f A b C d kwargs of
       Inl e \<Rightarrow> Inl e
     | Inr model \<Rightarrow> reorganize_solution model (optimize model) A C False)"

text \<open>The inequality rows tight at a point: \<open>{i | A_i x = b_i}\<close>, ascending.\<close>

definition tight_rows :: "ndarray \<Rightarrow> vec \<Rightarrow> vec \<Rightarrow> nat list" where
  "tight_rows A b x =
     filter (\<lambda>i. sum_list (map (\<lambda>j. item A i j * x ! j) [0..<shape1 A]) = b ! i) [0..<shape0 A]"

section \<open>The properties the claims are about\<close>

text \<open>Cover soundness at a point: a point of the half-space region lies in the cover box.\<close>

definition cover_sound :: "mat \<times> vec \<times> vec \<times> vec \<Rightarrow> vec \<Rightarrow> bool" where
  "cover_sound cover x \<longleftrightarrow>
     (case cover of (H, c, lower, upper) \<Rightarrow> in_halfspace H c x \<longrightarrow> in_box lower upper x)"

text \<open>The same against the symmetric box \<open>[- upper, upper]\<close>.\<close>

definition cover_sound_symmetric :: "mat \<times> vec \<times> vec \<times> vec \<Rightarrow> vec \<Rightarrow> bool" where
  "cover_sound_symmetric cover x \<longleftrightarrow>
     (case cover of (H, c, lower, upper) \<Rightarrow>
        in_halfspace H c x \<longrightarrow> in_box (map uminus upper) upper x)"

text \<open>A state satisfies an entry's invariant \<open>H x \<le> c\<close>; a state lies within the
  environment's safety bounds \<open>[x_min, x_max]\<close>.\<close>

definition satisfies_invariant :: "shield_entry \<Rightarrow> vec \<Rightarrow> bool" where
  "satisfies_invariant e x \<longleftrightarrow> in_halfspace (fst (entry_inv e)) (snd (entry_inv e)) x"

definition within_safety :: "environment \<Rightarrow> vec \<Rightarrow> bool" where
  "within_safety env x \<longleftrightarrow> in_box (env_x_min env) (env_x_max env) x"

text \<open>A region of the 4-car platoon's state space that contains the entry's invariant, lies
  within the safety bounds and is kept by every step under \<open>u = K x\<close>: each velocity-like
  coordinate is at most \<open>1/5\<close> in absolute value, and each gap coordinate plus the
  coordinate that drives it at most \<open>1/4\<close>.\<close>

definition carplatoon_4_region :: "vec \<Rightarrow> bool" where
  "carplatoon_4_region x \<longleftrightarrow>
     length x = 7
     \<and> \<bar>x ! 0\<bar> \<le> 1 / 5
     \<and> \<bar>x ! 1\<bar> + \<bar>x ! 2\<bar> \<le> 1 / 4 \<and> \<bar>x ! 2\<bar> \<le> 1 / 5
     \<and> \<bar>x ! 3\<bar> + \<bar>x ! 4\<bar> \<le> 1 / 4 \<and> \<bar>x ! 4\<bar> \<le> 1 / 5
     \<and> \<bar>x ! 5\<bar> + \<bar>x ! 6\<bar> \<le> 1 / 4 \<and> \<bar>x ! 6\<bar> \<le> 1 / 5"

section \<open>Problem instances\<close>

text \<open>The linear program \<open>min -x  s.t.  x \<le> 1, x \<le> 1\<close>: one variable, the same row twice.
  Its optimum is \<open>x = 1\<close> with both rows tight. A basis of it has exactly one nonbasic
  row, since the free variable \<open>x = 1\<close> is basic; the optimizer's answer below is the
  one with row 0 nonbasic and the multipliers \<open>(1, 0)\<close>.\<close>

definition degenerate_lp_f :: ndarray where
  "degenerate_lp_f = of_rows [[- 1]]"

definition degenerate_lp_A :: ndarray where
  "degenerate_lp_A = of_rows [[1], [1]]"

definition degenerate_lp_b :: vec where
  "degenerate_lp_b = [1, 1]"

definition degenerate_lp_optimum :: "grb_model \<Rightarrow> grb_result" where
  "degenerate_lp_optimum model =
     \<lparr>status = OPTIMAL, objVal = - 1, var_x = [1],
      attr_Pi = (\<lambda>n. if n = ''ineq_0'' then - 1 else 0),
      attr_CBasis = (\<lambda>n. if n = ''ineq_0'' then - 1 else 0)\<rparr>"

text \<open>The quadratic program \<open>min x\<^sup>2/2  s.t.  x \<le> -1, -x \<le> -1\<close> has no feasible point.\<close>

definition infeasible_qp_A :: ndarray where
  "infeasible_qp_A = of_rows [[1], [- 1]]"

definition infeasible_answer :: "grb_model \<Rightarrow> grb_result" where
  "infeasible_answer model =
     \<lparr>status = INFEASIBLE, objVal = 0, var_x = [], attr_Pi = (\<lambda>n. 0), attr_CBasis = (\<lambda>n. 0)\<rparr>"

text \<open>The mixed-integer program \<open>min x\<^sub>0\<^sup>2/2 + x\<^sub>1\<^sup>2/2 - x\<^sub>1  s.t.  x\<^sub>0 + x\<^sub>1 \<le> 1\<close> with \<open>nc = 1\<close>:
  \<open>x\<^sub>0\<close> continuous, \<open>x\<^sub>1\<close> binary; its optimum is \<open>(0, 1)\<close> with value \<open>-1/2\<close>.\<close>

definition small_miqp_H :: ndarray where
  "small_miqp_H = of_rows [[1, 0], [0, 1]]"

definition small_miqp_f :: ndarray where
  "small_miqp_f = of_rows [[0], [- 1]]"

definition small_miqp_A :: ndarray where
  "small_miqp_A = of_rows [[1, 1]]"

definition small_miqp_optimum :: "grb_model \<Rightarrow> grb_result" where
  "small_miqp_optimum model =
     \<lparr>status = OPTIMAL, objVal = - (1 / 2), var_x = [0, 1],
      attr_Pi = (\<lambda>n. 0), attr_CBasis = (\<lambda>n. 0)\<rparr>"

section \<open>Facts about binary64 rounding\<close>

lemma pow2_powi: "pow2 e = 2 powi e"
  by (simp add: pow2_def power_int_def inverse_eq_divide power_one_over)

lemma round_half_even_near: "\<bar>x - of_int m\<bar> < 1/2 \<Longrightarrow> round_half_even x = m"
proof -
  assume a: "\<bar>x - of_int m\<bar> < 1/2"
  have "\<lfloor>x\<rfloor> = m \<or> \<lfloor>x\<rfloor> = m - 1" using a by linarith
  then show ?thesis
  proof
    assume f: "\<lfloor>x\<rfloor> = m"
    then have "x - of_int \<lfloor>x\<rfloor> < 1/2" using a by linarith
    then show ?thesis using f by (simp add: round_half_even_def Let_def)
  next
    assume f: "\<lfloor>x\<rfloor> = m - 1"
    then have "1/2 < x - of_int \<lfloor>x\<rfloor>" using a by linarith
    then show ?thesis using f by (simp add: round_half_even_def Let_def)
  qed
qed

lemma pow2_double: "pow2 (e + 1) = 2 * pow2 e"
  by (simp add: pow2_powi power_int_add)

lemma pow2_mono: "a \<le> b \<Longrightarrow> pow2 a \<le> pow2 b"
  unfolding pow2_powi by (intro power_int_increasing) auto

lemma exponent_of_correct:
  "0 < q \<Longrightarrow> pow2 e \<le> q \<Longrightarrow> q < pow2 (e + 1) \<Longrightarrow> \<bar>e\<bar> \<le> int n \<Longrightarrow> exponent_of n q = e"
proof (induction n arbitrary: q e)
  case 0
  then show ?case by simp
next
  case (Suc n)
  show ?case
  proof (cases "q < 1")
    case True
    have neg: "e < 0"
    proof (rule ccontr)
      assume "\<not> e < 0"
      then have "pow2 0 \<le> pow2 e" by (intro pow2_mono) simp
      with Suc.prems True show False by (simp add: pow2_def)
    qed
    have "exponent_of n (2 * q) = e + 1"
      using Suc.prems neg pow2_double[of e] pow2_double[of "e + 1"] by (intro Suc.IH) auto
    then show ?thesis using True by simp
  next
    case False
    show ?thesis
    proof (cases "2 \<le> q")
      case True
      have pos: "0 < e"
      proof (rule ccontr)
        assume "\<not> 0 < e"
        then have "pow2 (e + 1) \<le> pow2 1" by (intro pow2_mono) simp
        with Suc.prems True show False by (simp add: pow2_def)
      qed
      have "exponent_of n (q / 2) = e - 1"
        using Suc.prems pos pow2_double[of "e - 1"] pow2_double[of e] by (intro Suc.IH) auto
      then show ?thesis using True False by simp
    next
      case small: False
      have "\<not> e < 0"
      proof
        assume "e < 0"
        then have "pow2 (e + 1) \<le> pow2 0" by (intro pow2_mono) simp
        with Suc.prems False show False by (simp add: pow2_def)
      qed
      moreover have "\<not> 0 < e"
      proof
        assume "0 < e"
        then have "pow2 1 \<le> pow2 e" by (intro pow2_mono) simp
        with Suc.prems small show False by (simp add: pow2_def)
      qed
      ultimately show ?thesis using False small by simp
    qed
  qed
qed

text \<open>A rational \<open>q\<close> of binary exponent \<open>e\<close> rounds to \<open>m * 2^(e - 52)\<close> when \<open>m\<close> is the
  integer within less than a half of \<open>q / 2^(e - 52)\<close>.\<close>

lemma binary64_eqI:
  assumes "pow2 e \<le> \<bar>q\<bar>" "\<bar>q\<bar> < pow2 (e + 1)" "- 1022 \<le> e" "e \<le> 1023"
    and "\<bar>q / pow2 (e - 52) - of_int m\<bar> < 1/2"
  shows "binary64 q = of_int m * pow2 (e - 52)"
proof -
  have "0 < pow2 e" by (simp add: pow2_powi)
  then have q: "0 < \<bar>q\<bar>" using assms(1) by linarith
  have "exponent_of 1100 \<bar>q\<bar> = e"
    using q assms by (intro exponent_of_correct) auto
  then show ?thesis using q assms by (simp add: binary64_def Let_def round_half_even_near)
qed

subsection \<open>The binary64 values of the literals the proofs read\<close>

text \<open>Each literal is written as the simplifier normalises it: \<open>0.9\<close> is \<open>9 / 10\<close>,
  \<open>127.36128\<close> is \<open>398004 / 3125\<close>, \<open>1e-10\<close> is \<open>1 / 10000000000\<close>.\<close>

lemma b64_0_9: "binary64 (9 / 10) = 8106479329266893 / 9007199254740992"
  using binary64_eqI [of "- 1" "9 / 10" 8106479329266893] by (simp add: pow2_def)

lemma b64_1_1: "binary64 (11 / 10) = 2476979795053773 / 2251799813685248"
  using binary64_eqI [of "0" "11 / 10" 4953959590107546] by (simp add: pow2_def)

lemma b64_19_9: "binary64 (199 / 10) = 2800676018271027 / 140737488355328"
  using binary64_eqI [of "4" "199 / 10" 5601352036542054] by (simp add: pow2_def)

lemma b64_20_1: "binary64 (201 / 10) = 2828823515942093 / 140737488355328"
  using binary64_eqI [of "4" "201 / 10" 5657647031884186] by (simp add: pow2_def)

lemma b64_0_1: "binary64 (1 / 10) = 3602879701896397 / 36028797018963968"
  using binary64_eqI [of "- 4" "1 / 10" 7205759403792794] by (simp add: pow2_def)

lemma b64_0_5: "binary64 (1 / 2) = 1 / 2"
  using binary64_eqI [of "- 1" "1 / 2" 4503599627370496] by (simp add: pow2_def)

lemma b64_1_5: "binary64 (3 / 2) = 3 / 2"
  using binary64_eqI [of "0" "3 / 2" 6755399441055744] by (simp add: pow2_def)

lemma b64_0_35: "binary64 (7 / 20) = 3152519739159347 / 9007199254740992"
  using binary64_eqI [of "- 2" "7 / 20" 6305039478318694] by (simp add: pow2_def)

lemma b64_0_99501: "binary64 (99501 / 100000) = 4481126665229917 / 4503599627370496"
  using binary64_eqI [of "- 1" "99501 / 100000" 8962253330459834] by (simp add: pow2_def)

lemma b64_127_36128: "binary64 (398004 / 3125) = 4481126665229917 / 35184372088832"
  using binary64_eqI [of "6" "398004 / 3125" 8962253330459834] by (simp add: pow2_def)

lemma b64_0_0078125: "binary64 (1 / 128) = 1 / 128"
  using binary64_eqI [of "- 7" "1 / 128" 4503599627370496] by (simp add: pow2_def)

lemma b64_1e_10: "binary64 (1 / 10000000000) = 7737125245533627 / 77371252455336267181195264"
  using binary64_eqI [of "- 34" "1 / 10000000000" 7737125245533627] by (simp add: pow2_def)

lemma b64_1e_7: "binary64 (1 / 10000000) = 944473296573929 / 9444732965739290427392"
  using binary64_eqI [of "- 24" "1 / 10000000" 7555786372591432] by (simp add: pow2_def)

lemma b64_5_5197e_17: "binary64 (55197 / 1000000000000000000000) = 4478112651571045 / 81129638414606681695789005144064"
  using binary64_eqI [of "- 55" "55197 / 1000000000000000000000" 8956225303142090] by (simp add: pow2_def)

lemma b64_3_5503e_17: "binary64 (35503 / 1000000000000000000000) = 2880345552633781 / 81129638414606681695789005144064"
  using binary64_eqI [of "- 55" "35503 / 1000000000000000000000" 5760691105267562] by (simp add: pow2_def)

lemma b64_6_2468e_32: "binary64 (15617 / 250000000000000000000000000000000000) = 2853033883774589 / 45671926166590716193865151022383844364247891968"
  using binary64_eqI [of "- 104" "15617 / 250000000000000000000000000000000000" 5706067767549178] by (simp add: pow2_def)

lemma b64_2_7756e_17: "binary64 (6939 / 250000000000000000000) = 2251834243835823 / 81129638414606681695789005144064"
  using binary64_eqI [of "- 55" "6939 / 250000000000000000000" 4503668487671646] by (simp add: pow2_def)

lemma b64_2_6629: "binary64 (26629 / 10000) = 5996317723862447 / 2251799813685248"
  using binary64_eqI [of "1" "26629 / 10000" 5996317723862447] by (simp add: pow2_def)

lemma b64_1_1644: "binary64 (2911 / 2500) = 2621995703055103 / 2251799813685248"
  using binary64_eqI [of "0" "2911 / 2500" 5243991406110206] by (simp add: pow2_def)

lemma b64_0_66598: "binary64 (33299 / 50000) = 2999307279836203 / 4503599627370496"
  using binary64_eqI [of "- 1" "33299 / 50000" 5998614559672406] by (simp add: pow2_def)

lemma b64_0_25: "binary64 (1 / 4) = 1 / 4"
  using binary64_eqI [of "- 2" "1 / 4" 4503599627370496] by (simp add: pow2_def)

lemma b64_3_5: "binary64 (7 / 2) = 7 / 2"
  using binary64_eqI [of "1" "7 / 2" 7881299347898368] by (simp add: pow2_def)

text \<open>The subtractions of the coordinate shift are exact: the difference of the two
  binary64 values is a binary64 value.\<close>

lemma fsub_0_9: "fsub (8106479329266893 / 9007199254740992) 1 = - (900719925474099 / 9007199254740992)"
  using binary64_eqI [of "- 4" "- (900719925474099 / 9007199254740992)" "- 7205759403792792"] by (simp add: fsub_def pow2_def)

lemma fsub_1_1: "fsub (2476979795053773 / 2251799813685248) 1 = 225179981368525 / 2251799813685248"
  using binary64_eqI [of "- 4" "225179981368525 / 2251799813685248" "7205759403792800"] by (simp add: fsub_def pow2_def)

lemma fsub_19_9: "fsub (2800676018271027 / 140737488355328) 20 = - (14073748835533 / 140737488355328)"
  using binary64_eqI [of "- 4" "- (14073748835533 / 140737488355328)" "- 7205759403792896"] by (simp add: fsub_def pow2_def)

lemma fsub_20_1: "fsub (2828823515942093 / 140737488355328) 20 = 14073748835533 / 140737488355328"
  using binary64_eqI [of "- 4" "14073748835533 / 140737488355328" "7205759403792896"] by (simp add: fsub_def pow2_def)

lemma fsub_0_5: "fsub (1 / 2) 1 = - (1 / 2)"
  using binary64_eqI [of "- 1" "- (1 / 2)" "- 4503599627370496"] by (simp add: fsub_def pow2_def)

lemma fsub_1_5: "fsub (3 / 2) 1 = 1 / 2"
  using binary64_eqI [of "- 1" "1 / 2" "4503599627370496"] by (simp add: fsub_def pow2_def)

lemma fsub_0_1_zero: "fsub (3602879701896397 / 36028797018963968) 0 = 3602879701896397 / 36028797018963968"
  using binary64_eqI [of "- 4" "3602879701896397 / 36028797018963968" "7205759403792794"] by (simp add: fsub_def pow2_def)

lemma fsub_neg_0_1_zero: "fsub (- (3602879701896397 / 36028797018963968)) 0 = - (3602879701896397 / 36028797018963968)"
  using binary64_eqI [of "- 4" "- (3602879701896397 / 36028797018963968)" "- 7205759403792794"] by (simp add: fsub_def pow2_def)


lemma fsub_ints:
  "fsub 18 20 = - 2" "fsub 22 20 = 2" "fsub (- 1) 0 = - 1" "fsub 1 0 = 1"
  using binary64_eqI [of 1 "- 2" "- 4503599627370496"] binary64_eqI [of 1 2 4503599627370496]
    binary64_eqI [of 0 "- 1" "- 4503599627370496"] binary64_eqI [of 0 1 4503599627370496]
  by (simp_all add: fsub_def pow2_def)

lemma fsub_0_35_zero:
  "fsub (3152519739159347 / 9007199254740992) 0 = 3152519739159347 / 9007199254740992"
  "fsub (- (3152519739159347 / 9007199254740992)) 0 = - (3152519739159347 / 9007199254740992)"
  using binary64_eqI [of "- 2" "3152519739159347 / 9007199254740992" 6305039478318694]
    binary64_eqI [of "- 2" "- (3152519739159347 / 9007199254740992)" "- 6305039478318694"]
  by (simp_all add: fsub_def pow2_def)

lemma binary64_unit: "binary64 1 = 1" "binary64 (- 1) = - 1"
  using binary64_eqI [of 0 1 4503599627370496] binary64_eqI [of 0 "- 1" "- 4503599627370496"]
  by (simp_all add: pow2_def)

lemma binary64_zero: "binary64 0 = 0"
  by (simp add: binary64_def)

section \<open>The hard-coded shields, evaluated\<close>

lemmas b64_vals = b64_0_9 b64_1_1 b64_19_9 b64_20_1 b64_0_1 b64_0_5 b64_1_5
  fsub_0_9 fsub_1_1 fsub_19_9 fsub_20_1 fsub_0_1_zero fsub_neg_0_1_zero

lemma cruise_cover: "cover_list (snd (cruise el)) ! 0 = ([[1], [- 1]], [1, 1], [- 1], [1])"
  by (simp add: cruise_def Let_def)

lemma quadcopter_cover: "cover_list (snd (quadcopter el)) ! 0 =
   ([[1, 0], [- 1, 0], [0, 1], [0, - 1]], [1/2, 1/2, 1/2, 1/2], [- (1/2), - (1/2)], [1/2, 1/2])"
  by (simp add: quadcopter_def Let_def b64_0_5)

lemma upt3: "[0..<3] = [0, 1, 2]"
  by (simp add: upt_rec)

lemma upt7: "[0..<7] = [0, 1, 2, 3, 4, 5, 6]"
  by (simp add: upt_rec)

lemma fill_cover_3: "fill_cover 3 [a0, a1, a2] [b0, b1, b2] =
  ([[1, 0, 0], [- 1, 0, 0], [0, 1, 0], [0, - 1, 0], [0, 0, 1], [0, 0, - 1]],
   [b0, b0, b1, b1, b2, b2], [a0, a1, a2], [b0, b1, b2])"
  by (simp add: fill_cover_def fill_step_def setitem_def zeros_def upt3 numeral_eq_Suc)

lemma fill_cover_7: "fill_cover 7 [a0, a1, a2, a3, a4, a5, a6] [b0, b1, b2, b3, b4, b5, b6] =
  ([[1, 0, 0, 0, 0, 0, 0], [- 1, 0, 0, 0, 0, 0, 0],
    [0, 1, 0, 0, 0, 0, 0], [0, - 1, 0, 0, 0, 0, 0],
    [0, 0, 1, 0, 0, 0, 0], [0, 0, - 1, 0, 0, 0, 0],
    [0, 0, 0, 1, 0, 0, 0], [0, 0, 0, - 1, 0, 0, 0],
    [0, 0, 0, 0, 1, 0, 0], [0, 0, 0, 0, - 1, 0, 0],
    [0, 0, 0, 0, 0, 1, 0], [0, 0, 0, 0, 0, - 1, 0],
    [0, 0, 0, 0, 0, 0, 1], [0, 0, 0, 0, 0, 0, - 1]],
   [b0, b0, b1, b1, b2, b2, b3, b3, b4, b4, b5, b5, b6, b6],
   [a0, a1, a2, a3, a4, a5, a6], [b0, b1, b2, b3, b4, b5, b6])"
  by (simp add: fill_cover_def fill_step_def setitem_def zeros_def upt7 numeral_eq_Suc)

lemma magneticpointer_cover: "cover_list (snd (magneticpointer el)) ! 0 =
  ([[1, 0, 0], [- 1, 0, 0], [0, 1, 0], [0, - 1, 0], [0, 0, 1], [0, 0, - 1]],
   [1, 1, 1, 1, 1, 1], [- 1, - 1, - 1], [1, 1, 1])"
  by (simp add: magneticpointer_def Let_def fill_cover_3)

lemma carplatoon_4_cover: "cover_list (snd (carplatoon_4 el)) ! 0 =
  ([[1, 0, 0, 0, 0, 0, 0], [- 1, 0, 0, 0, 0, 0, 0],
    [0, 1, 0, 0, 0, 0, 0], [0, - 1, 0, 0, 0, 0, 0],
    [0, 0, 1, 0, 0, 0, 0], [0, 0, - 1, 0, 0, 0, 0],
    [0, 0, 0, 1, 0, 0, 0], [0, 0, 0, - 1, 0, 0, 0],
    [0, 0, 0, 0, 1, 0, 0], [0, 0, 0, 0, - 1, 0, 0],
    [0, 0, 0, 0, 0, 1, 0], [0, 0, 0, 0, 0, - 1, 0],
    [0, 0, 0, 0, 0, 0, 1], [0, 0, 0, 0, 0, 0, - 1]],
   [14073748835533 / 140737488355328, 14073748835533 / 140737488355328,
    225179981368525 / 2251799813685248, 225179981368525 / 2251799813685248,
    3602879701896397 / 36028797018963968, 3602879701896397 / 36028797018963968,
    225179981368525 / 2251799813685248, 225179981368525 / 2251799813685248,
    3602879701896397 / 36028797018963968, 3602879701896397 / 36028797018963968,
    225179981368525 / 2251799813685248, 225179981368525 / 2251799813685248,
    3602879701896397 / 36028797018963968, 3602879701896397 / 36028797018963968],
   [- (14073748835533 / 140737488355328), - (900719925474099 / 9007199254740992),
    - (3602879701896397 / 36028797018963968), - (900719925474099 / 9007199254740992),
    - (3602879701896397 / 36028797018963968), - (900719925474099 / 9007199254740992),
    - (3602879701896397 / 36028797018963968)],
   [14073748835533 / 140737488355328, 225179981368525 / 2251799813685248,
    3602879701896397 / 36028797018963968, 225179981368525 / 2251799813685248,
    3602879701896397 / 36028797018963968, 225179981368525 / 2251799813685248,
    3602879701896397 / 36028797018963968])"
  by (simp add: carplatoon_4_def Let_def vec_fsub_def b64_vals fill_cover_7)

lemma length1E: "length xs = Suc 0 \<Longrightarrow> \<exists>a. xs = [a]"
  by (cases xs) auto

lemma length2E: "length xs = 2 \<Longrightarrow> \<exists>a b. xs = [a, b]"
  by (auto simp: numeral_eq_Suc length_Suc_conv)

lemma length3E: "length xs = 3 \<Longrightarrow> \<exists>a b c. xs = [a, b, c]"
  by (auto simp: numeral_eq_Suc length_Suc_conv)

lemma length7E: "length xs = 7 \<Longrightarrow> \<exists>a b c d e f g. xs = [a, b, c, d, e, f, g]"
  by (auto simp: numeral_eq_Suc length_Suc_conv)

lemma cruise_cover_sound: "cover_sound (cover_list (snd (cruise el)) ! 0) x"
proof -
  { assume h: "in_halfspace [[1], [- 1]] [1, 1] x"
    then have "length x = Suc 0" by (simp add: in_halfspace_def)
    then obtain a where "x = [a]" using length1E by blast
    with h have "in_box [- 1] [1] x" by (simp add: in_halfspace_def in_box_def dot_def) }
  then show ?thesis by (simp add: cover_sound_def cruise_cover)
qed

lemma quadcopter_cover_sound: "cover_sound (cover_list (snd (quadcopter el)) ! 0) x"
proof -
  { assume h: "in_halfspace [[1, 0], [- 1, 0], [0, 1], [0, - 1]] [1/2, 1/2, 1/2, 1/2] x"
    then have "length x = 2" by (simp add: in_halfspace_def)
    then obtain a b where "x = [a, b]" using length2E by blast
    with h have "in_box [- (1/2), - (1/2)] [1/2, 1/2] x"
      by (simp add: in_halfspace_def in_box_def dot_def) }
  then show ?thesis by (simp add: cover_sound_def quadcopter_cover)
qed

lemma magneticpointer_cover_sound: "cover_sound (cover_list (snd (magneticpointer el)) ! 0) x"
proof -
  { assume h: "in_halfspace [[1, 0, 0], [- 1, 0, 0], [0, 1, 0], [0, - 1, 0], [0, 0, 1], [0, 0, - 1]]
       [1, 1, 1, 1, 1, 1] x"
    then have "length x = 3" by (simp add: in_halfspace_def)
    then obtain a b c where "x = [a, b, c]" using length3E by blast
    with h have "in_box [- 1, - 1, - 1] [1, 1, 1] x"
      by (simp add: in_halfspace_def in_box_def dot_def) }
  then show ?thesis by (simp add: cover_sound_def magneticpointer_cover)
qed

lemma carplatoon_4_cover_sound: "cover_sound_symmetric (cover_list (snd (carplatoon_4 el)) ! 0) x"
  unfolding cover_sound_symmetric_def carplatoon_4_cover prod.case
proof
  assume h: "in_halfspace [[1, 0, 0, 0, 0, 0, 0], [- 1, 0, 0, 0, 0, 0, 0],
    [0, 1, 0, 0, 0, 0, 0], [0, - 1, 0, 0, 0, 0, 0],
    [0, 0, 1, 0, 0, 0, 0], [0, 0, - 1, 0, 0, 0, 0],
    [0, 0, 0, 1, 0, 0, 0], [0, 0, 0, - 1, 0, 0, 0],
    [0, 0, 0, 0, 1, 0, 0], [0, 0, 0, 0, - 1, 0, 0],
    [0, 0, 0, 0, 0, 1, 0], [0, 0, 0, 0, 0, - 1, 0],
    [0, 0, 0, 0, 0, 0, 1], [0, 0, 0, 0, 0, 0, - 1]]
   [14073748835533 / 140737488355328, 14073748835533 / 140737488355328,
    225179981368525 / 2251799813685248, 225179981368525 / 2251799813685248,
    3602879701896397 / 36028797018963968, 3602879701896397 / 36028797018963968,
    225179981368525 / 2251799813685248, 225179981368525 / 2251799813685248,
    3602879701896397 / 36028797018963968, 3602879701896397 / 36028797018963968,
    225179981368525 / 2251799813685248, 225179981368525 / 2251799813685248,
    3602879701896397 / 36028797018963968, 3602879701896397 / 36028797018963968] x"
  then have "length x = 7" by (simp add: in_halfspace_def)
  then obtain a b c d e f g where "x = [a, b, c, d, e, f, g]" using length7E by blast
  with h show "in_box (map uminus [14073748835533 / 140737488355328, 225179981368525 / 2251799813685248,
    3602879701896397 / 36028797018963968, 225179981368525 / 2251799813685248,
    3602879701896397 / 36028797018963968, 225179981368525 / 2251799813685248,
    3602879701896397 / 36028797018963968]) [14073748835533 / 140737488355328, 225179981368525 / 2251799813685248,
    3602879701896397 / 36028797018963968, 225179981368525 / 2251799813685248,
    3602879701896397 / 36028797018963968, 225179981368525 / 2251799813685248,
    3602879701896397 / 36028797018963968] x"
    by (simp add: in_halfspace_def in_box_def dot_def)
qed

lemma carplatoon_4_x_bounds:
  "env_x_min (fst (carplatoon_4 el)) =
     [- 2, - (1 / 2), - (3152519739159347 / 9007199254740992), - (1 / 2), - 1, - (1 / 2), - 1]"
  "env_x_max (fst (carplatoon_4 el)) =
     [2, 1 / 2, 3152519739159347 / 9007199254740992, 1 / 2, 1, 1 / 2, 1]"
  by (simp_all add: carplatoon_4_def Let_def split_beta vec_fsub_def b64_0_5 b64_1_5 b64_0_35
      fsub_0_5 fsub_1_5 fsub_ints fsub_0_35_zero)

section \<open>Cover soundness\<close>

text \<open>
  Claim C2, as stated, at the 4-car platoon. The cover of that entry is filled from the shifted
  initial box: the faces of the region are \<open>x\<^sub>i \<le> s_max\<^sub>i\<close> and \<open>- x\<^sub>i \<le> s_max\<^sub>i\<close>, the lower
  corner of the cover is \<open>s_min\<^sub>i\<close>. At the coordinates 1, 3 and 5 the program computes
  \<open>s_min\<^sub>i = 0.9 - 1 = -0.09999999999999998\<close> and \<open>s_max\<^sub>i = 1.1 - 1 = 0.10000000000000009\<close>
  in binary64, so the region reaches below the cover there. The binary64 value of \<open>-0.1\<close>
  at coordinate 1 is such a point: it satisfies \<open>H x \<le> c\<close> and lies outside \<open>[lower, upper]\<close>.
\<close>

theorem carplatoon_4_cover_unsound:
  "\<not> cover_sound (cover_list (snd (carplatoon_4 50)) ! 0) [0, - binary64 0.1, 0, 0, 0, 0, 0]"
  by (simp add: cover_sound_def carplatoon_4_cover in_halfspace_def in_box_def dot_def b64_0_1)

text \<open>
  Claim C2, amended. For the cruise, quadcopter and magnetic-pointer entries every point of the
  region \<open>{x : H x \<le> c}\<close> lies in the cover box \<open>[lower, upper]\<close>. For the 4-car platoon
  entry every point of the region lies in the symmetric box \<open>[- upper, upper]\<close>, which is what
  the two faces per axis, both filled from \<open>s_max\<close>, describe.
\<close>

theorem cover_soundness:
  "cover_sound (cover_list (snd (cruise el)) ! 0) x1
   \<and> cover_sound (cover_list (snd (quadcopter el)) ! 0) x2
   \<and> cover_sound (cover_list (snd (magneticpointer el)) ! 0) x3
   \<and> cover_sound_symmetric (cover_list (snd (carplatoon_4 el)) ! 0) x7"
  by (simp add: cruise_cover_sound quadcopter_cover_sound magneticpointer_cover_sound
      carplatoon_4_cover_sound)

theorem cover_soundness_witness:
  "(case cover_list (snd (cruise 50)) ! 0 of (H, c, lower, upper) \<Rightarrow>
      in_halfspace H c [1/2] \<and> in_box lower upper [1/2])
   \<and> (case cover_list (snd (quadcopter 50)) ! 0 of (H, c, lower, upper) \<Rightarrow>
      in_halfspace H c [1/4, - (1/4)] \<and> in_box lower upper [1/4, - (1/4)])
   \<and> (case cover_list (snd (magneticpointer 50)) ! 0 of (H, c, lower, upper) \<Rightarrow>
      in_halfspace H c [1, 0, - 1] \<and> in_box lower upper [1, 0, - 1])
   \<and> (case cover_list (snd (carplatoon_4 50)) ! 0 of (H, c, lower, upper) \<Rightarrow>
      in_halfspace H c [0, - binary64 0.1, 0, 0, 0, 0, 0]
      \<and> in_box (map uminus upper) upper [0, - binary64 0.1, 0, 0, 0, 0, 0])"
proof -
  have h1: "in_halfspace [[1], [- 1]] [1, 1] [1/2]"
    by (simp add: in_halfspace_def dot_def)
  have h2: "in_halfspace [[1, 0], [- 1, 0], [0, 1], [0, - 1]] [1/2, 1/2, 1/2, 1/2] [1/4, - (1/4)]"
    by (simp add: in_halfspace_def dot_def)
  have h3: "in_halfspace [[1, 0, 0], [- 1, 0, 0], [0, 1, 0], [0, - 1, 0], [0, 0, 1], [0, 0, - 1]]
      [1, 1, 1, 1, 1, 1] [1, 0, - 1]"
    by (simp add: in_halfspace_def dot_def)
  have h7: "in_halfspace (fst (cover_list (snd (carplatoon_4 50)) ! 0))
      (fst (snd (cover_list (snd (carplatoon_4 50)) ! 0))) [0, - binary64 0.1, 0, 0, 0, 0, 0]"
    by (simp add: carplatoon_4_cover in_halfspace_def dot_def b64_0_1)
  show ?thesis
    using cover_soundness [of 50 "[1/2]" "[1/4, - (1/4)]" "[1, 0, - 1]"
        "[0, - binary64 0.1, 0, 0, 0, 0, 0]"] h1 h2 h3 h7
    by (simp add: cover_sound_def cover_sound_symmetric_def cruise_cover quadcopter_cover
        magneticpointer_cover split: prod.splits)
qed

section \<open>Forward invariance\<close>

lemma cruise_env_vals:
  "env_A (fst (cruise el)) = [[4481126665229917 / 4503599627370496]]"
  "env_B (fst (cruise el)) = [[1 / 128]]"
  "env_x_min (fst (cruise el)) = [- (3 / 2)]"
  "env_x_max (fst (cruise el)) = [3 / 2]"
  by (simp_all add: cruise_def Let_def b64_0_99501 b64_0_0078125 b64_1_5)

lemma cruise_stack:
  "shield_stack (snd (cruise el)) =
     [\<lparr>entry_K = [[- (4481126665229917 / 35184372088832)]],
       entry_inv = ([[1], [- 1]], [1, 1]),
       entry_cover = ([[1], [- 1]], [1, 1], [- 1], [1])\<rparr>]"
  by (simp add: cruise_def Let_def shield_stack_def b64_127_36128)

lemma cruise_closed_loop:
  "closed_loop (fst (cruise el)) [[- (4481126665229917 / 35184372088832)]] [a] = [0]"
  by (simp add: closed_loop_def next_state_def cruise_env_vals cruise_stack mat_vec_def
      vec_add_def dot_def)

lemma cruise_trajectory:
  "trajectory (fst (cruise el)) [[- (4481126665229917 / 35184372088832)]] (Suc n) [a] = [0]"
  by (induction n) (simp_all add: cruise_closed_loop)

lemma cruise_forward_invariant:
  assumes "satisfies_invariant (shield_stack (snd (cruise el)) ! 0) x"
  shows "satisfies_invariant (shield_stack (snd (cruise el)) ! 0)
           (trajectory (fst (cruise el)) (entry_K (shield_stack (snd (cruise el)) ! 0)) n x)
       \<and> within_safety (fst (cruise el))
           (trajectory (fst (cruise el)) (entry_K (shield_stack (snd (cruise el)) ! 0)) n x)"
proof -
  from assms have "length x = Suc 0"
    by (simp add: satisfies_invariant_def cruise_stack in_halfspace_def)
  then obtain a where x: "x = [a]" using length1E by blast
  show ?thesis
  proof (cases n)
    case 0
    with assms x show ?thesis
      by (simp add: satisfies_invariant_def within_safety_def cruise_stack cruise_env_vals
          in_halfspace_def in_box_def dot_def)
  next
    case (Suc k)
    have "satisfies_invariant (shield_stack (snd (cruise el)) ! 0) [0]"
      by (simp add: satisfies_invariant_def cruise_stack in_halfspace_def dot_def)
    moreover have "within_safety (fst (cruise el)) [0]"
      by (simp add: within_safety_def cruise_env_vals in_box_def)
    moreover have "entry_K (shield_stack (snd (cruise el)) ! 0)
        = [[- (4481126665229917 / 35184372088832)]]"
      by (simp add: cruise_stack)
    ultimately show ?thesis using Suc x by (simp only: cruise_trajectory)
  qed
qed

lemma quadcopter_env_vals:
  "env_A (fst (quadcopter el)) = [[1, 1], [0, 1]]"
  "env_B (fst (quadcopter el)) = [[0], [1]]"
  "env_x_min (fst (quadcopter el)) = [- 1, - 1]"
  "env_x_max (fst (quadcopter el)) = [1, 1]"
  by (simp_all add: quadcopter_def Let_def)

lemma quadcopter_stack:
  "shield_stack (snd (quadcopter el)) =
     [\<lparr>entry_K = [[- 2, - 1]],
       entry_inv = ([[1, 0], [- 1, 0], [0, 1], [0, - 1]], [1/2, 1/2, 1/2, 1/2]),
       entry_cover = ([[1, 0], [- 1, 0], [0, 1], [0, - 1]], [1/2, 1/2, 1/2, 1/2],
                      [- (1/2), - (1/2)], [1/2, 1/2])\<rparr>]"
  by (simp add: quadcopter_def Let_def shield_stack_def b64_0_5)

lemma quadcopter_closed_loop:
  "closed_loop (fst (quadcopter el)) [[- 2, - 1]] [a, b] = [a + b, - (2 * a)]"
  by (simp add: closed_loop_def next_state_def quadcopter_env_vals quadcopter_stack mat_vec_def
      vec_add_def dot_def)

lemma quadcopter_one_step_safe:
  assumes "satisfies_invariant (shield_stack (snd (quadcopter el)) ! 0) y"
  shows "within_safety (fst (quadcopter el))
           (closed_loop (fst (quadcopter el)) (entry_K (shield_stack (snd (quadcopter el)) ! 0)) y)"
proof -
  from assms have "length y = 2"
    by (simp add: satisfies_invariant_def quadcopter_stack in_halfspace_def)
  then obtain a b where y: "y = [a, b]" using length2E by blast
  from assms show ?thesis unfolding y
    by (simp add: quadcopter_closed_loop satisfies_invariant_def within_safety_def quadcopter_stack
        quadcopter_env_vals in_halfspace_def in_box_def dot_def)
qed

subsection \<open>The magnetic-pointer entry\<close>

lemma magneticpointer_env_vals:
  "env_A (fst (magneticpointer el)) =
     [[5996317723862447 / 2251799813685248, - (2621995703055103 / 2251799813685248),
       2999307279836203 / 4503599627370496],
      [2, 0, 0],
      [0, 1 / 2, 0]]"
  "env_B (fst (magneticpointer el)) = [[1 / 4], [0], [0]]"
  "env_x_min (fst (magneticpointer el)) = [- (7 / 2), - (7 / 2), - (7 / 2)]"
  "env_x_max (fst (magneticpointer el)) = [7 / 2, 7 / 2, 7 / 2]"
  by (simp_all add: magneticpointer_def Let_def split_beta b64_2_6629 b64_1_1644 b64_0_66598
      b64_0_5 b64_0_25 b64_3_5)

lemma magneticpointer_stack:
  "shield_stack (snd (magneticpointer el)) =
     [\<lparr>entry_K = [[- 10, 0, 0]],
       entry_inv = ([[1, 0, 0], [- 1, 0, 0], [0, 1, 0], [0, - 1, 0], [0, 0, 1], [0, 0, - 1]],
                    [1, 1, 1, 1, 1, 1]),
       entry_cover = ([[1, 0, 0], [- 1, 0, 0], [0, 1, 0], [0, - 1, 0], [0, 0, 1], [0, 0, - 1]],
                      [1, 1, 1, 1, 1, 1], [- 1, - 1, - 1], [1, 1, 1])\<rparr>]"
  by (simp add: magneticpointer_def Let_def shield_stack_def fill_cover_3)

lemma magneticpointer_closed_loop:
  "closed_loop (fst (magneticpointer el)) [[- 10, 0, 0]] [a, b, c] =
     [(366818189649327 / 2251799813685248) * a - (2621995703055103 / 2251799813685248) * b
        + (2999307279836203 / 4503599627370496) * c,
      2 * a, b / 2]"
  by (simp add: closed_loop_def next_state_def magneticpointer_env_vals mat_vec_def
      vec_add_def dot_def algebra_simps)

lemma magneticpointer_one_step_safe:
  assumes "satisfies_invariant (shield_stack (snd (magneticpointer el)) ! 0) z"
  shows "within_safety (fst (magneticpointer el))
           (closed_loop (fst (magneticpointer el))
              (entry_K (shield_stack (snd (magneticpointer el)) ! 0)) z)"
proof -
  from assms have "length z = 3"
    by (simp add: satisfies_invariant_def magneticpointer_stack in_halfspace_def)
  then obtain a b c where z: "z = [a, b, c]" using length3E by blast
  from assms have bnd: "- 1 \<le> a" "a \<le> 1" "- 1 \<le> b" "b \<le> 1" "- 1 \<le> c" "c \<le> 1"
    by (simp_all add: z satisfies_invariant_def magneticpointer_stack in_halfspace_def dot_def)
  have k: "entry_K (shield_stack (snd (magneticpointer el)) ! 0) = [[- 10, 0, 0]]"
    by (simp add: magneticpointer_stack)
  show ?thesis
    unfolding z k magneticpointer_closed_loop within_safety_def magneticpointer_env_vals
      in_box_def
    using bnd by simp
qed

subsection \<open>The 4-car platoon entry\<close>

text \<open>Under \<open>u = K x\<close> the coordinates 0, 2, 4 and 6 are multiplied by \<open>1 - 10 t = -2^-54\<close> at
  every step, \<open>t\<close> the binary64 value of \<open>0.1\<close>, and the coordinates 1, 3 and 5 gain \<open>t\<close> times
  the coordinate after them.\<close>

lemma carplatoon_4_env_vals:
  "env_A (fst (carplatoon_4 el)) =
     [[1, 0, 0, 0, 0, 0, 0],
      [0, 1, 3602879701896397 / 36028797018963968, 0, 0, 0, 0],
      [0, 0, 1, 0, 0, 0, 0],
      [0, 0, 0, 1, 3602879701896397 / 36028797018963968, 0, 0],
      [0, 0, 0, 0, 1, 0, 0],
      [0, 0, 0, 0, 0, 1, 3602879701896397 / 36028797018963968],
      [0, 0, 0, 0, 0, 0, 1]]"
  "env_B (fst (carplatoon_4 el)) =
     [[3602879701896397 / 36028797018963968, 0, 0, 0],
      [0, 0, 0, 0],
      [3602879701896397 / 36028797018963968, - (3602879701896397 / 36028797018963968), 0, 0],
      [0, 0, 0, 0],
      [0, 3602879701896397 / 36028797018963968, - (3602879701896397 / 36028797018963968), 0],
      [0, 0, 0, 0],
      [0, 0, 3602879701896397 / 36028797018963968, - (3602879701896397 / 36028797018963968)]]"
  by (simp_all add: carplatoon_4_def Let_def split_beta b64_0_1)

lemma carplatoon_4_stack:
  "shield_stack (snd (carplatoon_4 el)) =
     [\<lparr>entry_K = [[- 10, 0, 0, 0, 0, 0, 0],
                  [- 10, 0, 10, 0, 0, 0, 0],
                  [- 10, 0, 10, 0, 10, 0, 0],
                  [- 10, 0, 10, 0, 10, 0, 10]],
       entry_inv = (fst (cover_list (snd (carplatoon_4 el)) ! 0),
                    fst (snd (cover_list (snd (carplatoon_4 el)) ! 0))),
       entry_cover = cover_list (snd (carplatoon_4 el)) ! 0\<rparr>]"
  by (simp add: carplatoon_4_def Let_def shield_stack_def split_beta)

lemma carplatoon_4_closed_loop:
  "closed_loop (fst (carplatoon_4 el))
     [[- 10, 0, 0, 0, 0, 0, 0], [- 10, 0, 10, 0, 0, 0, 0], [- 10, 0, 10, 0, 10, 0, 0],
      [- 10, 0, 10, 0, 10, 0, 10]] [x0, x1, x2, x3, x4, x5, x6] =
     [- (x0 / 18014398509481984),
      x1 + (3602879701896397 / 36028797018963968) * x2,
      - (x2 / 18014398509481984),
      x3 + (3602879701896397 / 36028797018963968) * x4,
      - (x4 / 18014398509481984),
      x5 + (3602879701896397 / 36028797018963968) * x6,
      - (x6 / 18014398509481984)]"
proof -
  have "closed_loop (fst (carplatoon_4 el))
     [[- 10, 0, 0, 0, 0, 0, 0], [- 10, 0, 10, 0, 0, 0, 0], [- 10, 0, 10, 0, 10, 0, 0],
      [- 10, 0, 10, 0, 10, 0, 10]] [x0, x1, x2, x3, x4, x5, x6] =
     [x0 + (3602879701896397 / 36028797018963968) * (- (10 * x0)),
      x1 + (3602879701896397 / 36028797018963968) * x2,
      x2 + ((3602879701896397 / 36028797018963968) * (- (10 * x0))
            - (3602879701896397 / 36028797018963968) * (10 * x2 - 10 * x0)),
      x3 + (3602879701896397 / 36028797018963968) * x4,
      x4 + ((3602879701896397 / 36028797018963968) * (10 * x2 - 10 * x0)
            - (3602879701896397 / 36028797018963968) * (10 * x2 + 10 * x4 - 10 * x0)),
      x5 + (3602879701896397 / 36028797018963968) * x6,
      x6 + ((3602879701896397 / 36028797018963968) * (10 * x2 + 10 * x4 - 10 * x0)
            - (3602879701896397 / 36028797018963968) * (10 * x2 + 10 * x4 + 10 * x6 - 10 * x0))]"
    by (simp add: closed_loop_def next_state_def carplatoon_4_env_vals mat_vec_def
        vec_add_def dot_def)
  also have "\<dots> = [- (x0 / 18014398509481984),
      x1 + (3602879701896397 / 36028797018963968) * x2,
      - (x2 / 18014398509481984),
      x3 + (3602879701896397 / 36028797018963968) * x4,
      - (x4 / 18014398509481984),
      x5 + (3602879701896397 / 36028797018963968) * x6,
      - (x6 / 18014398509481984)]"
    by (simp only: list.inject simp_thms) (intro conjI; simp add: field_simps)
  finally show ?thesis .
qed

lemma carplatoon_4_region_step:
  assumes "carplatoon_4_region x"
  shows "carplatoon_4_region (closed_loop (fst (carplatoon_4 el))
           (entry_K (shield_stack (snd (carplatoon_4 el)) ! 0)) x)"
proof -
  from assms have "length x = 7" by (simp add: carplatoon_4_region_def)
  then obtain x0 x1 x2 x3 x4 x5 x6 where x: "x = [x0, x1, x2, x3, x4, x5, x6]"
    using length7E by blast
  from assms have b: "\<bar>x0\<bar> \<le> 1 / 5" "\<bar>x1\<bar> + \<bar>x2\<bar> \<le> 1 / 4" "\<bar>x2\<bar> \<le> 1 / 5"
    "\<bar>x3\<bar> + \<bar>x4\<bar> \<le> 1 / 4" "\<bar>x4\<bar> \<le> 1 / 5" "\<bar>x5\<bar> + \<bar>x6\<bar> \<le> 1 / 4" "\<bar>x6\<bar> \<le> 1 / 5"
    by (simp_all add: x carplatoon_4_region_def)
  have k: "entry_K (shield_stack (snd (carplatoon_4 el)) ! 0) =
     [[- 10, 0, 0, 0, 0, 0, 0], [- 10, 0, 10, 0, 0, 0, 0], [- 10, 0, 10, 0, 10, 0, 0],
      [- 10, 0, 10, 0, 10, 0, 10]]"
    by (simp add: carplatoon_4_stack)
  have s0: "\<bar>- (v / 18014398509481984)\<bar> \<le> 1 / 5" if "\<bar>v\<bar> \<le> 1 / 5" for v :: rat
    using that by linarith
  have s1: "\<bar>p + (3602879701896397 / 36028797018963968) * v\<bar> + \<bar>- (v / 18014398509481984)\<bar> \<le> 1 / 4"
    if "\<bar>p\<bar> + \<bar>v\<bar> \<le> 1 / 4" for p v :: rat
    using that by linarith
  show ?thesis
    unfolding x k carplatoon_4_closed_loop
    using s0 [OF b(1)] s0 [OF b(3)] s0 [OF b(5)] s0 [OF b(7)] s1 [OF b(2)] s1 [OF b(4)] s1 [OF b(6)]
    by (simp add: carplatoon_4_region_def)
qed

lemma carplatoon_4_region_trajectory:
  "carplatoon_4_region x \<Longrightarrow>
     carplatoon_4_region (trajectory (fst (carplatoon_4 el))
        (entry_K (shield_stack (snd (carplatoon_4 el)) ! 0)) n x)"
  by (induction n) (simp_all add: carplatoon_4_region_step)

lemma carplatoon_4_invariant_region:
  assumes "satisfies_invariant (shield_stack (snd (carplatoon_4 el)) ! 0) x"
  shows "carplatoon_4_region x"
proof -
  from assms have h: "in_halfspace (fst (cover_list (snd (carplatoon_4 el)) ! 0))
      (fst (snd (cover_list (snd (carplatoon_4 el)) ! 0))) x"
    by (simp add: satisfies_invariant_def carplatoon_4_stack)
  then have "length x = 7" by (simp add: carplatoon_4_cover in_halfspace_def)
  then obtain x0 x1 x2 x3 x4 x5 x6 where x: "x = [x0, x1, x2, x3, x4, x5, x6]"
    using length7E by blast
  from h have c: "x0 \<le> 14073748835533 / 140737488355328" "- x0 \<le> 14073748835533 / 140737488355328"
    "x1 \<le> 225179981368525 / 2251799813685248" "- x1 \<le> 225179981368525 / 2251799813685248"
    "x2 \<le> 3602879701896397 / 36028797018963968" "- x2 \<le> 3602879701896397 / 36028797018963968"
    "x3 \<le> 225179981368525 / 2251799813685248" "- x3 \<le> 225179981368525 / 2251799813685248"
    "x4 \<le> 3602879701896397 / 36028797018963968" "- x4 \<le> 3602879701896397 / 36028797018963968"
    "x5 \<le> 225179981368525 / 2251799813685248" "- x5 \<le> 225179981368525 / 2251799813685248"
    "x6 \<le> 3602879701896397 / 36028797018963968" "- x6 \<le> 3602879701896397 / 36028797018963968"
    unfolding x carplatoon_4_cover by (simp_all add: in_halfspace_def dot_def)
  have r: "\<bar>x0\<bar> \<le> 1 / 5" "\<bar>x1\<bar> + \<bar>x2\<bar> \<le> 1 / 4" "\<bar>x2\<bar> \<le> 1 / 5"
    "\<bar>x3\<bar> + \<bar>x4\<bar> \<le> 1 / 4" "\<bar>x4\<bar> \<le> 1 / 5" "\<bar>x5\<bar> + \<bar>x6\<bar> \<le> 1 / 4" "\<bar>x6\<bar> \<le> 1 / 5"
    using c by linarith+
  then show ?thesis
    by (simp add: x carplatoon_4_region_def)
qed

lemma carplatoon_4_region_safe:
  assumes "carplatoon_4_region x"
  shows "within_safety (fst (carplatoon_4 el)) x"
proof -
  from assms have "length x = 7" by (simp add: carplatoon_4_region_def)
  then obtain x0 x1 x2 x3 x4 x5 x6 where x: "x = [x0, x1, x2, x3, x4, x5, x6]"
    using length7E by blast
  from assms have b: "\<bar>x0\<bar> \<le> 1 / 5" "\<bar>x1\<bar> + \<bar>x2\<bar> \<le> 1 / 4" "\<bar>x2\<bar> \<le> 1 / 5"
    "\<bar>x3\<bar> + \<bar>x4\<bar> \<le> 1 / 4" "\<bar>x4\<bar> \<le> 1 / 5" "\<bar>x5\<bar> + \<bar>x6\<bar> \<le> 1 / 4" "\<bar>x6\<bar> \<le> 1 / 5"
    by (simp_all add: x carplatoon_4_region_def)
  have lo: "- 2 \<le> x0" "- (1 / 2) \<le> x1" "- (3152519739159347 / 9007199254740992) \<le> x2"
    "- (1 / 2) \<le> x3" "- 1 \<le> x4" "- (1 / 2) \<le> x5" "- 1 \<le> x6"
    using b by linarith+
  have hi: "x0 \<le> 2" "x1 \<le> 1 / 2" "x2 \<le> 3152519739159347 / 9007199254740992"
    "x3 \<le> 1 / 2" "x4 \<le> 1" "x5 \<le> 1 / 2" "x6 \<le> 1"
    using b by linarith+
  show ?thesis
    unfolding x within_safety_def carplatoon_4_x_bounds in_box_def
    using lo hi by simp
qed

lemma carplatoon_4_stays_safe:
  assumes "satisfies_invariant (shield_stack (snd (carplatoon_4 el)) ! 0) x"
  shows "within_safety (fst (carplatoon_4 el))
           (trajectory (fst (carplatoon_4 el))
              (entry_K (shield_stack (snd (carplatoon_4 el)) ! 0)) n x)"
  using assms carplatoon_4_invariant_region carplatoon_4_region_trajectory carplatoon_4_region_safe
  by blast

subsection \<open>The claim\<close>

text \<open>
  Claim C1, as stated, at three of the four hard-coded entries. Quadcopter: the state
  \<open>(0.5, 0.5)\<close> satisfies the invariant; with \<open>K = (-2, -1)\<close> its successor is \<open>(1, -1)\<close>, outside
  the invariant, and the one after is \<open>(0, -2)\<close>, outside the safety bounds \<open>[-1, 1]\<close>.
  Magnetic pointer: the state \<open>(1, -1, 1)\<close> satisfies the invariant; its successor has second
  coordinate \<open>2\<close>, outside the invariant, and the one after has second coordinate about
  \<open>3.99\<close>, outside the safety bounds \<open>[-3.5, 3.5]\<close>. 4-car platoon: the state with
  \<open>x\<^sub>1 = 1.1 - 1\<close> and \<open>x\<^sub>2 = 0.1\<close> satisfies the invariant; its successor has
  \<open>x\<^sub>1\<close> about \<open>0.11\<close>, outside the invariant.
\<close>

theorem hard_coded_entries_not_forward_invariant:
  "satisfies_invariant (shield_stack (snd (quadcopter 50)) ! 0) [1/2, 1/2]
   \<and> \<not> satisfies_invariant (shield_stack (snd (quadcopter 50)) ! 0)
         (trajectory (fst (quadcopter 50)) (entry_K (shield_stack (snd (quadcopter 50)) ! 0)) 1 [1/2, 1/2])
   \<and> \<not> within_safety (fst (quadcopter 50))
         (trajectory (fst (quadcopter 50)) (entry_K (shield_stack (snd (quadcopter 50)) ! 0)) 2 [1/2, 1/2])
   \<and> satisfies_invariant (shield_stack (snd (magneticpointer 50)) ! 0) [1, - 1, 1]
   \<and> \<not> satisfies_invariant (shield_stack (snd (magneticpointer 50)) ! 0)
         (trajectory (fst (magneticpointer 50))
            (entry_K (shield_stack (snd (magneticpointer 50)) ! 0)) 1 [1, - 1, 1])
   \<and> \<not> within_safety (fst (magneticpointer 50))
         (trajectory (fst (magneticpointer 50))
            (entry_K (shield_stack (snd (magneticpointer 50)) ! 0)) 2 [1, - 1, 1])
   \<and> satisfies_invariant (shield_stack (snd (carplatoon_4 50)) ! 0)
         [0, fsub (binary64 1.1) 1, binary64 0.1, 0, 0, 0, 0]
   \<and> \<not> satisfies_invariant (shield_stack (snd (carplatoon_4 50)) ! 0)
         (trajectory (fst (carplatoon_4 50))
            (entry_K (shield_stack (snd (carplatoon_4 50)) ! 0)) 1
            [0, fsub (binary64 1.1) 1, binary64 0.1, 0, 0, 0, 0])"
proof (intro conjI)
  show "satisfies_invariant (shield_stack (snd (quadcopter 50)) ! 0) [1/2, 1/2]"
    by (simp add: satisfies_invariant_def quadcopter_stack in_halfspace_def dot_def)
  show "\<not> satisfies_invariant (shield_stack (snd (quadcopter 50)) ! 0)
         (trajectory (fst (quadcopter 50)) (entry_K (shield_stack (snd (quadcopter 50)) ! 0)) 1 [1/2, 1/2])"
    by (simp add: quadcopter_closed_loop satisfies_invariant_def quadcopter_stack
        in_halfspace_def dot_def)
  show "\<not> within_safety (fst (quadcopter 50))
         (trajectory (fst (quadcopter 50)) (entry_K (shield_stack (snd (quadcopter 50)) ! 0)) 2 [1/2, 1/2])"
    by (simp add: numeral_2_eq_2 quadcopter_closed_loop within_safety_def quadcopter_stack
        quadcopter_env_vals in_box_def)
  show "satisfies_invariant (shield_stack (snd (magneticpointer 50)) ! 0) [1, - 1, 1]"
    by (simp add: satisfies_invariant_def magneticpointer_stack in_halfspace_def dot_def)
  show "\<not> satisfies_invariant (shield_stack (snd (magneticpointer 50)) ! 0)
         (trajectory (fst (magneticpointer 50))
            (entry_K (shield_stack (snd (magneticpointer 50)) ! 0)) 1 [1, - 1, 1])"
    by (simp add: magneticpointer_closed_loop satisfies_invariant_def magneticpointer_stack
        in_halfspace_def dot_def)
  show "\<not> within_safety (fst (magneticpointer 50))
         (trajectory (fst (magneticpointer 50))
            (entry_K (shield_stack (snd (magneticpointer 50)) ! 0)) 2 [1, - 1, 1])"
    by (simp add: numeral_2_eq_2 magneticpointer_closed_loop within_safety_def
        magneticpointer_stack magneticpointer_env_vals in_box_def)
  have k: "entry_K (shield_stack (snd (carplatoon_4 50)) ! 0) =
     [[- 10, 0, 0, 0, 0, 0, 0], [- 10, 0, 10, 0, 0, 0, 0], [- 10, 0, 10, 0, 10, 0, 0],
      [- 10, 0, 10, 0, 10, 0, 10]]"
    by (simp add: carplatoon_4_stack)
  have i: "entry_inv (shield_stack (snd (carplatoon_4 50)) ! 0) =
     (fst (cover_list (snd (carplatoon_4 50)) ! 0),
      fst (snd (cover_list (snd (carplatoon_4 50)) ! 0)))"
    by (simp add: carplatoon_4_stack)
  show "satisfies_invariant (shield_stack (snd (carplatoon_4 50)) ! 0)
         [0, fsub (binary64 1.1) 1, binary64 0.1, 0, 0, 0, 0]"
    unfolding satisfies_invariant_def i
    by (simp add: carplatoon_4_cover in_halfspace_def dot_def b64_1_1 fsub_1_1 b64_0_1)
  show "\<not> satisfies_invariant (shield_stack (snd (carplatoon_4 50)) ! 0)
         (trajectory (fst (carplatoon_4 50))
            (entry_K (shield_stack (snd (carplatoon_4 50)) ! 0)) 1
            [0, fsub (binary64 1.1) 1, binary64 0.1, 0, 0, 0, 0])"
    unfolding satisfies_invariant_def i k
    by (simp add: carplatoon_4_closed_loop carplatoon_4_cover in_halfspace_def dot_def
        b64_1_1 fsub_1_1 b64_0_1)
qed

text \<open>
  Claim C1, amended, for the four hard-coded entries. Cruise: every state of the invariant
  stays in the invariant and within the safety bounds at every step \<open>n\<close> of
  \<open>x' = A x + B (K x)\<close> (the stored \<open>A\<close>, \<open>B\<close> and \<open>K\<close> satisfy \<open>A + B K = 0\<close>, so every successor
  is the origin). 4-car platoon: every state of the invariant stays within the safety bounds
  at every step \<open>n\<close>. Quadcopter and magnetic pointer: every state of the invariant has its
  one-step successor within the safety bounds.
\<close>

theorem forward_invariance:
  "(satisfies_invariant (shield_stack (snd (cruise el)) ! 0) x \<longrightarrow>
      satisfies_invariant (shield_stack (snd (cruise el)) ! 0)
        (trajectory (fst (cruise el)) (entry_K (shield_stack (snd (cruise el)) ! 0)) n x)
      \<and> within_safety (fst (cruise el))
        (trajectory (fst (cruise el)) (entry_K (shield_stack (snd (cruise el)) ! 0)) n x))
   \<and> (satisfies_invariant (shield_stack (snd (carplatoon_4 el)) ! 0) w \<longrightarrow>
      within_safety (fst (carplatoon_4 el))
        (trajectory (fst (carplatoon_4 el))
           (entry_K (shield_stack (snd (carplatoon_4 el)) ! 0)) n w))
   \<and> (satisfies_invariant (shield_stack (snd (quadcopter el)) ! 0) y \<longrightarrow>
      within_safety (fst (quadcopter el))
        (closed_loop (fst (quadcopter el)) (entry_K (shield_stack (snd (quadcopter el)) ! 0)) y))
   \<and> (satisfies_invariant (shield_stack (snd (magneticpointer el)) ! 0) z \<longrightarrow>
      within_safety (fst (magneticpointer el))
        (closed_loop (fst (magneticpointer el))
           (entry_K (shield_stack (snd (magneticpointer el)) ! 0)) z))"
  using cruise_forward_invariant carplatoon_4_stays_safe quadcopter_one_step_safe
    magneticpointer_one_step_safe
  by blast

theorem forward_invariance_witness:
  "satisfies_invariant (shield_stack (snd (cruise 50)) ! 0) [1/2]
   \<and> satisfies_invariant (shield_stack (snd (cruise 50)) ! 0)
        (trajectory (fst (cruise 50)) (entry_K (shield_stack (snd (cruise 50)) ! 0)) 3 [1/2])
   \<and> within_safety (fst (cruise 50))
        (trajectory (fst (cruise 50)) (entry_K (shield_stack (snd (cruise 50)) ! 0)) 3 [1/2])
   \<and> satisfies_invariant (shield_stack (snd (carplatoon_4 50)) ! 0)
        [0, fsub (binary64 1.1) 1, binary64 0.1, 0, 0, 0, 0]
   \<and> within_safety (fst (carplatoon_4 50))
        (trajectory (fst (carplatoon_4 50))
           (entry_K (shield_stack (snd (carplatoon_4 50)) ! 0)) 3
           [0, fsub (binary64 1.1) 1, binary64 0.1, 0, 0, 0, 0])
   \<and> satisfies_invariant (shield_stack (snd (quadcopter 50)) ! 0) [1/2, 1/2]
   \<and> within_safety (fst (quadcopter 50))
        (closed_loop (fst (quadcopter 50)) (entry_K (shield_stack (snd (quadcopter 50)) ! 0))
           [1/2, 1/2])
   \<and> satisfies_invariant (shield_stack (snd (magneticpointer 50)) ! 0) [1, - 1, 1]
   \<and> within_safety (fst (magneticpointer 50))
        (closed_loop (fst (magneticpointer 50))
           (entry_K (shield_stack (snd (magneticpointer 50)) ! 0)) [1, - 1, 1])"
proof -
  have h1: "satisfies_invariant (shield_stack (snd (cruise 50)) ! 0) [1/2]"
    by (simp add: satisfies_invariant_def cruise_stack in_halfspace_def dot_def)
  have i: "entry_inv (shield_stack (snd (carplatoon_4 50)) ! 0) =
     (fst (cover_list (snd (carplatoon_4 50)) ! 0),
      fst (snd (cover_list (snd (carplatoon_4 50)) ! 0)))"
    by (simp add: carplatoon_4_stack)
  have h2: "satisfies_invariant (shield_stack (snd (carplatoon_4 50)) ! 0)
         [0, fsub (binary64 1.1) 1, binary64 0.1, 0, 0, 0, 0]"
    unfolding satisfies_invariant_def i
    by (simp add: carplatoon_4_cover in_halfspace_def dot_def b64_1_1 fsub_1_1 b64_0_1)
  have h3: "satisfies_invariant (shield_stack (snd (quadcopter 50)) ! 0) [1/2, 1/2]"
    by (simp add: satisfies_invariant_def quadcopter_stack in_halfspace_def dot_def)
  have h4: "satisfies_invariant (shield_stack (snd (magneticpointer 50)) ! 0) [1, - 1, 1]"
    by (simp add: satisfies_invariant_def magneticpointer_stack in_halfspace_def dot_def)
  show ?thesis
    using forward_invariance [of 50 "[1/2]" 3 "[0, fsub (binary64 1.1) 1, binary64 0.1, 0, 0, 0, 0]"
        "[1/2, 1/2]" "[1, - 1, 1]"] h1 h2 h3 h4
    by blast
qed

section \<open>The coordinate shift of the platoon benchmarks\<close>

lemma carplatoon_4_s_bounds:
  "env_s_min (fst (carplatoon_4 el)) =
     [- (14073748835533 / 140737488355328), - (900719925474099 / 9007199254740992),
      - (3602879701896397 / 36028797018963968), - (900719925474099 / 9007199254740992),
      - (3602879701896397 / 36028797018963968), - (900719925474099 / 9007199254740992),
      - (3602879701896397 / 36028797018963968)]"
  "env_s_max (fst (carplatoon_4 el)) =
     [14073748835533 / 140737488355328, 225179981368525 / 2251799813685248,
      3602879701896397 / 36028797018963968, 225179981368525 / 2251799813685248,
      3602879701896397 / 36028797018963968, 225179981368525 / 2251799813685248,
      3602879701896397 / 36028797018963968]"
  by (simp_all add: carplatoon_4_def Let_def split_beta vec_fsub_def b64_vals)

lemma carplatoon_8_bounds:
  "env_s_min carplatoon_8 =
     [- (14073748835533 / 140737488355328), - (900719925474099 / 9007199254740992),
      - (3602879701896397 / 36028797018963968), - (900719925474099 / 9007199254740992),
      - (3602879701896397 / 36028797018963968), - (900719925474099 / 9007199254740992),
      - (3602879701896397 / 36028797018963968), - (900719925474099 / 9007199254740992),
      - (3602879701896397 / 36028797018963968), - (900719925474099 / 9007199254740992),
      - (3602879701896397 / 36028797018963968), - (900719925474099 / 9007199254740992),
      - (3602879701896397 / 36028797018963968), - (900719925474099 / 9007199254740992),
      - (3602879701896397 / 36028797018963968)]"
  "env_s_max carplatoon_8 =
     [14073748835533 / 140737488355328, 225179981368525 / 2251799813685248,
      3602879701896397 / 36028797018963968, 225179981368525 / 2251799813685248,
      3602879701896397 / 36028797018963968, 225179981368525 / 2251799813685248,
      3602879701896397 / 36028797018963968, 225179981368525 / 2251799813685248,
      3602879701896397 / 36028797018963968, 225179981368525 / 2251799813685248,
      3602879701896397 / 36028797018963968, 225179981368525 / 2251799813685248,
      3602879701896397 / 36028797018963968, 225179981368525 / 2251799813685248,
      3602879701896397 / 36028797018963968]"
  "env_x_min carplatoon_8 =
     [- 2, - (1 / 2), - 1, - (1 / 2), - 1, - (1 / 2), - 1, - (1 / 2), - 1, - (1 / 2), - 1,
      - (1 / 2), - 1, - (1 / 2), - 1]"
  "env_x_max carplatoon_8 =
     [2, 1 / 2, 1, 1 / 2, 1, 1 / 2, 1, 1 / 2, 1, 1 / 2, 1, 1 / 2, 1, 1 / 2, 1]"
  by (simp_all add: carplatoon_8_def Let_def vec_fsub_def b64_vals fsub_0_5 fsub_1_5 fsub_ints)

lemma carplatoon_4_x_mid_zero: "carplatoon_4_x_mid el = [0, 0, 0, 0, 0, 0, 0]"
  by (simp add: carplatoon_4_x_mid_def Let_def carplatoon_4_x_bounds vec_mid_def binary64_zero)

text \<open>
  Claim C8. In both platoon entry points each of the four boxes given to \<open>Environment\<close> is
  the vector written in the source minus \<open>origin\<close>, subtracted once by the in-place \<open>-=\<close>:
  the initial box becomes \<open>19.9 - 20\<close>, \<open>0.9 - 1\<close>, \<open>-0.1\<close>, \<open>\<dots>\<close> up to \<open>20.1 - 20\<close>, \<open>1.1 - 1\<close>,
  \<open>0.1\<close>, \<open>\<dots>\<close> (of the binary64 values of the literals), the safety box becomes \<open>-2\<close>,
  \<open>-0.5\<close>, \<open>\<dots>\<close> up to \<open>2\<close>, \<open>0.5\<close>, \<open>\<dots>\<close>. Nothing applies the origin again. In the 4-car
  entry point the cover is filled from the shifted initial box as it stands, the midpoint
  \<open>x_mid\<close> of the shifted safety box is the zero vector, and \<open>Shield\<close> and \<open>DDPG\<close> receive the
  environment built from the shifted boxes; in the 8-car entry point every later call that
  takes an environment receives that same environment.
\<close>

theorem origin_subtracted_once:
  "env_s_min (fst (carplatoon_4 el)) =
     vec_fsub [binary64 19.9, binary64 0.9, - binary64 0.1, binary64 0.9, - binary64 0.1,
               binary64 0.9, - binary64 0.1] [20, 1, 0, 1, 0, 1, 0]
   \<and> env_s_max (fst (carplatoon_4 el)) =
     vec_fsub [binary64 20.1, binary64 1.1, binary64 0.1, binary64 1.1, binary64 0.1,
               binary64 1.1, binary64 0.1] [20, 1, 0, 1, 0, 1, 0]
   \<and> env_x_min (fst (carplatoon_4 el)) =
     vec_fsub [18, binary64 0.5, - binary64 0.35, binary64 0.5, - 1, binary64 0.5, - 1]
              [20, 1, 0, 1, 0, 1, 0]
   \<and> env_x_max (fst (carplatoon_4 el)) =
     vec_fsub [22, binary64 1.5, binary64 0.35, binary64 1.5, 1, binary64 1.5, 1]
              [20, 1, 0, 1, 0, 1, 0]
   \<and> env_s_min (fst (carplatoon_4 el)) =
     [binary64 19.9 - 20, binary64 0.9 - 1, - binary64 0.1, binary64 0.9 - 1, - binary64 0.1,
      binary64 0.9 - 1, - binary64 0.1]
   \<and> env_s_max (fst (carplatoon_4 el)) =
     [binary64 20.1 - 20, binary64 1.1 - 1, binary64 0.1, binary64 1.1 - 1, binary64 0.1,
      binary64 1.1 - 1, binary64 0.1]
   \<and> env_x_min (fst (carplatoon_4 el)) =
     [- 2, - (1 / 2), - binary64 0.35, - (1 / 2), - 1, - (1 / 2), - 1]
   \<and> env_x_max (fst (carplatoon_4 el)) =
     [2, 1 / 2, binary64 0.35, 1 / 2, 1, 1 / 2, 1]
   \<and> (case cover_list (snd (carplatoon_4 el)) ! 0 of (H, c, lower, upper) \<Rightarrow>
        lower = env_s_min (fst (carplatoon_4 el)) \<and> upper = env_s_max (fst (carplatoon_4 el)))
   \<and> carplatoon_4_x_mid el = [0, 0, 0, 0, 0, 0, 0]
   \<and> map snd (carplatoon_4_calls el) = [fst (carplatoon_4 el), fst (carplatoon_4 el)]
   \<and> env_s_min carplatoon_8 =
     vec_fsub [binary64 19.9, binary64 0.9, - binary64 0.1, binary64 0.9, - binary64 0.1,
               binary64 0.9, - binary64 0.1, binary64 0.9, - binary64 0.1, binary64 0.9,
               - binary64 0.1, binary64 0.9, - binary64 0.1, binary64 0.9, - binary64 0.1]
              [20, 1, 0, 1, 0, 1, 0, 1, 0, 1, 0, 1, 0, 1, 0]
   \<and> env_s_max carplatoon_8 =
     vec_fsub [binary64 20.1, binary64 1.1, binary64 0.1, binary64 1.1, binary64 0.1,
               binary64 1.1, binary64 0.1, binary64 1.1, binary64 0.1, binary64 1.1,
               binary64 0.1, binary64 1.1, binary64 0.1, binary64 1.1, binary64 0.1]
              [20, 1, 0, 1, 0, 1, 0, 1, 0, 1, 0, 1, 0, 1, 0]
   \<and> env_x_min carplatoon_8 =
     vec_fsub [18, binary64 0.5, - 1, binary64 0.5, - 1, binary64 0.5, - 1, binary64 0.5,
               - 1, binary64 0.5, - 1, binary64 0.5, - 1, binary64 0.5, - 1]
              [20, 1, 0, 1, 0, 1, 0, 1, 0, 1, 0, 1, 0, 1, 0]
   \<and> env_x_max carplatoon_8 =
     vec_fsub [22, binary64 1.5, 1, binary64 1.5, 1, binary64 1.5, 1, binary64 1.5, 1,
               binary64 1.5, 1, binary64 1.5, 1, binary64 1.5, 1]
              [20, 1, 0, 1, 0, 1, 0, 1, 0, 1, 0, 1, 0, 1, 0]
   \<and> env_s_min carplatoon_8 =
     [binary64 19.9 - 20, binary64 0.9 - 1, - binary64 0.1, binary64 0.9 - 1, - binary64 0.1,
      binary64 0.9 - 1, - binary64 0.1, binary64 0.9 - 1, - binary64 0.1, binary64 0.9 - 1,
      - binary64 0.1, binary64 0.9 - 1, - binary64 0.1, binary64 0.9 - 1, - binary64 0.1]
   \<and> env_s_max carplatoon_8 =
     [binary64 20.1 - 20, binary64 1.1 - 1, binary64 0.1, binary64 1.1 - 1, binary64 0.1,
      binary64 1.1 - 1, binary64 0.1, binary64 1.1 - 1, binary64 0.1, binary64 1.1 - 1,
      binary64 0.1, binary64 1.1 - 1, binary64 0.1, binary64 1.1 - 1, binary64 0.1]
   \<and> env_x_min carplatoon_8 =
     [- 2, - (1 / 2), - 1, - (1 / 2), - 1, - (1 / 2), - 1, - (1 / 2), - 1, - (1 / 2), - 1,
      - (1 / 2), - 1, - (1 / 2), - 1]
   \<and> env_x_max carplatoon_8 =
     [2, 1 / 2, 1, 1 / 2, 1, 1 / 2, 1, 1 / 2, 1, 1 / 2, 1, 1 / 2, 1, 1 / 2, 1]
   \<and> map snd carplatoon_8_calls = replicate 6 carplatoon_8"
proof (intro conjI)
  show "env_s_min (fst (carplatoon_4 el)) =
     vec_fsub [binary64 19.9, binary64 0.9, - binary64 0.1, binary64 0.9, - binary64 0.1,
               binary64 0.9, - binary64 0.1] [20, 1, 0, 1, 0, 1, 0]"
    and "env_s_max (fst (carplatoon_4 el)) =
     vec_fsub [binary64 20.1, binary64 1.1, binary64 0.1, binary64 1.1, binary64 0.1,
               binary64 1.1, binary64 0.1] [20, 1, 0, 1, 0, 1, 0]"
    and "env_x_min (fst (carplatoon_4 el)) =
     vec_fsub [18, binary64 0.5, - binary64 0.35, binary64 0.5, - 1, binary64 0.5, - 1]
              [20, 1, 0, 1, 0, 1, 0]"
    and "env_x_max (fst (carplatoon_4 el)) =
     vec_fsub [22, binary64 1.5, binary64 0.35, binary64 1.5, 1, binary64 1.5, 1]
              [20, 1, 0, 1, 0, 1, 0]"
    by (simp_all add: carplatoon_4_def Let_def split_beta)
  show "env_s_min (fst (carplatoon_4 el)) =
     [binary64 19.9 - 20, binary64 0.9 - 1, - binary64 0.1, binary64 0.9 - 1, - binary64 0.1,
      binary64 0.9 - 1, - binary64 0.1]"
    and "env_s_max (fst (carplatoon_4 el)) =
     [binary64 20.1 - 20, binary64 1.1 - 1, binary64 0.1, binary64 1.1 - 1, binary64 0.1,
      binary64 1.1 - 1, binary64 0.1]"
    by (simp_all add: carplatoon_4_s_bounds b64_vals)
  show "env_x_min (fst (carplatoon_4 el)) =
     [- 2, - (1 / 2), - binary64 0.35, - (1 / 2), - 1, - (1 / 2), - 1]"
    and "env_x_max (fst (carplatoon_4 el)) =
     [2, 1 / 2, binary64 0.35, 1 / 2, 1, 1 / 2, 1]"
    by (simp_all add: carplatoon_4_x_bounds b64_0_35)
  show "case cover_list (snd (carplatoon_4 el)) ! 0 of (H, c, lower, upper) \<Rightarrow>
        lower = env_s_min (fst (carplatoon_4 el)) \<and> upper = env_s_max (fst (carplatoon_4 el))"
    by (simp add: carplatoon_4_cover carplatoon_4_s_bounds)
  show "carplatoon_4_x_mid el = [0, 0, 0, 0, 0, 0, 0]"
    by (rule carplatoon_4_x_mid_zero)
  show "map snd (carplatoon_4_calls el) = [fst (carplatoon_4 el), fst (carplatoon_4 el)]"
    by (simp add: carplatoon_4_calls_def Let_def)
  show "env_s_min carplatoon_8 =
     vec_fsub [binary64 19.9, binary64 0.9, - binary64 0.1, binary64 0.9, - binary64 0.1,
               binary64 0.9, - binary64 0.1, binary64 0.9, - binary64 0.1, binary64 0.9,
               - binary64 0.1, binary64 0.9, - binary64 0.1, binary64 0.9, - binary64 0.1]
              [20, 1, 0, 1, 0, 1, 0, 1, 0, 1, 0, 1, 0, 1, 0]"
    and "env_s_max carplatoon_8 =
     vec_fsub [binary64 20.1, binary64 1.1, binary64 0.1, binary64 1.1, binary64 0.1,
               binary64 1.1, binary64 0.1, binary64 1.1, binary64 0.1, binary64 1.1,
               binary64 0.1, binary64 1.1, binary64 0.1, binary64 1.1, binary64 0.1]
              [20, 1, 0, 1, 0, 1, 0, 1, 0, 1, 0, 1, 0, 1, 0]"
    and "env_x_min carplatoon_8 =
     vec_fsub [18, binary64 0.5, - 1, binary64 0.5, - 1, binary64 0.5, - 1, binary64 0.5,
               - 1, binary64 0.5, - 1, binary64 0.5, - 1, binary64 0.5, - 1]
              [20, 1, 0, 1, 0, 1, 0, 1, 0, 1, 0, 1, 0, 1, 0]"
    and "env_x_max carplatoon_8 =
     vec_fsub [22, binary64 1.5, 1, binary64 1.5, 1, binary64 1.5, 1, binary64 1.5, 1,
               binary64 1.5, 1, binary64 1.5, 1, binary64 1.5, 1]
              [20, 1, 0, 1, 0, 1, 0, 1, 0, 1, 0, 1, 0, 1, 0]"
    by (simp_all add: carplatoon_8_def Let_def)
  show "env_s_min carplatoon_8 =
     [binary64 19.9 - 20, binary64 0.9 - 1, - binary64 0.1, binary64 0.9 - 1, - binary64 0.1,
      binary64 0.9 - 1, - binary64 0.1, binary64 0.9 - 1, - binary64 0.1, binary64 0.9 - 1,
      - binary64 0.1, binary64 0.9 - 1, - binary64 0.1, binary64 0.9 - 1, - binary64 0.1]"
    and "env_s_max carplatoon_8 =
     [binary64 20.1 - 20, binary64 1.1 - 1, binary64 0.1, binary64 1.1 - 1, binary64 0.1,
      binary64 1.1 - 1, binary64 0.1, binary64 1.1 - 1, binary64 0.1, binary64 1.1 - 1,
      binary64 0.1, binary64 1.1 - 1, binary64 0.1, binary64 1.1 - 1, binary64 0.1]"
    by (simp_all add: carplatoon_8_bounds b64_vals)
  show "env_x_min carplatoon_8 =
     [- 2, - (1 / 2), - 1, - (1 / 2), - 1, - (1 / 2), - 1, - (1 / 2), - 1, - (1 / 2), - 1,
      - (1 / 2), - 1, - (1 / 2), - 1]"
    and "env_x_max carplatoon_8 =
     [2, 1 / 2, 1, 1 / 2, 1, 1 / 2, 1, 1 / 2, 1, 1 / 2, 1, 1 / 2, 1, 1 / 2, 1]"
    by (simp_all add: carplatoon_8_bounds)
  show "map snd carplatoon_8_calls = replicate 6 carplatoon_8"
    by (simp add: carplatoon_8_calls_def Let_def numeral_eq_Suc)
qed

section \<open>The cruise scenario\<close>

text \<open>
  Claim C3, as stated. The cruise entry's cover box is \<open>[-1, 1]\<close>, so at \<open>x = 1.4\<close> the
  resolve step finds no entry: for the action that takes \<open>1.4\<close> to \<open>1.6\<close> the runtime reports
  the resolution failure and substitutes nothing.
\<close>

theorem cruise_scenario_resolution_fails:
  "next_state (fst (cruise 50)) [1.4] [(1.6 - binary64 0.99501 * 1.4) / binary64 0.0078125] = [1.6]
   \<and> shield_step (fst (cruise 50)) (shield_stack (snd (cruise 50))) [1.4]
        [(1.6 - binary64 0.99501 * 1.4) / binary64 0.0078125] = Inl ShieldResolutionFailure"
  by (simp add: shield_step_def resolve_def cruise_stack in_box_def next_state_def cruise_env_vals
      mat_vec_def vec_add_def dot_def b64_0_99501 b64_0_0078125)

text \<open>
  Claim C3, amended. At \<open>x = 1.4\<close> the runtime fails to resolve an entry, whatever the action;
  the successor of \<open>1.4\<close> under \<open>u = K x\<close> is within \<open>[-1.5, 1.5]\<close> all the same. For every
  state \<open>x\<close> of the cover box \<open>[-1, 1]\<close> and every action whose successor is \<open>1.6\<close>, the runtime
  overrides with \<open>u = K x\<close>, and the next state under that action is within \<open>[-1.5, 1.5]\<close>.
\<close>

theorem cruise_scenario:
  "shield_step (fst (cruise el)) (shield_stack (snd (cruise el))) [1.4] u_nn
     = Inl ShieldResolutionFailure
   \<and> within_safety (fst (cruise el))
        (next_state (fst (cruise el)) [1.4]
           (mat_vec (entry_K (shield_stack (snd (cruise el)) ! 0)) [1.4]))
   \<and> (- 1 \<le> x \<and> x \<le> 1 \<and> next_state (fst (cruise el)) [x] u_nn = [1.6] \<longrightarrow>
      shield_step (fst (cruise el)) (shield_stack (snd (cruise el))) [x] u_nn
        = Inr (SHIELD_ACTIVE, mat_vec (entry_K (shield_stack (snd (cruise el)) ! 0)) [x])
      \<and> within_safety (fst (cruise el))
          (next_state (fst (cruise el)) [x]
             (mat_vec (entry_K (shield_stack (snd (cruise el)) ! 0)) [x])))"
proof (intro conjI impI)
  show "shield_step (fst (cruise el)) (shield_stack (snd (cruise el))) [1.4] u_nn
     = Inl ShieldResolutionFailure"
    by (simp add: shield_step_def resolve_def cruise_stack in_box_def)
next
  show "within_safety (fst (cruise el))
        (next_state (fst (cruise el)) [1.4]
           (mat_vec (entry_K (shield_stack (snd (cruise el)) ! 0)) [1.4]))"
    by (simp add: within_safety_def next_state_def cruise_env_vals cruise_stack mat_vec_def
        vec_add_def dot_def in_box_def)
next
  assume h: "- 1 \<le> x \<and> x \<le> 1 \<and> next_state (fst (cruise el)) [x] u_nn = [1.6]"
  then have r: "resolve (shield_stack (snd (cruise el))) [x]
      = Some (shield_stack (snd (cruise el)) ! 0)"
    by (simp add: resolve_def cruise_stack in_box_def)
  show "shield_step (fst (cruise el)) (shield_stack (snd (cruise el))) [x] u_nn
        = Inr (SHIELD_ACTIVE, mat_vec (entry_K (shield_stack (snd (cruise el)) ! 0)) [x])"
    using h unfolding shield_step_def r
    by (simp add: cruise_stack in_halfspace_def dot_def)
next
  show "within_safety (fst (cruise el))
          (next_state (fst (cruise el)) [x]
             (mat_vec (entry_K (shield_stack (snd (cruise el)) ! 0)) [x]))"
    by (simp add: within_safety_def next_state_def cruise_env_vals cruise_stack mat_vec_def
        vec_add_def dot_def in_box_def)
qed

theorem cruise_scenario_witness:
  "- 1 \<le> (1::rat) \<and> (1::rat) \<le> 1
   \<and> next_state (fst (cruise 50)) [1] [(1.6 - binary64 0.99501) / binary64 0.0078125] = [1.6]
   \<and> shield_step (fst (cruise 50)) (shield_stack (snd (cruise 50))) [1]
        [(1.6 - binary64 0.99501) / binary64 0.0078125]
      = Inr (SHIELD_ACTIVE, mat_vec (entry_K (shield_stack (snd (cruise 50)) ! 0)) [1])
   \<and> within_safety (fst (cruise 50))
        (next_state (fst (cruise 50)) [1]
           (mat_vec (entry_K (shield_stack (snd (cruise 50)) ! 0)) [1]))"
proof -
  have h1: "- 1 \<le> (1::rat) \<and> (1::rat) \<le> 1"
    by simp
  have h2: "next_state (fst (cruise 50)) [1] [(1.6 - binary64 0.99501) / binary64 0.0078125] = [1.6]"
    by (simp add: next_state_def cruise_env_vals mat_vec_def vec_add_def dot_def
        b64_0_99501 b64_0_0078125)
  show ?thesis
    using cruise_scenario [of 50 "[(1.6 - binary64 0.99501) / binary64 0.0078125]" 1] h1 h2
    by blast
qed

section \<open>The path of the gain file\<close>

lemma takeWhile_no_sep:
  "CHR ''/'' \<notin> set name \<Longrightarrow>
     takeWhile (\<lambda>c. c \<noteq> CHR ''/'') (rev name @ CHR ''/'' # rest) = rev name"
  by (induction name arbitrary: rest rule: rev_induct) auto

text \<open>A path \<open>d/name\<close>, where \<open>d\<close> does not end in a separator and \<open>name\<close> has none, splits
  into \<open>d\<close> and \<open>name\<close>.\<close>

lemma os_path_split_dir:
  assumes "d \<noteq> []" "last d \<noteq> CHR ''/''" "CHR ''/'' \<notin> set name"
  shows "os_path_split (d @ ''/'' @ name) = (d, name)"
proof -
  have r: "rfind_sep (d @ ''/'' @ name) = length d + 1"
    using assms(3) by (simp add: rfind_sep_def takeWhile_no_sep)
  have t: "take (length d + 1) (d @ ''/'' @ name) = d @ ''/''"
    by simp
  have dr: "drop (length d + 1) (d @ ''/'' @ name) = name"
    by simp
  obtain d' c where d: "d = d' @ [c]" "c \<noteq> CHR ''/''"
    using assms(1,2) by (metis append_butlast_last_id)
  have ne: "d @ ''/'' \<noteq> replicate (length (d @ ''/'')) CHR ''/''"
  proof
    assume "d @ ''/'' = replicate (length (d @ ''/'')) CHR ''/''"
    then have "set (d @ ''/'') \<subseteq> {CHR ''/''}"
      by (metis set_replicate_conv_if empty_subsetI subset_refl)
    with d show False by auto
  qed
  have s: "rstrip_sep (d @ ''/'') = d"
    using d by (simp add: rstrip_sep_def)
  show ?thesis
    unfolding os_path_split_def r Let_def t dr using ne s by simp
qed

text \<open>
  Claim C9. At each of the seven entry points the path of the gain file is the head of
  \<open>os.path.split(args['model_path'])\<close> followed by \<open>/K.model.npy\<close>; for a checkpoint
  directory given as \<open>d/\<close> that is \<open>d/K.model.npy\<close>, whichever checkpoint name
  \<open>retrain_nn\<close> selects.
\<close>

theorem gain_file_path:
  "shield_model_path ep train_dir retrain_nn
     = fst (os_path_split (args_model_path ep train_dir retrain_nn)) @ ''/K.model.npy''
   \<and> (d \<noteq> [] \<and> last d \<noteq> CHR ''/'' \<longrightarrow>
        shield_model_path ep (d @ ''/'') retrain_nn = d @ ''/K.model.npy'')"
proof (intro conjI impI)
  show "shield_model_path ep train_dir retrain_nn
     = fst (os_path_split (args_model_path ep train_dir retrain_nn)) @ ''/K.model.npy''"
    by simp
next
  assume h: "d \<noteq> [] \<and> last d \<noteq> CHR ''/''"
  have a: "fst (os_path_split ((d @ ''/'') @ ''model.chkp'')) = d"
    using os_path_split_dir [of d "''model.chkp''"] h by simp
  have b: "fst (os_path_split ((d @ ''/'') @ ''retrained_model.chkp'')) = d"
    using os_path_split_dir [of d "''retrained_model.chkp''"] h by simp
  show "shield_model_path ep (d @ ''/'') retrain_nn = d @ ''/K.model.npy''"
    using a b by (cases ep) simp_all
qed

theorem gain_file_path_witness:
  "''ddpg_chkp/cruise/240200280240200'' \<noteq> []
   \<and> last ''ddpg_chkp/cruise/240200280240200'' \<noteq> CHR ''/''
   \<and> default_train_dir Cruise = Some (''ddpg_chkp/cruise/240200280240200'' @ ''/'')
   \<and> shield_model_path Cruise (''ddpg_chkp/cruise/240200280240200'' @ ''/'') True
       = ''ddpg_chkp/cruise/240200280240200'' @ ''/K.model.npy''"
proof -
  have h: "''ddpg_chkp/cruise/240200280240200'' \<noteq> []
      \<and> last ''ddpg_chkp/cruise/240200280240200'' \<noteq> CHR ''/''"
    by simp
  have d: "default_train_dir Cruise = Some (''ddpg_chkp/cruise/240200280240200'' @ ''/'')"
    by simp
  show ?thesis
    using gain_file_path [of Cruise "[]" True "''ddpg_chkp/cruise/240200280240200''"] h d
    by blast
qed

section \<open>The solver wrapper: expressions and models\<close>

lemma linear_row_terms:
  "linear_row A n_x tol i js expr = Inr e \<Longrightarrow>
     lin_terms e = lin_terms expr
        @ map (\<lambda>j. (item A i j, j)) (filter (\<lambda>j. tol < \<bar>item A i j\<bar>) js)
     \<and> lin_const e = lin_const expr"
  by (induction js arbitrary: expr) (auto simp: add_term_def split: if_splits)

lemma linear_rows_length:
  "linear_rows A b n_x tol is = Inr exprs \<Longrightarrow> length exprs = length is"
  by (induction "is" arbitrary: exprs) (auto simp: Let_def split: sum.splits if_splits)

lemma linear_rows_nth:
  "linear_rows A b n_x tol is = Inr exprs \<Longrightarrow> k < length is \<Longrightarrow>
     lin_terms (exprs ! k)
       = map (\<lambda>j. (item A (is ! k) j, j)) (filter (\<lambda>j. tol < \<bar>item A (is ! k) j\<bar>) [0..<shape1 A])
     \<and> lin_const (exprs ! k) = (if tol < \<bar>b ! (is ! k)\<bar> then binary64 (b ! (is ! k)) else 0)"
proof (induction "is" arbitrary: exprs k)
  case Nil
  then show ?case by simp
next
  case (Cons i "is")
  from Cons.prems(1) obtain expr rest where
    row: "linear_row A n_x tol i [0..<shape1 A] LinExpr = Inr expr"
    and rest: "linear_rows A b n_x tol is = Inr rest"
    and ex: "exprs = (if tol < \<bar>b ! i\<bar> then add_const expr (b ! i) else expr) # rest"
    by (auto simp: Let_def split: sum.splits if_splits)
  show ?case
  proof (cases k)
    case 0
    with ex linear_row_terms [OF row] show ?thesis
      by (simp add: add_const_def LinExpr_def)
  next
    case (Suc k')
    with Cons.prems(2) have "k' < length is" by simp
    from Cons.IH [OF rest this] ex Suc show ?thesis by simp
  qed
qed

lemma linear_rows_index:
  "linear_rows A b n_x tol is = Inr exprs \<Longrightarrow> k < length is \<Longrightarrow> is ! k < length b"
proof (induction "is" arbitrary: exprs k)
  case Nil
  then show ?case by simp
next
  case (Cons i "is")
  from Cons.prems(1) obtain rest where rest: "linear_rows A b n_x tol is = Inr rest"
    and i: "i < length b"
    by (auto simp: Let_def split: sum.splits if_splits)
  show ?case
  proof (cases k)
    case 0
    with i show ?thesis by simp
  next
    case (Suc k')
    with Cons.prems(2) have "k' < length is" by simp
    from Cons.IH [OF rest this] Suc show ?thesis by simp
  qed
qed

lemma linear_expression_rows:
  assumes "linear_expression A b n_x tol = Inr exprs"
  shows "length exprs = shape0 A"
    and "i < shape0 A \<Longrightarrow> lin_terms (exprs ! i)
       = map (\<lambda>j. (item A i j, j)) (filter (\<lambda>j. tol < \<bar>item A i j\<bar>) [0..<shape1 A])"
    and "i < shape0 A \<Longrightarrow> lin_const (exprs ! i) = (if tol < \<bar>b ! i\<bar> then binary64 (b ! i) else 0)"
  using assms linear_rows_length [of A b n_x tol "[0..<shape0 A]" exprs]
    linear_rows_nth [of A b n_x tol "[0..<shape0 A]" exprs i]
  by (simp_all add: linear_expression_def)

text \<open>A matrix whose entries are all at most \<open>tol\<close> in absolute value never reaches a
  variable lookup: \<open>linear_expression\<close> returns, whatever the number of variables, and
  every row is without terms.\<close>

lemma linear_row_small:
  "\<forall>j\<in>set js. \<bar>item A i j\<bar> \<le> tol \<Longrightarrow> linear_row A n_x tol i js expr = Inr expr"
  by (induction js) auto

lemma linear_rows_small:
  "\<forall>i\<in>set is. i < length b \<and> (\<forall>j<shape1 A. \<bar>item A i j\<bar> \<le> tol) \<Longrightarrow>
     \<exists>exprs. linear_rows A b n_x tol is = Inr exprs"
proof (induction "is")
  case Nil
  then show ?case by simp
next
  case (Cons i "is")
  then have "linear_row A n_x tol i [0..<shape1 A] LinExpr = Inr LinExpr"
    by (intro linear_row_small) simp
  moreover from Cons obtain rest where "linear_rows A b n_x tol is = Inr rest" by auto
  ultimately show ?case using Cons.prems by (simp add: Let_def)
qed

lemma linear_expression_small:
  assumes "\<forall>i<shape0 A. \<forall>j<shape1 A. \<bar>item A i j\<bar> \<le> tol" "shape0 A \<le> length b"
  shows "\<exists>exprs. linear_expression A b n_x tol = Inr exprs \<and> length exprs = shape0 A
           \<and> (\<forall>i<shape0 A. lin_terms (exprs ! i) = [])"
proof -
  from assms obtain exprs where e: "linear_expression A b n_x tol = Inr exprs"
    using linear_rows_small [of "[0..<shape0 A]" b A tol n_x]
    by (auto simp: linear_expression_def)
  have "lin_terms (exprs ! i) = []" if "i < shape0 A" for i
  proof -
    have "\<not> tol < \<bar>item A i j\<bar>" if "j < shape1 A" for j
      using assms(1) \<open>i < shape0 A\<close> that by (simp add: not_less)
    then have "filter (\<lambda>j. tol < \<bar>item A i j\<bar>) [0..<shape1 A] = []"
      by (simp add: filter_empty_conv)
    with linear_expression_rows(2) [OF e \<open>i < shape0 A\<close>] show ?thesis by simp
  qed
  with e linear_expression_rows(1) [OF e] show ?thesis by blast
qed

lemma quadratic_row_terms:
  "quadratic_row H n_x tol i js expr = Inr e \<Longrightarrow>
     quad_terms e = quad_terms expr
        @ map (\<lambda>j. (item H i j, i, j)) (filter (\<lambda>j. tol < \<bar>item H i j\<bar>) js)
     \<and> quad_lin e = quad_lin expr"
  by (induction js arbitrary: expr) (auto simp: add_quad_term_def split: if_splits)

lemma quadratic_rows_terms:
  "quadratic_rows H n_x tol is expr = Inr e \<Longrightarrow>
     quad_terms e = quad_terms expr
        @ concat (map (\<lambda>i. map (\<lambda>j. (item H i j, i, j))
                          (filter (\<lambda>j. tol < \<bar>item H i j\<bar>) [0..<shape1 H])) is)
     \<and> quad_lin e = quad_lin expr"
proof (induction "is" arbitrary: expr)
  case Nil
  then show ?case by simp
next
  case (Cons i "is")
  from Cons.prems obtain e1 where
    r: "quadratic_row H n_x tol i [0..<shape1 H] expr = Inr e1"
    and rs: "quadratic_rows H n_x tol is e1 = Inr e"
    by (auto split: sum.splits)
  from quadratic_row_terms [OF r] Cons.IH [OF rs] show ?case by simp
qed

lemma quadratic_expression_terms:
  "quadratic_expression H n_x tol = Inr e \<Longrightarrow>
     quad_terms e = concat (map (\<lambda>i. map (\<lambda>j. (item H i j, i, j))
                          (filter (\<lambda>j. tol < \<bar>item H i j\<bar>) [0..<shape1 H])) [0..<shape0 H])"
  using quadratic_rows_terms [of H n_x tol "[0..<shape0 H]" QuadExpr e]
  by (simp add: quadratic_expression_def QuadExpr_def)

lemma build_model_parts:
  assumes "build_model H f A b C d = Inr model"
  obtains ineqs eqs where
    "linear_expression A (map uminus b) (max (shape0 f) (shape1 f)) linear_expression_tol = Inr ineqs"
    "m_constrs model = named_constrs ''ineq_'' LESS_EQUAL ineqs @ named_constrs ''eq_'' EQUAL eqs"
    "m_vars model = replicate (max (shape0 f) (shape1 f)) \<lparr>v_lb = None, v_vtype = CONTINUOUS\<rparr>"
    "(case (C, d) of (Some C', Some d') \<Rightarrow>
         linear_expression C' (map uminus d') (max (shape0 f) (shape1 f)) linear_expression_tol
       | _ \<Rightarrow> Inr []) = Inr eqs"
  using assms unfolding build_model_def Let_def
  by (auto split: sum.splits)

lemma named_constrs_length: "length (named_constrs p s es) = length es"
  by (simp add: named_constrs_def)

lemma named_constrs_nth:
  "i < length es \<Longrightarrow>
     named_constrs p s es ! i = \<lparr>c_name = p @ str_nat i, c_expr = es ! i, c_sense = s\<rparr>"
  by (simp add: named_constrs_def)

lemma named_constrs_name:
  "i < length es \<Longrightarrow> \<exists>c\<in>set (named_constrs p s es). c_name c = p @ str_nat i"
proof
  assume i: "i < length es"
  then show "named_constrs p s es ! i \<in> set (named_constrs p s es)"
    by (simp add: named_constrs_length)
  show "c_name (named_constrs p s es ! i) = p @ str_nat i"
    using i by (simp add: named_constrs_nth)
qed

lemma setParam_fields:
  "m_constrs (setParam model p v) = m_constrs model"
  "m_vars (setParam model p v) = m_vars model"
  by (simp_all add: setParam_def)

lemma fold_setParam_fields:
  "m_constrs (fold (\<lambda>(parameter, v) m. setParam m parameter v) kwargs model) = m_constrs model
   \<and> m_vars (fold (\<lambda>(parameter, v) m. setParam m parameter v) kwargs model) = m_vars model"
proof (induction kwargs arbitrary: model)
  case Nil
  then show ?case by simp
next
  case (Cons kv kwargs)
  obtain p v where kv: "kv = (p, v)" by (cases kv)
  show ?case using Cons [of "setParam model p v"] by (simp add: kv setParam_fields)
qed

lemma set_kwargs_fields:
  "m_constrs (set_kwargs kwargs model) = m_constrs model"
  "m_vars (set_kwargs kwargs model) = m_vars model"
  using fold_setParam_fields [of kwargs model] by (simp_all add: set_kwargs_def)

lemma getConstrByName_present:
  assumes "\<exists>c\<in>set (m_constrs model). c_name c = name"
  shows "\<exists>c. getConstrByName model name = Some c \<and> c_name c = name"
proof (cases "getConstrByName model name")
  case None
  then have "\<not> (\<exists>c. c \<in> set (m_constrs model) \<and> c_name c = name)"
    unfolding getConstrByName_def find_None_iff .
  with assms show ?thesis by blast
next
  case (Some c)
  then have "c_name c = name"
    unfolding getConstrByName_def find_Some_iff by blast
  with Some show ?thesis by simp
qed

lemma constr_attrs_ok:
  "\<forall>i\<in>set is. \<exists>c\<in>set (m_constrs model). c_name c = prefix @ str_nat i \<Longrightarrow>
     constr_attrs model attr prefix is = Inr (map (\<lambda>i. attr (prefix @ str_nat i)) is)"
proof (induction "is")
  case Nil
  then show ?case by simp
next
  case (Cons i "is")
  then obtain c where "getConstrByName model (prefix @ str_nat i) = Some c"
    and "c_name c = prefix @ str_nat i"
    using getConstrByName_present [of model "prefix @ str_nat i"] by auto
  then show ?case using Cons by simp
qed

lemma build_model_names:
  assumes "build_model H f A b C d = Inr model" "i < shape0 A"
  shows "\<exists>c\<in>set (m_constrs model). c_name c = ''ineq_'' @ str_nat i"
proof -
  from assms(1) obtain ineqs eqs where
    l: "linear_expression A (map uminus b) (max (shape0 f) (shape1 f)) linear_expression_tol = Inr ineqs"
    and c: "m_constrs model = named_constrs ''ineq_'' LESS_EQUAL ineqs @ named_constrs ''eq_'' EQUAL eqs"
    by (rule build_model_parts)
  from linear_expression_rows(1) [OF l] assms(2) have "i < length ineqs" by simp
  from named_constrs_name [OF this, of "''ineq_''" LESS_EQUAL] c show ?thesis by auto
qed

lemma linear_program_model_names:
  assumes "linear_program_model f A b C d kwargs = Inr model" "i < shape0 A"
  shows "\<exists>c\<in>set (m_constrs model). c_name c = ''ineq_'' @ str_nat i"
proof -
  from assms(1) obtain m0 where b: "build_model None f A b C d = Inr m0"
    and m: "model = set_kwargs kwargs (setParam m0 ''OutputFlag'' 0)"
    by (auto simp: linear_program_model_def split: sum.splits)
  from build_model_names [OF b assms(2)] show ?thesis
    by (simp add: m set_kwargs_fields setParam_fields)
qed

lemma quadratic_program_model_names:
  assumes "quadratic_program_model H f A b C d kwargs = Inr model" "i < shape0 A"
  shows "\<exists>c\<in>set (m_constrs model). c_name c = ''ineq_'' @ str_nat i"
proof -
  from assms(1) obtain m0 where b: "build_model (Some H) f A b C d = Inr m0"
    and m: "model = set_kwargs kwargs (setParam (setParam m0 ''OutputFlag'' 0) ''BarConvTol''
                   (binary64 (1 / 10 ^ 10)))"
    by (auto simp: quadratic_program_model_def split: sum.splits)
  from build_model_names [OF b assms(2)] show ?thesis
    by (simp add: m set_kwargs_fields setParam_fields)
qed

text \<open>With the names in place the attribute loops read one value per inequality row.\<close>

lemma ineq_attrs:
  assumes "\<forall>i<shape0 A. \<exists>c\<in>set (m_constrs model). c_name c = ''ineq_'' @ str_nat i"
  shows "constr_attrs model attr ''ineq_'' [0..<shape0 A]
           = Inr (map (\<lambda>i. attr (''ineq_'' @ str_nat i)) [0..<shape0 A])"
  using assms by (intro constr_attrs_ok) simp

section \<open>The solution dictionary\<close>

lemma reorganize_solution_not_optimal:
  "status res \<noteq> OPTIMAL \<Longrightarrow> reorganize_solution model res A C True = Inr sol \<Longrightarrow>
     sol = [''min'' \<mapsto> PyNone, ''argmin'' \<mapsto> PyNone, ''active_set'' \<mapsto> PyNone,
            ''multiplier_inequality'' \<mapsto> PyNone, ''multiplier_equality'' \<mapsto> PyNone]"
  by (simp add: reorganize_solution_def)

text \<open>The shape of the dictionary of a continuous problem solved to optimality.\<close>

lemma reorganize_solution_optimal:
  assumes "status res = OPTIMAL" "reorganize_solution model res A C True = Inr sol"
  obtains m me where
    "constr_attrs model (\<lambda>n. - attr_Pi res n) ''ineq_'' [0..<shape0 A] = Inr m"
    "sol = [''min'' \<mapsto> PyFloat (objVal res), ''argmin'' \<mapsto> PyArray (var_x res),
            ''active_set'' \<mapsto> PyNone, ''multiplier_inequality'' \<mapsto> PyArray m,
            ''multiplier_equality'' \<mapsto> me]"
proof -
  let ?base = "[''min'' \<mapsto> PyFloat (objVal res), ''argmin'' \<mapsto> PyArray (var_x res),
            ''active_set'' \<mapsto> PyNone]"
  from assms obtain m where
    m: "constr_attrs model (\<lambda>n. - attr_Pi res n) ''ineq_'' [0..<shape0 A] = Inr m"
    by (auto simp: reorganize_solution_def Let_def split: sum.splits)
  from assms m have
    "sol = ?base(''multiplier_inequality'' \<mapsto> PyArray m, ''multiplier_equality'' \<mapsto> PyNone)
     \<or> (\<exists>m'. sol = ?base(''multiplier_inequality'' \<mapsto> PyArray m,
                           ''multiplier_equality'' \<mapsto> PyArray m'))"
    by (auto simp: reorganize_solution_def Let_def vstack_def fun_upd_twist
        split: sum.splits option.splits if_splits)
  with m that show thesis by blast
qed

lemma reorganize_solution_mixed:
  assumes "reorganize_solution model res A C False = Inr sol"
  shows "sol = [''min'' \<mapsto> PyNone, ''argmin'' \<mapsto> PyNone]
       \<or> sol = [''min'' \<mapsto> PyFloat (objVal res), ''argmin'' \<mapsto> PyArray (var_x res)]"
  using assms
  by (auto simp: reorganize_solution_def Let_def split: if_splits)

lemma linear_program_not_optimal:
  assumes "linear_program_model f A b C d kwargs = Inr model"
    and "linear_program optimize f A b C d kwargs = Inr sol"
    and "status (optimize model) \<noteq> OPTIMAL"
  shows "sol = [''min'' \<mapsto> PyNone, ''argmin'' \<mapsto> PyNone, ''active_set'' \<mapsto> PyNone,
            ''multiplier_inequality'' \<mapsto> PyNone, ''multiplier_equality'' \<mapsto> PyNone]"
proof -
  from assms have "reorganize_solution model (optimize model) A C True = Inr sol"
    by (simp add: linear_program_def Let_def split: sum.splits)
  with assms(3) show ?thesis by (rule reorganize_solution_not_optimal)
qed

lemma linear_program_optimal:
  assumes "linear_program_model f A b C d kwargs = Inr model"
    and "linear_program optimize f A b C d kwargs = Inr sol"
    and "status (optimize model) = OPTIMAL"
  obtains m me cbasis where
    "constr_attrs model (attr_CBasis (optimize model)) ''ineq_'' [0..<shape0 A] = Inr cbasis"
    "sol = [''min'' \<mapsto> PyFloat (objVal (optimize model)),
            ''argmin'' \<mapsto> PyArray (var_x (optimize model)),
            ''active_set'' \<mapsto> PyList (nonbasic_rows cbasis (shape0 A)),
            ''multiplier_inequality'' \<mapsto> PyArray m,
            ''multiplier_equality'' \<mapsto> me]"
proof -
  from assms obtain sol0 cbasis where
    r: "reorganize_solution model (optimize model) A C True = Inr sol0"
    and c: "constr_attrs model (attr_CBasis (optimize model)) ''ineq_'' [0..<shape0 A] = Inr cbasis"
    and s: "sol = sol0(''active_set'' \<mapsto> PyList (nonbasic_rows cbasis (shape0 A)))"
    by (auto simp: linear_program_def Let_def split: sum.splits)
  from reorganize_solution_optimal [OF assms(3) r] obtain m me where
    "sol0 = [''min'' \<mapsto> PyFloat (objVal (optimize model)),
            ''argmin'' \<mapsto> PyArray (var_x (optimize model)),
            ''active_set'' \<mapsto> PyNone, ''multiplier_inequality'' \<mapsto> PyArray m,
            ''multiplier_equality'' \<mapsto> me]"
    by blast
  with s have "sol = [''min'' \<mapsto> PyFloat (objVal (optimize model)),
            ''argmin'' \<mapsto> PyArray (var_x (optimize model)),
            ''active_set'' \<mapsto> PyList (nonbasic_rows cbasis (shape0 A)),
            ''multiplier_inequality'' \<mapsto> PyArray m,
            ''multiplier_equality'' \<mapsto> me]"
    by (simp add: fun_upd_twist)
  with c that show thesis by blast
qed

lemma quadratic_program_not_optimal:
  assumes "quadratic_program_model H f A b C d kwargs = Inr model"
    and "quadratic_program optimize H f A b C d tol kwargs = Inr sol"
    and "status (optimize model) \<noteq> OPTIMAL"
  shows "sol = [''min'' \<mapsto> PyNone, ''argmin'' \<mapsto> PyNone, ''active_set'' \<mapsto> PyNone,
            ''multiplier_inequality'' \<mapsto> PyNone, ''multiplier_equality'' \<mapsto> PyNone]"
proof -
  from assms have "reorganize_solution model (optimize model) A C True = Inr sol"
    by (simp add: quadratic_program_def Let_def split: sum.splits)
  with assms(3) show ?thesis by (rule reorganize_solution_not_optimal)
qed

lemma quadratic_program_optimal:
  assumes "quadratic_program_model H f A b C d kwargs = Inr model"
    and "quadratic_program optimize H f A b C d tol kwargs = Inr sol"
    and "status (optimize model) = OPTIMAL"
  obtains m me where
    "constr_attrs model (\<lambda>n. - attr_Pi (optimize model) n) ''ineq_'' [0..<shape0 A] = Inr m"
    "sol = [''min'' \<mapsto> PyFloat (objVal (optimize model)),
            ''argmin'' \<mapsto> PyArray (var_x (optimize model)),
            ''active_set'' \<mapsto> PyList (where_greater m tol),
            ''multiplier_inequality'' \<mapsto> PyArray m,
            ''multiplier_equality'' \<mapsto> me]"
proof -
  from assms obtain sol0 where
    r: "reorganize_solution model (optimize model) A C True = Inr sol0"
    by (auto simp: quadratic_program_def Let_def split: sum.splits)
  from reorganize_solution_optimal [OF assms(3) r] obtain m me where
    m: "constr_attrs model (\<lambda>n. - attr_Pi (optimize model) n) ''ineq_'' [0..<shape0 A] = Inr m"
    and s0: "sol0 = [''min'' \<mapsto> PyFloat (objVal (optimize model)),
            ''argmin'' \<mapsto> PyArray (var_x (optimize model)),
            ''active_set'' \<mapsto> PyNone, ''multiplier_inequality'' \<mapsto> PyArray m,
            ''multiplier_equality'' \<mapsto> me]"
    by blast
  have mi: "sol0 ''multiplier_inequality'' = Some (PyArray m)"
    by (simp add: s0)
  from assms r mi have "sol = sol0(''active_set'' \<mapsto> PyList (where_greater m tol))"
    by (simp add: quadratic_program_def Let_def)
  with s0 have "sol = [''min'' \<mapsto> PyFloat (objVal (optimize model)),
            ''argmin'' \<mapsto> PyArray (var_x (optimize model)),
            ''active_set'' \<mapsto> PyList (where_greater m tol),
            ''multiplier_inequality'' \<mapsto> PyArray m,
            ''multiplier_equality'' \<mapsto> me]"
    by (simp add: fun_upd_twist)
  with m that show thesis by blast
qed

text \<open>The result of \<open>linear_program\<close> on a problem without equality constraints that the
  optimizer solves to optimality.\<close>

lemma linear_program_result:
  assumes m: "linear_program_model f A b None None kwargs = Inr model"
    and o: "status (optimize model) = OPTIMAL"
    and n: "0 < shape0 A"
  shows "linear_program optimize f A b None None kwargs =
     Inr [''min'' \<mapsto> PyFloat (objVal (optimize model)),
          ''argmin'' \<mapsto> PyArray (var_x (optimize model)),
          ''active_set'' \<mapsto> PyList (nonbasic_rows
              (map (\<lambda>i. attr_CBasis (optimize model) (''ineq_'' @ str_nat i)) [0..<shape0 A])
              (shape0 A)),
          ''multiplier_inequality'' \<mapsto> PyArray
              (map (\<lambda>i. - attr_Pi (optimize model) (''ineq_'' @ str_nat i)) [0..<shape0 A]),
          ''multiplier_equality'' \<mapsto> PyNone]"
proof -
  have names: "\<forall>i<shape0 A. \<exists>c\<in>set (m_constrs model). c_name c = ''ineq_'' @ str_nat i"
    using linear_program_model_names [OF m] by blast
  have ne: "[0..<shape0 A] \<noteq> []" using n by simp
  show ?thesis
    using o ne
    by (simp add: linear_program_def m Let_def reorganize_solution_def ineq_attrs [OF names]
        vstack_def fun_upd_twist)
qed

lemma quadratic_program_result:
  assumes m: "quadratic_program_model H f A b None None kwargs = Inr model"
    and o: "status (optimize model) = OPTIMAL"
    and n: "0 < shape0 A"
  shows "quadratic_program optimize H f A b None None tol kwargs =
     Inr [''min'' \<mapsto> PyFloat (objVal (optimize model)),
          ''argmin'' \<mapsto> PyArray (var_x (optimize model)),
          ''active_set'' \<mapsto> PyList (where_greater
              (map (\<lambda>i. - attr_Pi (optimize model) (''ineq_'' @ str_nat i)) [0..<shape0 A]) tol),
          ''multiplier_inequality'' \<mapsto> PyArray
              (map (\<lambda>i. - attr_Pi (optimize model) (''ineq_'' @ str_nat i)) [0..<shape0 A]),
          ''multiplier_equality'' \<mapsto> PyNone]"
proof -
  have names: "\<forall>i<shape0 A. \<exists>c\<in>set (m_constrs model). c_name c = ''ineq_'' @ str_nat i"
    using quadratic_program_model_names [OF m] by blast
  have ne: "[0..<shape0 A] \<noteq> []" using n by simp
  show ?thesis
    using o ne
    by (simp add: quadratic_program_def m Let_def reorganize_solution_def ineq_attrs [OF names]
        vstack_def fun_upd_twist)
qed

lemma program_not_optimal_result:
  "linear_program_model f A b C d kwargs = Inr model \<Longrightarrow> status (optimize model) \<noteq> OPTIMAL \<Longrightarrow>
     linear_program optimize f A b C d kwargs =
       Inr [''min'' \<mapsto> PyNone, ''argmin'' \<mapsto> PyNone, ''active_set'' \<mapsto> PyNone,
            ''multiplier_inequality'' \<mapsto> PyNone, ''multiplier_equality'' \<mapsto> PyNone]"
  "quadratic_program_model H f A b C d kwargs = Inr model' \<Longrightarrow> status (optimize model') \<noteq> OPTIMAL \<Longrightarrow>
     quadratic_program optimize H f A b C d tol kwargs =
       Inr [''min'' \<mapsto> PyNone, ''argmin'' \<mapsto> PyNone, ''active_set'' \<mapsto> PyNone,
            ''multiplier_inequality'' \<mapsto> PyNone, ''multiplier_equality'' \<mapsto> PyNone]"
  by (simp_all add: linear_program_def quadratic_program_def Let_def reorganize_solution_def)

lemma mixed_integer_quadratic_program_result:
  "mixed_integer_quadratic_program_model nc H f A b C d kwargs = Inr model \<Longrightarrow>
     mixed_integer_quadratic_program optimize nc H f A b C d kwargs =
       Inr (if status (optimize model) = OPTIMAL
            then [''min'' \<mapsto> PyFloat (objVal (optimize model)),
                  ''argmin'' \<mapsto> PyArray (var_x (optimize model))]
            else [''min'' \<mapsto> PyNone, ''argmin'' \<mapsto> PyNone])"
  by (simp add: mixed_integer_quadratic_program_def reorganize_solution_def Let_def)

section \<open>The problem instances, built\<close>

lemma str_nat_digits: "str_nat 0 = ''0''" "str_nat 1 = ''1''" "str_nat (Suc 0) = ''1''"
  by (simp_all add: str_nat.simps digit_char_def)

lemma tols:
  "linear_expression_tol = 7737125245533627 / 77371252455336267181195264"
  "quadratic_expression_tol = 944473296573929 / 9444732965739290427392"
  by (simp_all add: linear_expression_tol_def quadratic_expression_tol_def b64_1e_10 b64_1e_7)

lemmas build_eval = build_model_def Let_def linear_expression_def quadratic_expression_def
  of_rows_def reshape_row_def flat_def LinExpr_def QuadExpr_def add_term_def add_const_def
  add_quad_term_def add_lin_def half_def tols binary64_unit binary64_zero

lemma degenerate_lp_model:
  "\<exists>model. linear_program_model degenerate_lp_f degenerate_lp_A degenerate_lp_b None None []
      = Inr model"
  by (simp add: linear_program_model_def degenerate_lp_f_def degenerate_lp_A_def
      degenerate_lp_b_def build_eval)

lemma infeasible_qp_model:
  "\<exists>model. quadratic_program_model (of_rows [[1]]) (of_rows [[0]]) infeasible_qp_A [- 1, - 1]
      None None [] = Inr model"
  by (simp add: quadratic_program_model_def infeasible_qp_A_def build_eval)

lemma small_miqp_model:
  "\<exists>model. mixed_integer_quadratic_program_model 1 small_miqp_H small_miqp_f small_miqp_A [1]
      None None [] = Inr model"
  by (simp add: mixed_integer_quadratic_program_model_def small_miqp_H_def small_miqp_f_def
      small_miqp_A_def build_eval py_index_def)

lemma small_miqp_build:
  "\<exists>model. build_model (Some small_miqp_H) small_miqp_f small_miqp_A [1] None None = Inr model"
  by (simp add: small_miqp_H_def small_miqp_f_def small_miqp_A_def build_eval)

lemma tape_A:
  "env_A tape =
    [[4478112651571045 / 81129638414606681695789005144064,
      - (2880345552633781 / 81129638414606681695789005144064),
      2853033883774589 / 45671926166590716193865151022383844364247891968],
     [2251834243835823 / 81129638414606681695789005144064, 0, 0],
     [0, 2251834243835823 / 81129638414606681695789005144064, 0]]"
  by (simp add: tape_def Let_def b64_5_5197e_17 b64_3_5503e_17 b64_6_2468e_32 b64_2_7756e_17)

lemma tape_A_shape: "shape0 (of_rows (env_A tape)) = 3" "shape1 (of_rows (env_A tape)) = 3"
  by (simp_all add: tape_A of_rows_def)

lemma tape_A_small:
  "i < 3 \<Longrightarrow> j < 3 \<Longrightarrow> \<bar>item (of_rows (env_A tape)) i j\<bar> \<le> linear_expression_tol"
proof -
  assume "i < 3" "j < 3"
  then have "i \<in> {0, 1, 2}" "j \<in> {0, 1, 2}" by auto
  then show ?thesis
    by (auto simp: tape_A of_rows_def tols)
qed

lemma tape_lp_model:
  "\<exists>model. build_model None (of_rows [[1], [1], [1]]) (of_rows (env_A tape)) [1, 1, 1] None None
      = Inr model"
  by (simp add: tape_A build_eval upt_rec [of 0 3] upt_rec [of 1 3] upt_rec [of 2 3])

section \<open>Fields that are None\<close>

text \<open>
  Claim C4. Take a call of \<open>linear_program\<close> or \<open>quadratic_program\<close> that returns a dictionary,
  and the model it handed to the optimizer. If the optimizer leaves a status other than
  \<open>OPTIMAL\<close>, the five fields \<open>min\<close>, \<open>argmin\<close>, \<open>active_set\<close>, \<open>multiplier_inequality\<close>
  and \<open>multiplier_equality\<close> are all \<open>None\<close>; if it leaves \<open>OPTIMAL\<close>, \<open>min\<close> is the objective
  value and \<open>argmin\<close> the array of the variables' values, neither of them \<open>None\<close>.
\<close>

theorem solution_none_iff_not_optimal:
  "(linear_program_model f A b C d kwargs = Inr model
      \<and> linear_program optimize f A b C d kwargs = Inr sol \<longrightarrow>
      (status (optimize model) \<noteq> OPTIMAL \<longrightarrow>
         sol ''min'' = Some PyNone \<and> sol ''argmin'' = Some PyNone
         \<and> sol ''active_set'' = Some PyNone \<and> sol ''multiplier_inequality'' = Some PyNone
         \<and> sol ''multiplier_equality'' = Some PyNone)
      \<and> (status (optimize model) = OPTIMAL \<longrightarrow>
         sol ''min'' = Some (PyFloat (objVal (optimize model)))
         \<and> sol ''argmin'' = Some (PyArray (var_x (optimize model)))))
   \<and> (quadratic_program_model H f' A' b' C' d' kwargs' = Inr model'
      \<and> quadratic_program optimize' H f' A' b' C' d' tol kwargs' = Inr sol' \<longrightarrow>
      (status (optimize' model') \<noteq> OPTIMAL \<longrightarrow>
         sol' ''min'' = Some PyNone \<and> sol' ''argmin'' = Some PyNone
         \<and> sol' ''active_set'' = Some PyNone \<and> sol' ''multiplier_inequality'' = Some PyNone
         \<and> sol' ''multiplier_equality'' = Some PyNone)
      \<and> (status (optimize' model') = OPTIMAL \<longrightarrow>
         sol' ''min'' = Some (PyFloat (objVal (optimize' model')))
         \<and> sol' ''argmin'' = Some (PyArray (var_x (optimize' model')))))"
proof (intro conjI impI)
  assume h: "linear_program_model f A b C d kwargs = Inr model
      \<and> linear_program optimize f A b C d kwargs = Inr sol"
  { assume "status (optimize model) \<noteq> OPTIMAL"
    with h have s: "sol = [''min'' \<mapsto> PyNone, ''argmin'' \<mapsto> PyNone, ''active_set'' \<mapsto> PyNone,
            ''multiplier_inequality'' \<mapsto> PyNone, ''multiplier_equality'' \<mapsto> PyNone]"
      by (intro linear_program_not_optimal [of f A b C d kwargs model optimize]) simp_all
    show "sol ''min'' = Some PyNone" by (simp add: s)
    show "sol ''argmin'' = Some PyNone" by (simp add: s)
    show "sol ''active_set'' = Some PyNone" by (simp add: s)
    show "sol ''multiplier_inequality'' = Some PyNone" by (simp add: s)
    show "sol ''multiplier_equality'' = Some PyNone" by (simp add: s) }
  { assume o: "status (optimize model) = OPTIMAL"
    from h have h1: "linear_program_model f A b C d kwargs = Inr model"
      and h2: "linear_program optimize f A b C d kwargs = Inr sol" by simp_all
    from linear_program_optimal [OF h1 h2 o] obtain m me cbasis where s: "sol = [''min'' \<mapsto> PyFloat (objVal (optimize model)),
            ''argmin'' \<mapsto> PyArray (var_x (optimize model)),
            ''active_set'' \<mapsto> PyList (nonbasic_rows cbasis (shape0 A)),
            ''multiplier_inequality'' \<mapsto> PyArray m,
            ''multiplier_equality'' \<mapsto> me]"
      by blast
    show "sol ''min'' = Some (PyFloat (objVal (optimize model)))" by (simp add: s)
    show "sol ''argmin'' = Some (PyArray (var_x (optimize model)))" by (simp add: s) }
next
  assume h: "quadratic_program_model H f' A' b' C' d' kwargs' = Inr model'
      \<and> quadratic_program optimize' H f' A' b' C' d' tol kwargs' = Inr sol'"
  { assume "status (optimize' model') \<noteq> OPTIMAL"
    with h have s: "sol' = [''min'' \<mapsto> PyNone, ''argmin'' \<mapsto> PyNone, ''active_set'' \<mapsto> PyNone,
            ''multiplier_inequality'' \<mapsto> PyNone, ''multiplier_equality'' \<mapsto> PyNone]"
      by (intro quadratic_program_not_optimal [of H f' A' b' C' d' kwargs' model' optimize' tol]) simp_all
    show "sol' ''min'' = Some PyNone" by (simp add: s)
    show "sol' ''argmin'' = Some PyNone" by (simp add: s)
    show "sol' ''active_set'' = Some PyNone" by (simp add: s)
    show "sol' ''multiplier_inequality'' = Some PyNone" by (simp add: s)
    show "sol' ''multiplier_equality'' = Some PyNone" by (simp add: s) }
  { assume o: "status (optimize' model') = OPTIMAL"
    from h have h1: "quadratic_program_model H f' A' b' C' d' kwargs' = Inr model'"
      and h2: "quadratic_program optimize' H f' A' b' C' d' tol kwargs' = Inr sol'" by simp_all
    from quadratic_program_optimal [OF h1 h2 o] obtain m me where s: "sol' = [''min'' \<mapsto> PyFloat (objVal (optimize' model')),
            ''argmin'' \<mapsto> PyArray (var_x (optimize' model')),
            ''active_set'' \<mapsto> PyList (where_greater m tol),
            ''multiplier_inequality'' \<mapsto> PyArray m,
            ''multiplier_equality'' \<mapsto> me]"
      by blast
    show "sol' ''min'' = Some (PyFloat (objVal (optimize' model')))" by (simp add: s)
    show "sol' ''argmin'' = Some (PyArray (var_x (optimize' model')))" by (simp add: s) }
qed

text \<open>Claim C4 at two calls: the linear program above, solved to optimality, and an
  infeasible quadratic program.\<close>

theorem solution_none_iff_not_optimal_witness:
  "(\<exists>model sol.
       linear_program_model degenerate_lp_f degenerate_lp_A degenerate_lp_b None None [] = Inr model
     \<and> linear_program degenerate_lp_optimum degenerate_lp_f degenerate_lp_A degenerate_lp_b
          None None [] = Inr sol
     \<and> status (degenerate_lp_optimum model) = OPTIMAL
     \<and> sol ''min'' = Some (PyFloat (- 1)) \<and> sol ''argmin'' = Some (PyArray [1]))
   \<and> (\<exists>model sol.
       quadratic_program_model (of_rows [[1]]) (of_rows [[0]]) infeasible_qp_A [- 1, - 1]
          None None [] = Inr model
     \<and> quadratic_program infeasible_answer (of_rows [[1]]) (of_rows [[0]]) infeasible_qp_A
          [- 1, - 1] None None (1 / 10 ^ 5) [] = Inr sol
     \<and> status (infeasible_answer model) \<noteq> OPTIMAL
     \<and> sol ''min'' = Some PyNone \<and> sol ''argmin'' = Some PyNone
     \<and> sol ''active_set'' = Some PyNone \<and> sol ''multiplier_inequality'' = Some PyNone
     \<and> sol ''multiplier_equality'' = Some PyNone)"
proof -
  obtain m1 where m1: "linear_program_model degenerate_lp_f degenerate_lp_A degenerate_lp_b
      None None [] = Inr m1"
    using degenerate_lp_model by blast
  have o1: "status (degenerate_lp_optimum m1) = OPTIMAL"
    by (simp add: degenerate_lp_optimum_def)
  have n1: "0 < shape0 degenerate_lp_A"
    by (simp add: degenerate_lp_A_def of_rows_def)
  obtain s1 where s1: "linear_program degenerate_lp_optimum degenerate_lp_f degenerate_lp_A
      degenerate_lp_b None None [] = Inr s1"
    using linear_program_result [where optimize = degenerate_lp_optimum, OF m1 o1 n1] by blast
  obtain m2 where m2: "quadratic_program_model (of_rows [[1]]) (of_rows [[0]]) infeasible_qp_A
      [- 1, - 1] None None [] = Inr m2"
    using infeasible_qp_model by blast
  have o2: "status (infeasible_answer m2) \<noteq> OPTIMAL"
    by (simp add: infeasible_answer_def)
  obtain s2 where s2: "quadratic_program infeasible_answer (of_rows [[1]]) (of_rows [[0]])
      infeasible_qp_A [- 1, - 1] None None (1 / 10 ^ 5) [] = Inr s2"
    using program_not_optimal_result(2) [where optimize = infeasible_answer, OF m2 o2] by blast
  have v: "objVal (degenerate_lp_optimum m1) = - 1" "var_x (degenerate_lp_optimum m1) = [1]"
    by (simp_all add: degenerate_lp_optimum_def)
  from solution_none_iff_not_optimal [of degenerate_lp_f degenerate_lp_A degenerate_lp_b None None
      "[]" m1 degenerate_lp_optimum s1 "of_rows [[1]]" "of_rows [[0]]" infeasible_qp_A "[- 1, - 1]"
      None None "[]" m2 infeasible_answer "1 / 10 ^ 5" s2] m1 s1 o1 m2 s2 o2 v
  show ?thesis by auto
qed

section \<open>The active set\<close>

text \<open>
  Claim C5 at the linear program \<open>min -x  s.t.  x \<le> 1, x \<le> 1\<close>. Both rows are tight at the
  optimum \<open>x = 1\<close>, so \<open>{i | A_i argmin = b_i}\<close> is \<open>{0, 1}\<close>; the active set that
  \<open>linear_program\<close> returns holds the rows with \<open>CBasis == -1\<close>, which is row 0 alone.
\<close>

theorem degenerate_lp_active_set:
  "linear_program degenerate_lp_optimum degenerate_lp_f degenerate_lp_A degenerate_lp_b None None []
     = Inr [''min'' \<mapsto> PyFloat (- 1), ''argmin'' \<mapsto> PyArray [1],
            ''active_set'' \<mapsto> PyList [0],
            ''multiplier_inequality'' \<mapsto> PyArray [1, 0],
            ''multiplier_equality'' \<mapsto> PyNone]
   \<and> tight_rows degenerate_lp_A degenerate_lp_b [1] = [0, 1]"
proof -
  obtain model where m: "linear_program_model degenerate_lp_f degenerate_lp_A degenerate_lp_b
      None None [] = Inr model"
    using degenerate_lp_model by blast
  have o: "status (degenerate_lp_optimum model) = OPTIMAL"
    by (simp add: degenerate_lp_optimum_def)
  have n: "0 < shape0 degenerate_lp_A"
    by (simp add: degenerate_lp_A_def of_rows_def)
  have s: "shape0 degenerate_lp_A = 2" "shape1 degenerate_lp_A = 1"
    by (simp_all add: degenerate_lp_A_def of_rows_def)
  have u: "[0..<2] = [0, 1]"
    by (simp add: upt_rec)
  have t: "tight_rows degenerate_lp_A degenerate_lp_b [1] = [0, 1]"
    unfolding tight_rows_def s u
    by (simp add: degenerate_lp_A_def degenerate_lp_b_def of_rows_def)
  show ?thesis
    unfolding linear_program_result [where optimize = degenerate_lp_optimum, OF m o n] s u
    by (simp add: degenerate_lp_optimum_def nonbasic_rows_def u str_nat_digits t)
qed

section \<open>The fields of the dictionary\<close>

text \<open>
  Claim C7, as stated, at a mixed-integer program. \<open>mixed_integer_quadratic_program\<close> calls
  \<open>_reorganize_solution\<close> with \<open>continuous=False\<close>, which leaves the three fields
  \<open>active_set\<close>, \<open>multiplier_inequality\<close> and \<open>multiplier_equality\<close> out: the dictionary
  returned has the two keys \<open>min\<close> and \<open>argmin\<close>.
\<close>

theorem mixed_integer_solution_has_two_fields:
  "mixed_integer_quadratic_program small_miqp_optimum 1 small_miqp_H small_miqp_f small_miqp_A [1]
     None None []
     = Inr [''min'' \<mapsto> PyFloat (- (1 / 2)), ''argmin'' \<mapsto> PyArray [0, 1]]
   \<and> [''min'' \<mapsto> PyFloat (- (1 / 2)), ''argmin'' \<mapsto> PyArray [0, 1]] ''active_set'' = None
   \<and> [''min'' \<mapsto> PyFloat (- (1 / 2)), ''argmin'' \<mapsto> PyArray [0, 1 :: rat]]
        ''multiplier_inequality'' = None
   \<and> [''min'' \<mapsto> PyFloat (- (1 / 2)), ''argmin'' \<mapsto> PyArray [0, 1 :: rat]]
        ''multiplier_equality'' = None"
proof -
  have "\<exists>model. mixed_integer_quadratic_program_model 1 small_miqp_H small_miqp_f small_miqp_A [1]
      None None [] = Inr model"
    by (simp add: mixed_integer_quadratic_program_model_def small_miqp_H_def small_miqp_f_def
        small_miqp_A_def build_eval py_index_def)
  then obtain model where "mixed_integer_quadratic_program_model 1 small_miqp_H small_miqp_f
      small_miqp_A [1] None None [] = Inr model"
    by blast
  from mixed_integer_quadratic_program_result [OF this, of small_miqp_optimum]
  show ?thesis by (simp add: small_miqp_optimum_def)
qed

lemma dom_five:
  "dom [''min'' \<mapsto> a, ''argmin'' \<mapsto> b, ''active_set'' \<mapsto> c,
        ''multiplier_inequality'' \<mapsto> d, ''multiplier_equality'' \<mapsto> e]
     = {''min'', ''argmin'', ''active_set'', ''multiplier_inequality'', ''multiplier_equality''}"
  by auto

lemma dom_two: "dom [''min'' \<mapsto> a, ''argmin'' \<mapsto> b] = {''min'', ''argmin''}"
  by auto

lemma linear_program_dom:
  assumes "linear_program optimize f A b C d kwargs = Inr sol"
  shows "dom sol = {''min'', ''argmin'', ''active_set'', ''multiplier_inequality'',
                    ''multiplier_equality''}"
proof -
  from assms obtain model where m: "linear_program_model f A b C d kwargs = Inr model"
    by (auto simp: linear_program_def split: sum.splits)
  show ?thesis
  proof (cases "status (optimize model) = OPTIMAL")
    case True
    from linear_program_optimal [OF m assms True] obtain mi me cbasis where
      "sol = [''min'' \<mapsto> PyFloat (objVal (optimize model)),
            ''argmin'' \<mapsto> PyArray (var_x (optimize model)),
            ''active_set'' \<mapsto> PyList (nonbasic_rows cbasis (shape0 A)),
            ''multiplier_inequality'' \<mapsto> PyArray mi,
            ''multiplier_equality'' \<mapsto> me]"
      by blast
    then show ?thesis by (simp only: dom_five)
  next
    case False
    from linear_program_not_optimal [OF m assms False] show ?thesis by (simp only: dom_five)
  qed
qed

lemma quadratic_program_dom:
  assumes "quadratic_program optimize H f A b C d tol kwargs = Inr sol"
  shows "dom sol = {''min'', ''argmin'', ''active_set'', ''multiplier_inequality'',
                    ''multiplier_equality''}"
proof -
  from assms obtain model where m: "quadratic_program_model H f A b C d kwargs = Inr model"
    by (auto simp: quadratic_program_def split: sum.splits)
  show ?thesis
  proof (cases "status (optimize model) = OPTIMAL")
    case True
    from quadratic_program_optimal [OF m assms True] obtain mi me where
      "sol = [''min'' \<mapsto> PyFloat (objVal (optimize model)),
            ''argmin'' \<mapsto> PyArray (var_x (optimize model)),
            ''active_set'' \<mapsto> PyList (where_greater mi tol),
            ''multiplier_inequality'' \<mapsto> PyArray mi,
            ''multiplier_equality'' \<mapsto> me]"
      by blast
    then show ?thesis by (simp only: dom_five)
  next
    case False
    from quadratic_program_not_optimal [OF m assms False] show ?thesis by (simp only: dom_five)
  qed
qed

lemma mixed_integer_quadratic_program_dom:
  assumes "mixed_integer_quadratic_program optimize nc H f A b C d kwargs = Inr sol"
  shows "dom sol = {''min'', ''argmin''}"
proof -
  from assms obtain model where
    "reorganize_solution model (optimize model) A C False = Inr sol"
    by (auto simp: mixed_integer_quadratic_program_def split: sum.splits)
  from reorganize_solution_mixed [OF this] show ?thesis
  proof
    assume "sol = [''min'' \<mapsto> PyNone, ''argmin'' \<mapsto> PyNone]"
    then show ?thesis by (simp only: dom_two)
  next
    assume "sol = [''min'' \<mapsto> PyFloat (objVal (optimize model)),
                   ''argmin'' \<mapsto> PyArray (var_x (optimize model))]"
    then show ?thesis by (simp only: dom_two)
  qed
qed

text \<open>
  Claim C7, amended. A call of \<open>linear_program\<close> or \<open>quadratic_program\<close> that returns, returns
  a dictionary with exactly the five fields \<open>min\<close>, \<open>argmin\<close>, \<open>active_set\<close>,
  \<open>multiplier_inequality\<close> and \<open>multiplier_equality\<close>; a call of
  \<open>mixed_integer_quadratic_program\<close> that returns, returns a dictionary with exactly the
  two fields \<open>min\<close> and \<open>argmin\<close>.
\<close>

theorem solution_fields:
  "(linear_program optimize f A b C d kwargs = Inr sol \<longrightarrow>
      dom sol = {''min'', ''argmin'', ''active_set'', ''multiplier_inequality'',
                 ''multiplier_equality''})
   \<and> (quadratic_program optimize' H f' A' b' C' d' tol kwargs' = Inr sol' \<longrightarrow>
      dom sol' = {''min'', ''argmin'', ''active_set'', ''multiplier_inequality'',
                  ''multiplier_equality''})
   \<and> (mixed_integer_quadratic_program optimize'' nc H'' f'' A'' b'' C'' d'' kwargs'' = Inr sol'' \<longrightarrow>
      dom sol'' = {''min'', ''argmin''})"
proof (intro conjI impI)
  assume "linear_program optimize f A b C d kwargs = Inr sol"
  then show "dom sol = {''min'', ''argmin'', ''active_set'', ''multiplier_inequality'',
                 ''multiplier_equality''}"
    by (rule linear_program_dom)
next
  assume "quadratic_program optimize' H f' A' b' C' d' tol kwargs' = Inr sol'"
  then show "dom sol' = {''min'', ''argmin'', ''active_set'', ''multiplier_inequality'',
                  ''multiplier_equality''}"
    by (rule quadratic_program_dom)
next
  assume "mixed_integer_quadratic_program optimize'' nc H'' f'' A'' b'' C'' d'' kwargs'' = Inr sol''"
  then show "dom sol'' = {''min'', ''argmin''}"
    by (rule mixed_integer_quadratic_program_dom)
qed

theorem solution_fields_witness:
  "(\<exists>sol. linear_program degenerate_lp_optimum degenerate_lp_f degenerate_lp_A degenerate_lp_b
            None None [] = Inr sol
        \<and> dom sol = {''min'', ''argmin'', ''active_set'', ''multiplier_inequality'',
                      ''multiplier_equality''})
   \<and> (\<exists>sol. quadratic_program infeasible_answer (of_rows [[1]]) (of_rows [[0]]) infeasible_qp_A
            [- 1, - 1] None None (1 / 10 ^ 5) [] = Inr sol
        \<and> dom sol = {''min'', ''argmin'', ''active_set'', ''multiplier_inequality'',
                      ''multiplier_equality''})
   \<and> (\<exists>sol. mixed_integer_quadratic_program small_miqp_optimum 1 small_miqp_H small_miqp_f
            small_miqp_A [1] None None [] = Inr sol
        \<and> dom sol = {''min'', ''argmin''})"
proof -
  obtain m1 where m1: "linear_program_model degenerate_lp_f degenerate_lp_A degenerate_lp_b
      None None [] = Inr m1"
    using degenerate_lp_model by blast
  have o1: "status (degenerate_lp_optimum m1) = OPTIMAL"
    by (simp add: degenerate_lp_optimum_def)
  have n1: "0 < shape0 degenerate_lp_A"
    by (simp add: degenerate_lp_A_def of_rows_def)
  obtain s1 where s1: "linear_program degenerate_lp_optimum degenerate_lp_f degenerate_lp_A
      degenerate_lp_b None None [] = Inr s1"
    using linear_program_result [where optimize = degenerate_lp_optimum, OF m1 o1 n1] by blast
  obtain m2 where m2: "quadratic_program_model (of_rows [[1]]) (of_rows [[0]]) infeasible_qp_A
      [- 1, - 1] None None [] = Inr m2"
    using infeasible_qp_model by blast
  have o2: "status (infeasible_answer m2) \<noteq> OPTIMAL"
    by (simp add: infeasible_answer_def)
  obtain s2 where s2: "quadratic_program infeasible_answer (of_rows [[1]]) (of_rows [[0]])
      infeasible_qp_A [- 1, - 1] None None (1 / 10 ^ 5) [] = Inr s2"
    using program_not_optimal_result(2) [where optimize = infeasible_answer, OF m2 o2] by blast
  obtain m3 where m3: "mixed_integer_quadratic_program_model 1 small_miqp_H small_miqp_f
      small_miqp_A [1] None None [] = Inr m3"
    using small_miqp_model by blast
  obtain s3 where s3: "mixed_integer_quadratic_program small_miqp_optimum 1 small_miqp_H
      small_miqp_f small_miqp_A [1] None None [] = Inr s3"
    using mixed_integer_quadratic_program_result [OF m3, of small_miqp_optimum] by blast
  from solution_fields [of degenerate_lp_optimum degenerate_lp_f degenerate_lp_A degenerate_lp_b
      None None "[]" s1 infeasible_answer "of_rows [[1]]" "of_rows [[0]]" infeasible_qp_A
      "[- 1, - 1]" None None "1 / 10 ^ 5" "[]" s2 small_miqp_optimum 1 small_miqp_H small_miqp_f
      small_miqp_A "[1]" None None "[]" s3] s1 s2 s3
  show ?thesis by simp
qed

section \<open>Binary variables of the mixed-integer program\<close>









section \<open>Dropped coefficients\<close>

lemma build_model_constr:
  assumes "build_model H f A b C d = Inr model" "i < shape0 A"
  shows "lin_terms (c_expr (m_constrs model ! i))
           = map (\<lambda>j. (item A i j, j))
               (filter (\<lambda>j. linear_expression_tol < \<bar>item A i j\<bar>) [0..<shape1 A])"
    and "\<bar>b ! i\<bar> \<le> linear_expression_tol \<Longrightarrow> lin_const (c_expr (m_constrs model ! i)) = 0"
proof -
  from assms(1) obtain ineqs eqs where
    l: "linear_expression A (map uminus b) (max (shape0 f) (shape1 f)) linear_expression_tol = Inr ineqs"
    and c: "m_constrs model = named_constrs ''ineq_'' LESS_EQUAL ineqs @ named_constrs ''eq_'' EQUAL eqs"
    by (rule build_model_parts)
  from linear_expression_rows(1) [OF l] assms(2) have i: "i < length ineqs" by simp
  then have e: "c_expr (m_constrs model ! i) = ineqs ! i"
    by (simp add: c nth_append named_constrs_length named_constrs_nth)
  show "lin_terms (c_expr (m_constrs model ! i))
           = map (\<lambda>j. (item A i j, j))
               (filter (\<lambda>j. linear_expression_tol < \<bar>item A i j\<bar>) [0..<shape1 A])"
    unfolding e using linear_expression_rows(2) [OF l assms(2)] .
  have len: "i < length b"
  proof (rule ccontr)
    assume "\<not> i < length b"
    then have "\<exists>k<length [0..<shape0 A]. \<not> [0..<shape0 A] ! k < length b"
      using assms(2) by (intro exI [of _ i]) simp
    then show False using l linear_rows_index [of A "map uminus b" _ linear_expression_tol "[0..<shape0 A]" ineqs]
      by (auto simp: linear_expression_def)
  qed
  show "lin_const (c_expr (m_constrs model ! i)) = 0" if "\<bar>b ! i\<bar> \<le> linear_expression_tol"
    unfolding e using linear_expression_rows(3) [OF l assms(2)] that len by simp
qed

lemma build_model_objective:
  assumes "build_model (Some H) f A b C d = Inr model"
  shows "quad_terms (m_objective model)
           = map (\<lambda>(h, i, j). (binary64 (h / 2), i, j))
               (concat (map (\<lambda>i. map (\<lambda>j. (item H i j, i, j))
                   (filter (\<lambda>j. quadratic_expression_tol < \<bar>item H i j\<bar>) [0..<shape1 H]))
                 [0..<shape0 H]))"
proof -
  from assms obtain q e where
    q: "quadratic_expression H (max (shape0 f) (shape1 f)) quadratic_expression_tol = Inr q"
    and o: "m_objective model = add_lin (half q) e"
    unfolding build_model_def Let_def by (auto split: sum.splits)
  from quadratic_expression_terms [OF q] o show ?thesis
    by (simp add: add_lin_def half_def)
qed

text \<open>
  Claim C10. In a model that \<open>_build_model\<close> builds, the inequality row \<open>i\<close> holds the terms
  \<open>A[i,j] x\<^sub>j\<close> with \<open>|A[i,j]| > tol\<close> and no others, and no offset when \<open>|b\<^sub>i| \<le> tol\<close>, for
  \<open>tol\<close> the binary64 value of \<open>1e-10\<close>; the quadratic cost holds the terms of \<open>H[i,j]\<close> with
  \<open>|H[i,j]|\<close> above the binary64 value of \<open>1e-7\<close> and no others. So a row whose entries are
  all at most \<open>tol\<close> in absolute value has no variable term. Every entry of the tape
  benchmark's matrix \<open>A\<close> is, and each of its three rows gives a constraint without
  variable terms.
\<close>

theorem small_coefficients_dropped:
  "(build_model H f A b C d = Inr model \<and> i < shape0 A \<longrightarrow>
      lin_terms (c_expr (m_constrs model ! i))
        = map (\<lambda>j. (item A i j, j))
            (filter (\<lambda>j. linear_expression_tol < \<bar>item A i j\<bar>) [0..<shape1 A])
      \<and> (\<bar>b ! i\<bar> \<le> linear_expression_tol \<longrightarrow> lin_const (c_expr (m_constrs model ! i)) = 0)
      \<and> ((\<forall>j<shape1 A. \<bar>item A i j\<bar> \<le> linear_expression_tol) \<longrightarrow>
            lin_terms (c_expr (m_constrs model ! i)) = []))
   \<and> (build_model (Some H') f' A' b' C' d' = Inr model' \<longrightarrow>
      quad_terms (m_objective model')
        = map (\<lambda>(h, i, j). (binary64 (h / 2), i, j))
            (concat (map (\<lambda>i. map (\<lambda>j. (item H' i j, i, j))
                (filter (\<lambda>j. quadratic_expression_tol < \<bar>item H' i j\<bar>) [0..<shape1 H']))
              [0..<shape0 H'])))
   \<and> linear_expression_tol = binary64 (1 / 10 ^ 10)
   \<and> quadratic_expression_tol = binary64 (1 / 10 ^ 7)
   \<and> (\<forall>i<3. \<forall>j<3. \<bar>item (of_rows (env_A tape)) i j\<bar> \<le> linear_expression_tol)
   \<and> (build_model H'' f'' (of_rows (env_A tape)) b'' C'' d'' = Inr model'' \<and> k < 3 \<longrightarrow>
        lin_terms (c_expr (m_constrs model'' ! k)) = [])"
proof (intro conjI impI)
  assume h: "build_model H f A b C d = Inr model \<and> i < shape0 A"
  then have m: "build_model H f A b C d = Inr model" and i: "i < shape0 A" by simp_all
  show t: "lin_terms (c_expr (m_constrs model ! i))
        = map (\<lambda>j. (item A i j, j))
            (filter (\<lambda>j. linear_expression_tol < \<bar>item A i j\<bar>) [0..<shape1 A])"
    by (rule build_model_constr(1) [OF m i])
  { assume "\<bar>b ! i\<bar> \<le> linear_expression_tol"
    then show "lin_const (c_expr (m_constrs model ! i)) = 0"
      by (rule build_model_constr(2) [OF m i]) }
  { assume s: "\<forall>j<shape1 A. \<bar>item A i j\<bar> \<le> linear_expression_tol"
    have "filter (\<lambda>j. linear_expression_tol < \<bar>item A i j\<bar>) [0..<shape1 A] = []"
      using s by (simp add: filter_empty_conv not_less)
    with t show "lin_terms (c_expr (m_constrs model ! i)) = []" by simp }
next
  assume "build_model (Some H') f' A' b' C' d' = Inr model'"
  then show "quad_terms (m_objective model')
        = map (\<lambda>(h, i, j). (binary64 (h / 2), i, j))
            (concat (map (\<lambda>i. map (\<lambda>j. (item H' i j, i, j))
                (filter (\<lambda>j. quadratic_expression_tol < \<bar>item H' i j\<bar>) [0..<shape1 H']))
              [0..<shape0 H']))"
    by (rule build_model_objective)
next
  show "linear_expression_tol = binary64 (1 / 10 ^ 10)"
    by (simp add: linear_expression_tol_def)
next
  show "quadratic_expression_tol = binary64 (1 / 10 ^ 7)"
    by (simp add: quadratic_expression_tol_def)
next
  show "\<forall>i<3. \<forall>j<3. \<bar>item (of_rows (env_A tape)) i j\<bar> \<le> linear_expression_tol"
    using tape_A_small by blast
next
  assume h: "build_model H'' f'' (of_rows (env_A tape)) b'' C'' d'' = Inr model'' \<and> k < 3"
  then have m: "build_model H'' f'' (of_rows (env_A tape)) b'' C'' d'' = Inr model''"
    and k: "k < shape0 (of_rows (env_A tape))" by (simp_all add: tape_A_shape)
  have "filter (\<lambda>j. linear_expression_tol < \<bar>item (of_rows (env_A tape)) k j\<bar>)
          [0..<shape1 (of_rows (env_A tape))] = []"
    using tape_A_small h by (simp add: filter_empty_conv not_less tape_A_shape)
  with build_model_constr(1) [OF m k]
  show "lin_terms (c_expr (m_constrs model'' ! k)) = []" by simp
qed

text \<open>Claim C10 at two models: an inequality system with the tape benchmark's matrix,
  which keeps the offsets and no variable term, and the small mixed-integer program, whose
  coefficients are all kept.\<close>

theorem small_coefficients_dropped_witness:
  "(\<exists>model. build_model None (of_rows [[1], [1], [1]]) (of_rows (env_A tape)) [1, 1, 1] None None
      = Inr model
     \<and> (0::nat) < 3
     \<and> (\<forall>j<3. \<bar>item (of_rows (env_A tape)) 0 j\<bar> \<le> linear_expression_tol)
     \<and> lin_terms (c_expr (m_constrs model ! 0)) = []
     \<and> lin_terms (c_expr (m_constrs model ! 1)) = []
     \<and> lin_terms (c_expr (m_constrs model ! 2)) = []
     \<and> lin_const (c_expr (m_constrs model ! 0)) = - 1)
   \<and> (\<exists>model. build_model (Some small_miqp_H) small_miqp_f small_miqp_A [1] None None = Inr model
     \<and> quad_terms (m_objective model) = [(1 / 2, 0, 0), (1 / 2, 1, 1)]
     \<and> lin_terms (c_expr (m_constrs model ! 0)) = [(1, 0), (1, 1)])"
proof -
  obtain m1 where m1: "build_model None (of_rows [[1], [1], [1]]) (of_rows (env_A tape))
      [1, 1, 1] None None = Inr m1"
    using tape_lp_model by blast
  obtain m2 where m2: "build_model (Some small_miqp_H) small_miqp_f small_miqp_A [1] None None
      = Inr m2"
    using small_miqp_build by blast
  have s: "shape0 small_miqp_A = 1" "shape1 small_miqp_A = 2" "shape0 small_miqp_H = 2"
    "shape1 small_miqp_H = 2"
    by (simp_all add: small_miqp_A_def small_miqp_H_def of_rows_def)
  have u: "[0..<2] = [0, 1]"
    by (simp add: upt_rec)
  have a: "lin_terms (c_expr (m_constrs m1 ! k)) = []" if "k < 3" for k
    using small_coefficients_dropped [of None "of_rows [[1], [1], [1]]" "of_rows (env_A tape)"
        "[1, 1, 1]" None None m1 k small_miqp_H small_miqp_f small_miqp_A "[1]" None None m2
        None "of_rows [[1], [1], [1]]" "[1, 1, 1]" None None m1 k] m1 that
    by blast
  have q: "quad_terms (m_objective m2) = [(1 / 2, 0, 0), (1 / 2, 1, 1)]"
    using small_coefficients_dropped [of "Some small_miqp_H" small_miqp_f small_miqp_A "[1]" None
        None m2 0 small_miqp_H small_miqp_f small_miqp_A "[1]" None None m2
        None "of_rows [[1], [1], [1]]" "[1, 1, 1]" None None m1 0] m2
    unfolding s u by (simp add: small_miqp_H_def of_rows_def tols b64_0_5)
  have l: "lin_terms (c_expr (m_constrs m2 ! 0)) = [(1, 0), (1, 1)]"
    using small_coefficients_dropped [of "Some small_miqp_H" small_miqp_f small_miqp_A "[1]" None
        None m2 0 small_miqp_H small_miqp_f small_miqp_A "[1]" None None m2
        None "of_rows [[1], [1], [1]]" "[1, 1, 1]" None None m1 0] m2
    unfolding s u by (simp add: small_miqp_A_def of_rows_def tols)
  have b: "\<forall>j<3. \<bar>item (of_rows (env_A tape)) 0 j\<bar> \<le> linear_expression_tol"
    using tape_A_small by simp
  have c: "lin_const (c_expr (m_constrs m1 ! 0)) = - 1"
    using m1 by (auto simp: tape_A build_eval named_constrs_def upt_rec [of 0 3] upt_rec [of 1 3] upt_rec [of 2 3])
  from m1 m2 a [of 0] a [of 1] a [of 2] b q l c show ?thesis by auto
qed


end
